theory Spec2Isabelle
  imports Main "HOL-Library.AList" "HOL-Library.Word"
begin

section \<open>Values of the Azure Media Services SDK that the scripts read\<close>

text \<open>
  The three scripts (\<^verbatim>\<open>AnalyzeVideoAndAudios/Program.py\<close>,
  \<^verbatim>\<open>EncryptWithAES/Program.py\<close>, \<^verbatim>\<open>Live/Program.py\<close>) are sequential
  orchestrations of calls to a remote service. The model keeps the scripts' own control flow
  (existence checks, polling loops, \<^verbatim>\<open>try/except/finally\<close>) and takes the remote service, the
  storage service and the imported library functions as parameters that act on an abstract
  world \<open>'w\<close>. Every call that can raise returns a sum, \<open>Inl\<close> carrying the exception.
\<close>

datatype exn =
    ApiErrorException string
  | AttributeError
  | IndexError
  | KeyError string
  | EOFError
  | OtherException string

type_synonym bytes = "8 word list"

datatype JobState =
    JobState_canceled | JobState_canceling | JobState_error | JobState_finished
  | JobState_processing | JobState_queued | JobState_scheduled

datatype LiveEventResourceState =
    LiveEventResourceState_stopped | LiveEventResourceState_starting
  | LiveEventResourceState_running | LiveEventResourceState_stopping
  | LiveEventResourceState_deleting

datatype StreamingEndpointResourceState =
    StreamingEndpointResourceState_stopped | StreamingEndpointResourceState_starting
  | StreamingEndpointResourceState_running | StreamingEndpointResourceState_stopping
  | StreamingEndpointResourceState_deleting | StreamingEndpointResourceState_scaling

datatype StreamingPolicyStreamingProtocol =
    StreamingPolicyStreamingProtocol_hls | StreamingPolicyStreamingProtocol_dash
  | StreamingPolicyStreamingProtocol_smooth_streaming | StreamingPolicyStreamingProtocol_download

datatype EncryptionScheme =
    EncryptionScheme_no_encryption | EncryptionScheme_envelope_encryption
  | EncryptionScheme_common_encryption_cenc | EncryptionScheme_common_encryption_cbcs

datatype AssetContainerPermission =
    AssetContainerPermission_read | AssetContainerPermission_read_write
  | AssetContainerPermission_read_write_delete

datatype EncoderNamedPreset = EncoderNamedPreset_adaptive_streaming

datatype Preset =
    VideoAnalyzerPreset string
  | AudioAnalyzerPreset string
  | BuiltInStandardEncoderPreset EncoderNamedPreset

record Asset =
  Asset_name :: string

record TransformOutput =
  TransformOutput_preset :: Preset

record Transform =
  Transform_name :: string
  Transform_outputs :: "TransformOutput list"

record JobOutput =
  JobOutput_state :: JobState
  JobOutput_progress :: int

record Job =
  Job_name :: string
  Job_state :: JobState
  Job_outputs :: "JobOutput list"

record StreamingLocator =
  StreamingLocator_name :: string
  StreamingLocator_content_keys :: "string list"

record StreamingPath =
  StreamingPath_streaming_protocol :: StreamingPolicyStreamingProtocol
  StreamingPath_encryption_scheme :: EncryptionScheme
  StreamingPath_paths :: "string list"

record StreamingEndpoint =
  StreamingEndpoint_resource_state :: StreamingEndpointResourceState
  StreamingEndpoint_host_name :: string

record LiveEvent =
  LiveEvent_resource_state :: LiveEventResourceState
  LiveEvent_input_endpoints :: "string list"
  LiveEvent_preview_endpoints :: "string list"

record MediaService =
  MediaService_location :: string

record ContentKeyPolicyOption =
  restriction_issuer :: string
  restriction_audience :: string
  primary_verification_key :: bytes
  required_claims :: "(string \<times> string option) list"

record ContentKeyPolicy =
  ContentKeyPolicy_name :: string

record BlockBlobService =
  BlockBlobService_account_name :: string
  BlockBlobService_sas_token :: string

record ParseResult =
  ParseResult_netloc :: string
  ParseResult_path :: string
  ParseResult_query :: string

datatype claim = ClaimStr string | ClaimDatetime int

record 'w AzureMediaServices =
  assets_create_or_update :: "string \<Rightarrow> string \<Rightarrow> string \<Rightarrow> 'w \<Rightarrow> (exn + Asset) \<times> 'w"
  assets_list_container_sas ::
    "string \<Rightarrow> string \<Rightarrow> string \<Rightarrow> AssetContainerPermission \<Rightarrow> int \<Rightarrow> 'w \<Rightarrow> (exn + string list) \<times> 'w"
  assets_get :: "string \<Rightarrow> string \<Rightarrow> string \<Rightarrow> 'w \<Rightarrow> (exn + Asset option) \<times> 'w"
  assets_list :: "string \<Rightarrow> string \<Rightarrow> 'w \<Rightarrow> (exn + Asset list) \<times> 'w"
  assets_delete :: "string \<Rightarrow> string \<Rightarrow> string \<Rightarrow> 'w \<Rightarrow> (exn + unit) \<times> 'w"
  transforms_get :: "string \<Rightarrow> string \<Rightarrow> string \<Rightarrow> 'w \<Rightarrow> (exn + Transform option) \<times> 'w"
  transforms_create_or_update ::
    "string \<Rightarrow> string \<Rightarrow> string \<Rightarrow> TransformOutput list \<Rightarrow> 'w \<Rightarrow> (exn + Transform) \<times> 'w"
  jobs_create ::
    "string \<Rightarrow> string \<Rightarrow> string \<Rightarrow> string \<Rightarrow> string \<Rightarrow> string list \<Rightarrow> 'w \<Rightarrow> (exn + Job) \<times> 'w"
  jobs_get :: "string \<Rightarrow> string \<Rightarrow> string \<Rightarrow> string \<Rightarrow> 'w \<Rightarrow> (exn + Job option) \<times> 'w"
  jobs_list :: "string \<Rightarrow> string \<Rightarrow> string \<Rightarrow> 'w \<Rightarrow> (exn + Job list) \<times> 'w"
  jobs_delete :: "string \<Rightarrow> string \<Rightarrow> string \<Rightarrow> string \<Rightarrow> 'w \<Rightarrow> (exn + unit) \<times> 'w"
  content_key_policies_get ::
    "string \<Rightarrow> string \<Rightarrow> string \<Rightarrow> 'w \<Rightarrow> (exn + ContentKeyPolicy option) \<times> 'w"
  content_key_policies_create_or_update ::
    "string \<Rightarrow> string \<Rightarrow> string \<Rightarrow> ContentKeyPolicyOption list \<Rightarrow> 'w \<Rightarrow> (exn + ContentKeyPolicy) \<times> 'w"
  content_key_policies_delete :: "string \<Rightarrow> string \<Rightarrow> string \<Rightarrow> 'w \<Rightarrow> (exn + unit) \<times> 'w"
  streaming_locators_create ::
    "string \<Rightarrow> string \<Rightarrow> string \<Rightarrow> string \<Rightarrow> string \<Rightarrow> string option \<Rightarrow> 'w
       \<Rightarrow> (exn + StreamingLocator) \<times> 'w"
  streaming_locators_list :: "string \<Rightarrow> string \<Rightarrow> 'w \<Rightarrow> (exn + StreamingLocator list) \<times> 'w"
  streaming_locators_delete :: "string \<Rightarrow> string \<Rightarrow> string \<Rightarrow> 'w \<Rightarrow> (exn + unit) \<times> 'w"
  streaming_locators_list_paths ::
    "string \<Rightarrow> string \<Rightarrow> string \<Rightarrow> 'w \<Rightarrow> (exn + StreamingPath list) \<times> 'w"
  streaming_endpoints_get ::
    "string \<Rightarrow> string \<Rightarrow> string \<Rightarrow> 'w \<Rightarrow> (exn + StreamingEndpoint option) \<times> 'w"
  streaming_endpoints_start :: "string \<Rightarrow> string \<Rightarrow> string \<Rightarrow> 'w \<Rightarrow> (exn + unit) \<times> 'w"
  live_events_create :: "string \<Rightarrow> string \<Rightarrow> string \<Rightarrow> string \<Rightarrow> bool \<Rightarrow> 'w \<Rightarrow> (exn + LiveEvent) \<times> 'w"
  live_events_get :: "string \<Rightarrow> string \<Rightarrow> string \<Rightarrow> 'w \<Rightarrow> (exn + LiveEvent option) \<times> 'w"
  live_events_stop :: "string \<Rightarrow> string \<Rightarrow> string \<Rightarrow> bool \<Rightarrow> 'w \<Rightarrow> (exn + unit) \<times> 'w"
  live_events_delete :: "string \<Rightarrow> string \<Rightarrow> string \<Rightarrow> 'w \<Rightarrow> (exn + unit) \<times> 'w"
  live_outputs_create ::
    "string \<Rightarrow> string \<Rightarrow> string \<Rightarrow> string \<Rightarrow> string \<Rightarrow> string \<Rightarrow> int \<Rightarrow> 'w \<Rightarrow> (exn + unit) \<times> 'w"
  mediaservices_get :: "string \<Rightarrow> string \<Rightarrow> 'w \<Rightarrow> (exn + MediaService) \<times> 'w"

section \<open>Remote calls, the world and the trace of effects\<close>

text \<open>
  A remote call as the scripts write it: the operation and its arguments. The constant
  arguments of a call (the empty \<^verbatim>\<open>Asset()\<close>, the fixed fields of the \<^verbatim>\<open>LiveEvent\<close>
  that \<^verbatim>\<open>create_live_event\<close> builds) are left out; the ones that vary are kept.
\<close>

datatype api_call =
    Assets_create_or_update string string string
  | Assets_list_container_sas string string string AssetContainerPermission int
  | Assets_get string string string
  | Assets_list string string
  | Assets_delete string string string
  | Transforms_get string string string
  | Transforms_create_or_update string string string "TransformOutput list"
  | Jobs_create string string string string string "string list"
  | Jobs_get string string string string
  | Jobs_list string string string
  | Jobs_delete string string string string
  | Content_key_policies_get string string string
  | Content_key_policies_create_or_update string string string "ContentKeyPolicyOption list"
  | Content_key_policies_delete string string string
  | Streaming_locators_create string string string string string "string option"
  | Streaming_locators_list string string
  | Streaming_locators_delete string string string
  | Streaming_locators_list_paths string string string
  | Streaming_endpoints_get string string string
  | Streaming_endpoints_start string string string
  | Live_events_create string string string string bool
  | Live_events_get string string string
  | Live_events_stop string string string bool
  | Live_events_delete string string string
  | Live_outputs_create string string string string string string int
  | Mediaservices_get string string
  | Blob_create_blob_from_path BlockBlobService string string string
  | Blob_list_blobs BlockBlobService string
  | Blob_get_blob_to_path BlockBlobService string string string

datatype pyval = PStr string | PInt int | PJobState JobState | PExn exn

datatype cleanup_method = M_clean_up_live_event_and_live_output | M_clean_up_locator_and_asset

text \<open>
  What a run leaves behind, in order: each remote call issued (\<open>Api\<close>), the exception a
  remote call raised (\<open>ApiRaised\<close>, right after its call), each \<^verbatim>\<open>print\<close> (the format
  string and the values formatted into it), each \<^verbatim>\<open>time.sleep\<close> (seconds), each
  \<^verbatim>\<open>input\<close> prompt, and a marker for each entry into one of the live script's two
  cleanup methods.
\<close>

datatype event =
    Api api_call
  | ApiRaised exn
  | Print string "pyval list"
  | Sleep nat
  | Input string
  | Enter cleanup_method

record 'w state =
  world :: 'w
  trace :: "event list"

text \<open>The imported modules: \<^verbatim>\<open>uuid\<close>, \<^verbatim>\<open>datetime\<close>, \<^verbatim>\<open>time\<close>, \<^verbatim>\<open>os\<close>,
  \<^verbatim>\<open>urllib.parse\<close>, \<^verbatim>\<open>jwt\<close>, the console and \<^verbatim>\<open>BlockBlobService\<close>.
  A \<^verbatim>\<open>datetime\<close> is a count of microseconds.\<close>

record 'w libs =
  uuid1 :: "'w \<Rightarrow> string \<times> 'w"
  uuid1_address :: string
  utcnow :: "'w \<Rightarrow> int \<times> 'w"
  time_sleep :: "nat \<Rightarrow> 'w \<Rightarrow> 'w"
  console_input :: "string \<Rightarrow> 'w \<Rightarrow> (exn + string) \<times> 'w"
  urandom :: "nat \<Rightarrow> 'w \<Rightarrow> bytes \<times> 'w"
  jwt_encode :: "(string \<times> claim) list \<Rightarrow> bytes \<Rightarrow> string \<Rightarrow> bytes"
  bytes_decode :: "bytes \<Rightarrow> string \<Rightarrow> exn + string"
  urlparse :: "string \<Rightarrow> ParseResult"
  urlunparse :: "string \<Rightarrow> string \<Rightarrow> string \<Rightarrow> string"
  getcwd :: "'w \<Rightarrow> (exn + string) \<times> 'w"
  path_exists :: "string \<Rightarrow> 'w \<Rightarrow> bool \<times> 'w"
  makedirs :: "string \<Rightarrow> 'w \<Rightarrow> (exn + unit) \<times> 'w"
  path_join :: "string \<Rightarrow> string \<Rightarrow> string"
  create_blob_from_path :: "BlockBlobService \<Rightarrow> string \<Rightarrow> string \<Rightarrow> string \<Rightarrow> 'w \<Rightarrow> (exn + unit) \<times> 'w"
  list_blobs :: "BlockBlobService \<Rightarrow> string \<Rightarrow> 'w \<Rightarrow> (exn + string list) \<times> 'w"
  get_blob_to_path :: "BlockBlobService \<Rightarrow> string \<Rightarrow> string \<Rightarrow> string \<Rightarrow> 'w \<Rightarrow> (exn + unit) \<times> 'w"

text \<open>\<^verbatim>\<open>class Program\<close>: the live script's fields, extended by the analyze script's
  \<^verbatim>\<open>transform_name\<close> and then by the encrypt script's policy, claim and signing key.\<close>

record 'w Program =
  account_name :: string
  resource_group_name :: string
  client :: "'w AzureMediaServices"

record 'w Analyze_Program = "'w Program" +
  transform_name :: string

record 'w Encrypt_Program = "'w Analyze_Program" +
  content_key_policy_name :: string
  content_key_identifier_claim_type :: string
  issuer :: string
  audience :: string
  token_sign_key :: bytes

subsection \<open>Computations that may raise\<close>

type_synonym ('w, 'a) M = "'w state \<Rightarrow> (exn + 'a) \<times> 'w state"

type_synonym ('w, 'a) P = "'w state \<Rightarrow> ((exn + 'a) \<times> 'w state) option"

definition returnM :: "'a \<Rightarrow> ('w, 'a) M" where
  "returnM a s = (Inr a, s)"

definition raiseM :: "exn \<Rightarrow> ('w, 'a) M" where
  "raiseM e s = (Inl e, s)"

definition bindM :: "('w, 'a) M \<Rightarrow> ('a \<Rightarrow> ('w, 'b) M) \<Rightarrow> ('w, 'b) M" where
  "bindM m f s = (case m s of (Inl e, s1) \<Rightarrow> (Inl e, s1) | (Inr a, s1) \<Rightarrow> f a s1)"

text \<open>A computation that may also run forever (\<open>None\<close>).\<close>

definition liftP :: "('w, 'a) M \<Rightarrow> ('w, 'a) P" where
  "liftP m s = Some (m s)"

definition bindP :: "('w, 'a) P \<Rightarrow> ('a \<Rightarrow> ('w, 'b) P) \<Rightarrow> ('w, 'b) P" where
  "bindP m f s =
     (case m s of
        None \<Rightarrow> None
      | Some (Inl e, s1) \<Rightarrow> Some (Inl e, s1)
      | Some (Inr a, s1) \<Rightarrow> f a s1)"

text \<open>A remote call: it is logged, and so is the exception it raises.\<close>

definition invoke :: "api_call \<Rightarrow> ('w \<Rightarrow> (exn + 'a) \<times> 'w) \<Rightarrow> ('w, 'a) M" where
  "invoke c op s =
     (case op (world s) of
        (Inl e, w') \<Rightarrow> (Inl e, \<lparr>world = w', trace = trace s @ [Api c, ApiRaised e]\<rparr>)
      | (Inr a, w') \<Rightarrow> (Inr a, \<lparr>world = w', trace = trace s @ [Api c]\<rparr>))"

text \<open>A local library call: it acts on the world and is not logged.\<close>

definition effect :: "('w \<Rightarrow> (exn + 'a) \<times> 'w) \<Rightarrow> ('w, 'a) M" where
  "effect op s = (case op (world s) of (r, w') \<Rightarrow> (r, \<lparr>world = w', trace = trace s\<rparr>))"

definition effect_total :: "('w \<Rightarrow> 'a \<times> 'w) \<Rightarrow> ('w, 'a) M" where
  "effect_total op s = (case op (world s) of (a, w') \<Rightarrow> (Inr a, \<lparr>world = w', trace = trace s\<rparr>))"

definition print :: "string \<Rightarrow> pyval list \<Rightarrow> 'w state \<Rightarrow> 'w state" where
  "print fmt args s = \<lparr>world = world s, trace = trace s @ [Print fmt args]\<rparr>"

definition printM :: "string \<Rightarrow> pyval list \<Rightarrow> ('w, unit) M" where
  "printM fmt args s = (Inr (), print fmt args s)"

definition sleep :: "'w libs \<Rightarrow> nat \<Rightarrow> 'w state \<Rightarrow> 'w state" where
  "sleep lib n s = \<lparr>world = time_sleep lib n (world s), trace = trace s @ [Sleep n]\<rparr>"

definition sleepM :: "'w libs \<Rightarrow> nat \<Rightarrow> ('w, unit) M" where
  "sleepM lib n s = (Inr (), sleep lib n s)"

definition inputM :: "'w libs \<Rightarrow> string \<Rightarrow> ('w, string) M" where
  "inputM lib prompt s =
     (case console_input lib prompt (world s) of
        (r, w') \<Rightarrow> (r, \<lparr>world = w', trace = trace s @ [Input prompt]\<rparr>))"

definition enterM :: "cleanup_method \<Rightarrow> ('w, unit) M" where
  "enterM m s = (Inr (), \<lparr>world = world s, trace = trace s @ [Enter m]\<rparr>)"

text \<open>\<^verbatim>\<open>xs[0]\<close>: IndexError on the empty list.\<close>

definition first_item :: "'a list \<Rightarrow> ('w, 'a) M" where
  "first_item xs = (case xs of [] \<Rightarrow> raiseM IndexError | x # _ \<Rightarrow> returnM x)"

text \<open>\<^verbatim>\<open>for x in xs: body(x)\<close>: the first exception ends the loop.\<close>

fun for_each :: "'a list \<Rightarrow> ('a \<Rightarrow> ('w, unit) M) \<Rightarrow> ('w, unit) M" where
  "for_each [] body s = (Inr (), s)"
| "for_each (x # xs) body s =
     (case body x s of (Inl e, s1) \<Rightarrow> (Inl e, s1) | (Inr _, s1) \<Rightarrow> for_each xs body s1)"

text \<open>\<^verbatim>\<open>str(f)\<close> of a function object, as CPython prints it.\<close>

definition str_function :: "string \<Rightarrow> string \<Rightarrow> string" where
  "str_function qualname address = ''<function '' @ qualname @ '' at 0x'' @ address @ ''>''"

definition timedelta_minutes :: "int \<Rightarrow> int" where
  "timedelta_minutes m = m * 60 * 1000000"

definition timedelta_hours :: "int \<Rightarrow> int" where
  "timedelta_hours h = h * 3600 * 1000000"

section \<open>Methods that the analyze and the encrypt script share\<close>

text \<open>
  \<^verbatim>\<open>create_input_asset\<close>, \<^verbatim>\<open>create_output_asset\<close>, \<^verbatim>\<open>submit_job\<close> and
  \<^verbatim>\<open>wait_for_job_to_finish\<close> have the same text in
  \<^verbatim>\<open>AnalyzeVideoAndAudios/Program.py\<close> and in \<^verbatim>\<open>EncryptWithAES/Program.py\<close>; each is
  modelled once.
\<close>

text \<open>The part of both download and upload that turns a container SAS URL into a blob
  service and a container name: \<^verbatim>\<open>netloc.split('.')[0]\<close>, \<^verbatim>\<open>path[1:]\<close>, \<^verbatim>\<open>query\<close>.\<close>

definition blob_service_of_sas :: "'w libs \<Rightarrow> string \<Rightarrow> BlockBlobService \<times> string" where
  "blob_service_of_sas lib sasUri =
     (let parsed_url = urlparse lib sasUri;
          storage_account_name = takeWhile (\<lambda>c. c \<noteq> CHR ''.'') (ParseResult_netloc parsed_url);
          container_name = drop 1 (ParseResult_path parsed_url);
          token = ParseResult_query parsed_url
      in (\<lparr>BlockBlobService_account_name = storage_account_name,
           BlockBlobService_sas_token = token\<rparr>, container_name))"

definition create_input_asset ::
  "'w libs \<Rightarrow> ('w, 'z) Program_scheme \<Rightarrow> string \<Rightarrow> string \<Rightarrow> string \<Rightarrow> string \<Rightarrow> ('w, Asset) M" where
  "create_input_asset lib self rg acct asset_name file_to_upload =
     bindM (invoke (Assets_create_or_update rg acct asset_name)
              (assets_create_or_update (client self) rg acct asset_name)) (\<lambda>asset.
     bindM (effect_total (utcnow lib)) (\<lambda>now0.
     bindM (effect_total (utcnow lib)) (\<lambda>now1.
     bindM (invoke (Assets_list_container_sas rg acct asset_name
                      AssetContainerPermission_read_write (now1 + timedelta_hours 4))
              (assets_list_container_sas (client self) rg acct asset_name
                      AssetContainerPermission_read_write (now1 + timedelta_hours 4))) (\<lambda>response.
     bindM (first_item response) (\<lambda>sasUri.
     (case blob_service_of_sas lib sasUri of (block_blob_service, container_name) \<Rightarrow>
     bindM (effect (getcwd lib)) (\<lambda>local_path.
     bindM (invoke (Blob_create_blob_from_path block_blob_service container_name file_to_upload
                      (path_join lib local_path file_to_upload))
              (create_blob_from_path lib block_blob_service container_name file_to_upload
                      (path_join lib local_path file_to_upload))) (\<lambda>_.
     returnM asset))))))))"

text \<open>The warning's dash is U+2013, printed as its three UTF-8 bytes.\<close>

definition create_output_asset ::
  "'w libs \<Rightarrow> ('w, 'z) Program_scheme \<Rightarrow> string \<Rightarrow> string \<Rightarrow> string \<Rightarrow> ('w, Asset) M" where
  "create_output_asset lib self rg acct asset_name =
     bindM (invoke (Assets_get rg acct asset_name) (assets_get (client self) rg acct asset_name))
       (\<lambda>output_asset.
     bindM (case output_asset of
              None \<Rightarrow> returnM asset_name
            | Some _ \<Rightarrow>
                (let output_asset_name = asset_name @ str_function ''uuid1'' (uuid1_address lib) in
                 bindM (printM (''Warning '' @ [CHR 0xE2, CHR 0x80, CHR 0x93]
                                  @ '' found an existing Asset with name = '' @ asset_name) []) (\<lambda>_.
                 bindM (printM (''Creating an Asset with this name instead: '' @ output_asset_name) [])
                   (\<lambda>_.
                 returnM output_asset_name))))
       (\<lambda>output_asset_name.
     invoke (Assets_create_or_update rg acct output_asset_name)
       (assets_create_or_update (client self) rg acct output_asset_name)))"

definition submit_job ::
  "('w, 'z) Program_scheme \<Rightarrow> string \<Rightarrow> string \<Rightarrow> string \<Rightarrow> string \<Rightarrow> string \<Rightarrow> string \<Rightarrow> ('w, Job) M"
  where
  "submit_job self rg acct tn jn inputasset_name outputasset_name =
     invoke (Jobs_create rg acct tn jn inputasset_name [outputasset_name])
       (jobs_create (client self) rg acct tn jn inputasset_name [outputasset_name])"

definition SleepIntervalMs :: nat where
  "SleepIntervalMs = 5"

fun print_job_outputs :: "nat \<Rightarrow> JobOutput list \<Rightarrow> 'w state \<Rightarrow> 'w state" where
  "print_job_outputs i [] s = s"
| "print_job_outputs i (output # rest) s =
     (let s1 = print '' JobOutput[{}] is {}'' [PInt (int i), PJobState (JobOutput_state output)] s;
          s2 = (if JobOutput_state output = JobState_processing
                then print ''  Progress: {}'' [PInt (JobOutput_progress output)] s1
                else s1)
      in print_job_outputs (Suc i) rest s2)"

definition print_job :: "Job \<Rightarrow> 'w state \<Rightarrow> 'w state" where
  "print_job job s =
     print_job_outputs 0 (Job_outputs job) (print ''Job is {}'' [PJobState (Job_state job)] s)"

definition job_is_done :: "Job \<Rightarrow> bool" where
  "job_is_done job \<longleftrightarrow>
     Job_state job = JobState_finished \<or> Job_state job = JobState_error
       \<or> Job_state job = JobState_canceled"

text \<open>The \<^verbatim>\<open>while True\<close> loop: \<open>None\<close> is the loop that never leaves. \<^verbatim>\<open>jobs.get\<close>
  answers \<^verbatim>\<open>None\<close> for a job that does not exist, and \<^verbatim>\<open>job.state\<close> then raises.\<close>

partial_function (option) wait_for_job_to_finish ::
  "'w libs \<Rightarrow> ('w, 'z) Program_scheme \<Rightarrow> string \<Rightarrow> string \<Rightarrow> string \<Rightarrow> string \<Rightarrow> ('w, Job) P" where
  "wait_for_job_to_finish lib self rg acct tn jn s =
     (case invoke (Jobs_get rg acct tn jn) (jobs_get (client self) rg acct tn jn) s of
        (Inl e, s1) \<Rightarrow> Some (Inl e, s1)
      | (Inr None, s1) \<Rightarrow> Some (Inl AttributeError, s1)
      | (Inr (Some job), s1) \<Rightarrow>
          (let s2 = print_job job s1
           in if job_is_done job then Some (Inr job, s2)
              else wait_for_job_to_finish lib self rg acct tn jn (sleep lib SleepIntervalMs s2)))"

section \<open>The analyze script\<close>

definition Analyze_get_or_create_transform ::
  "('w, 'z) Program_scheme \<Rightarrow> string \<Rightarrow> string \<Rightarrow> string \<Rightarrow> Preset \<Rightarrow> ('w, Transform) M" where
  "Analyze_get_or_create_transform self rg acct tn preset =
     bindM (invoke (Transforms_get rg acct tn) (transforms_get (client self) rg acct tn))
       (\<lambda>transform.
     case transform of
       None \<Rightarrow>
         (let transformOutput = \<lparr>TransformOutput_preset = preset\<rparr>;
              output = [transformOutput]
          in invoke (Transforms_create_or_update rg acct tn output)
               (transforms_create_or_update (client self) rg acct tn output))
     | Some t \<Rightarrow> returnM t)"

definition download_output_asset ::
  "'w libs \<Rightarrow> ('w, 'z) Program_scheme \<Rightarrow> string \<Rightarrow> string \<Rightarrow> string \<Rightarrow> string \<Rightarrow> ('w, unit) M" where
  "download_output_asset lib self rg acct asset_name output_folder_name =
     bindM (effect_total (path_exists lib output_folder_name)) (\<lambda>ex.
     bindM (if \<not> ex then effect (makedirs lib output_folder_name) else returnM ()) (\<lambda>_.
     bindM (effect_total (utcnow lib)) (\<lambda>now.
     bindM (invoke (Assets_list_container_sas rg acct asset_name
                      AssetContainerPermission_read (now + timedelta_hours 4))
              (assets_list_container_sas (client self) rg acct asset_name
                      AssetContainerPermission_read (now + timedelta_hours 4))) (\<lambda>assetContainerSas.
     bindM (first_item assetContainerSas) (\<lambda>container_sas_url.
     (let directory = path_join lib output_folder_name asset_name in
     bindM (effect (makedirs lib directory)) (\<lambda>_.
     bindM (printM ''Downloading output results to {}'' [PStr directory]) (\<lambda>_.
     (case blob_service_of_sas lib container_sas_url of (block_blob_service, container_name) \<Rightarrow>
     bindM (invoke (Blob_list_blobs block_blob_service container_name)
              (list_blobs lib block_blob_service container_name)) (\<lambda>generator.
     bindM (for_each generator (\<lambda>blob_name.
              bindM (printM ''Downloading Blob: {}'' [PStr blob_name]) (\<lambda>_.
              invoke (Blob_get_blob_to_path block_blob_service container_name blob_name
                        (path_join lib directory blob_name))
                (get_blob_to_path lib block_blob_service container_name blob_name
                        (path_join lib directory blob_name))))) (\<lambda>_.
     printM ''Download complete.'' [])))))))))))"

definition Analyze_clean_up ::
  "('w, 'z) Program_scheme \<Rightarrow> string \<Rightarrow> string \<Rightarrow> string \<Rightarrow> ('w, unit) M" where
  "Analyze_clean_up self rg acct tn =
     bindM (invoke (Jobs_list rg acct tn) (jobs_list (client self) rg acct tn)) (\<lambda>jobs.
     bindM (for_each jobs (\<lambda>job.
              invoke (Jobs_delete rg acct tn (Job_name job))
                (jobs_delete (client self) rg acct tn (Job_name job)))) (\<lambda>_.
     bindM (invoke (Assets_list rg acct) (assets_list (client self) rg acct)) (\<lambda>assets.
     for_each assets (\<lambda>asset.
       invoke (Assets_delete rg acct (Asset_name asset))
         (assets_delete (client self) rg acct (Asset_name asset))))))"

definition Analyze_run :: "'w libs \<Rightarrow> ('w, 'z) Analyze_Program_scheme \<Rightarrow> ('w, unit) P" where
  "Analyze_run lib self =
     (let input_mp4_file_name = ''ignite.mp4'';
          output_folder_name = ''output''
      in
     bindP (liftP (effect_total (uuid1 lib))) (\<lambda>uniqueness.
     (let job_name = ''job-'' @ uniqueness;
          locator_name = ''locator-'' @ uniqueness;
          output_asset_name = ''output-'' @ uniqueness;
          input_asset_name = ''input-'' @ uniqueness
      in
     bindP (liftP (Analyze_get_or_create_transform self (resource_group_name self) (account_name self)
                     (transform_name self) (VideoAnalyzerPreset ''en-US''))) (\<lambda>transform.
     bindP (liftP (create_input_asset lib self (resource_group_name self) (account_name self)
                     input_asset_name input_mp4_file_name)) (\<lambda>_.
     bindP (liftP (create_output_asset lib self (resource_group_name self) (account_name self)
                     output_asset_name)) (\<lambda>output_asset.
     bindP (liftP (submit_job self (resource_group_name self) (account_name self)
                     (transform_name self) job_name input_asset_name (Asset_name output_asset)))
       (\<lambda>job0.
     bindP (wait_for_job_to_finish lib self (resource_group_name self) (account_name self)
              (transform_name self) job_name) (\<lambda>job.
     if Job_state job = JobState_finished then
       liftP (bindM (printM ''Job finished.'' []) (\<lambda>_.
              bindM (download_output_asset lib self (resource_group_name self) (account_name self)
                       (Asset_name output_asset) output_folder_name) (\<lambda>_.
              printM ''Done.'' [])))
     else liftP (returnM ())))))))))"

section \<open>The encrypt script\<close>

text \<open>\<^verbatim>\<open>Program.__init__\<close>: the settings are read in the source's order (a missing key
  raises KeyError), the signing key is drawn between the two groups of settings, and the
  client is built from the credentials.\<close>

definition config_get :: "(string \<rightharpoonup> string) \<Rightarrow> string \<Rightarrow> ('w, string) M" where
  "config_get config k = (case config k of None \<Rightarrow> raiseM (KeyError k) | Some v \<Rightarrow> returnM v)"

definition Encrypt_Program_init ::
  "'w libs \<Rightarrow> (string \<rightharpoonup> string)
     \<Rightarrow> (string \<Rightarrow> string \<Rightarrow> string \<Rightarrow> string \<Rightarrow> 'w AzureMediaServices)
     \<Rightarrow> ('w, 'w Encrypt_Program) M" where
  "Encrypt_Program_init lib config new_client =
     bindM (config_get config ''ACCOUNT_NAME'') (\<lambda>v_account_name.
     bindM (config_get config ''RESOURCE_GROUP_NAME'') (\<lambda>v_resource_group_name.
     bindM (config_get config ''TRANSFORM_NAME'') (\<lambda>v_transform_name.
     bindM (config_get config ''CONTENT_KEY_POLICY_NAME'') (\<lambda>v_content_key_policy_name.
     bindM (config_get config ''CONTENT_KEY_IDENTIFIER_CLAIM_TYPE'') (\<lambda>v_claim_type.
     bindM (config_get config ''ISSUER'') (\<lambda>v_issuer.
     bindM (config_get config ''AUDIENCE'') (\<lambda>v_audience.
     bindM (effect_total (urandom lib 40)) (\<lambda>v_token_sign_key.
     bindM (config_get config ''CLIENT'') (\<lambda>client_id.
     bindM (config_get config ''KEY'') (\<lambda>key.
     bindM (config_get config ''SUBSCRIPTION_ID'') (\<lambda>subscription_id.
     bindM (config_get config ''TENANT_ID'') (\<lambda>tenant_id.
     returnM \<lparr>account_name = v_account_name,
              resource_group_name = v_resource_group_name,
              client = new_client client_id key subscription_id tenant_id,
              transform_name = v_transform_name,
              content_key_policy_name = v_content_key_policy_name,
              content_key_identifier_claim_type = v_claim_type,
              issuer = v_issuer,
              audience = v_audience,
              token_sign_key = v_token_sign_key\<rparr>))))))))))))"

definition get_or_create_content_key_policy ::
  "('w, 'z) Encrypt_Program_scheme \<Rightarrow> string \<Rightarrow> string \<Rightarrow> string \<Rightarrow> ('w, ContentKeyPolicy) M" where
  "get_or_create_content_key_policy self rg acct name =
     bindM (invoke (Content_key_policies_get rg acct name)
              (content_key_policies_get (client self) rg acct name)) (\<lambda>policy.
     case policy of
       None \<Rightarrow>
         (let option = \<lparr>restriction_issuer = issuer self,
                        restriction_audience = audience self,
                        primary_verification_key = token_sign_key self,
                        required_claims = [(content_key_identifier_claim_type self, None)]\<rparr>
          in invoke (Content_key_policies_create_or_update rg acct name [option])
               (content_key_policies_create_or_update (client self) rg acct name [option]))
     | Some p \<Rightarrow> returnM p)"

definition Encrypt_get_or_create_transform ::
  "('w, 'z) Program_scheme \<Rightarrow> string \<Rightarrow> string \<Rightarrow> string \<Rightarrow> ('w, Transform) M" where
  "Encrypt_get_or_create_transform self rg acct tn =
     bindM (invoke (Transforms_get rg acct tn) (transforms_get (client self) rg acct tn))
       (\<lambda>transform.
     case transform of
       None \<Rightarrow>
         (let preset = BuiltInStandardEncoderPreset EncoderNamedPreset_adaptive_streaming;
              transformOutput = \<lparr>TransformOutput_preset = preset\<rparr>;
              output = [transformOutput]
          in invoke (Transforms_create_or_update rg acct tn output)
               (transforms_create_or_update (client self) rg acct tn output))
     | Some t \<Rightarrow> returnM t)"

definition create_streaming_locator ::
  "('w, 'z) Program_scheme \<Rightarrow> string \<Rightarrow> string \<Rightarrow> string \<Rightarrow> string \<Rightarrow> string
     \<Rightarrow> ('w, StreamingLocator) M" where
  "create_streaming_locator self rg acct asset_name locator_name policy_name =
     invoke (Streaming_locators_create rg acct locator_name asset_name ''Predefined_ClearKey''
               (Some policy_name))
       (streaming_locators_create (client self) rg acct locator_name asset_name
               ''Predefined_ClearKey'' (Some policy_name))"

text \<open>The payload is a dict literal: its items are stored left to right, and a key written
  twice keeps its first position and its last value, which is what \<open>AList.update\<close> does.
  \<^verbatim>\<open>utcnow()\<close> is read once for \<^verbatim>\<open>nbf\<close> and once more for \<^verbatim>\<open>exp\<close>.\<close>

definition token_payload ::
  "string \<Rightarrow> string \<Rightarrow> string \<Rightarrow> string \<Rightarrow> int \<Rightarrow> int \<Rightarrow> (string \<times> claim) list" where
  "token_payload iss aud key_identifier_claim_type key_identifier now_nbf now_exp =
     AList.update ''exp'' (ClaimDatetime (now_exp + timedelta_hours 1))
    (AList.update ''nbf'' (ClaimDatetime (now_nbf + timedelta_minutes (- 5)))
    (AList.update key_identifier_claim_type (ClaimStr key_identifier)
    (AList.update ''aud'' (ClaimStr aud)
    (AList.update ''iss'' (ClaimStr iss) []))))"

definition get_token ::
  "'w libs \<Rightarrow> string \<Rightarrow> string \<Rightarrow> string \<Rightarrow> string \<Rightarrow> bytes \<Rightarrow> ('w, string) M" where
  "get_token lib iss aud key_identifier_claim_type key_identifier token_verification_key =
     bindM (effect_total (utcnow lib)) (\<lambda>now_nbf.
     bindM (effect_total (utcnow lib)) (\<lambda>now_exp.
     (let payload = token_payload iss aud key_identifier_claim_type key_identifier now_nbf now_exp
      in case bytes_decode lib (jwt_encode lib payload token_verification_key ''HS256'') ''utf-8'' of
           Inl e \<Rightarrow> raiseM e
         | Inr token \<Rightarrow> returnM token)))"

text \<open>The loop of \<^verbatim>\<open>get_dash_streaming_url\<close>: \<^verbatim>\<open>streaming_endpoint.host_name\<close> is read in
  each round, also when the endpoint is \<^verbatim>\<open>None\<close>.\<close>

fun dash_path_loop ::
  "'w libs \<Rightarrow> StreamingEndpoint option \<Rightarrow> StreamingPath list \<Rightarrow> string \<Rightarrow> exn + string" where
  "dash_path_loop lib streaming_endpoint [] dash_path = Inr dash_path"
| "dash_path_loop lib streaming_endpoint (p # rest) dash_path =
     (case streaming_endpoint of
        None \<Rightarrow> Inl AttributeError
      | Some ep \<Rightarrow>
          if StreamingPath_streaming_protocol p = StreamingPolicyStreamingProtocol_dash then
            (case StreamingPath_paths p of
               [] \<Rightarrow> Inl IndexError
             | path # _ \<Rightarrow>
                 dash_path_loop lib streaming_endpoint rest
                   (urlunparse lib ''https'' (StreamingEndpoint_host_name ep) path))
          else dash_path_loop lib streaming_endpoint rest dash_path)"

definition DefaultStreamingEndpointName :: string where
  "DefaultStreamingEndpointName = ''default''"

definition get_dash_streaming_url ::
  "'w libs \<Rightarrow> ('w, 'z) Program_scheme \<Rightarrow> string \<Rightarrow> string \<Rightarrow> string \<Rightarrow> ('w, string) M" where
  "get_dash_streaming_url lib self rg acct locator_name =
     bindM (invoke (Streaming_endpoints_get rg acct DefaultStreamingEndpointName)
              (streaming_endpoints_get (client self) rg acct DefaultStreamingEndpointName))
       (\<lambda>streaming_endpoint.
     bindM (case streaming_endpoint of
              None \<Rightarrow> returnM ()
            | Some ep \<Rightarrow>
                if StreamingEndpoint_resource_state ep \<noteq> StreamingEndpointResourceState_running
                then invoke (Streaming_endpoints_start rg acct DefaultStreamingEndpointName)
                       (streaming_endpoints_start (client self) rg acct DefaultStreamingEndpointName)
                else returnM ()) (\<lambda>_.
     bindM (invoke (Streaming_locators_list_paths rg acct locator_name)
              (streaming_locators_list_paths (client self) rg acct locator_name)) (\<lambda>paths.
     case dash_path_loop lib streaming_endpoint paths [] of
       Inl e \<Rightarrow> raiseM e
     | Inr dash_path \<Rightarrow> returnM dash_path)))"

definition Encrypt_clean_up ::
  "('w, 'z) Program_scheme \<Rightarrow> string \<Rightarrow> string \<Rightarrow> string \<Rightarrow> string \<Rightarrow> ('w, unit) M" where
  "Encrypt_clean_up self rg acct tn policy_name =
     bindM (invoke (Jobs_list rg acct tn) (jobs_list (client self) rg acct tn)) (\<lambda>jobs.
     bindM (for_each jobs (\<lambda>job.
              invoke (Jobs_delete rg acct tn (Job_name job))
                (jobs_delete (client self) rg acct tn (Job_name job)))) (\<lambda>_.
     bindM (invoke (Streaming_locators_list rg acct) (streaming_locators_list (client self) rg acct))
       (\<lambda>streaming_locators.
     bindM (for_each streaming_locators (\<lambda>locator.
              invoke (Streaming_locators_delete rg acct (StreamingLocator_name locator))
                (streaming_locators_delete (client self) rg acct (StreamingLocator_name locator))))
       (\<lambda>_.
     bindM (invoke (Assets_list rg acct) (assets_list (client self) rg acct)) (\<lambda>assets.
     bindM (for_each assets (\<lambda>asset.
              invoke (Assets_delete rg acct (Asset_name asset))
                (assets_delete (client self) rg acct (Asset_name asset)))) (\<lambda>_.
     invoke (Content_key_policies_delete rg acct policy_name)
       (content_key_policies_delete (client self) rg acct policy_name)))))))"

definition Encrypt_run_finished ::
  "'w libs \<Rightarrow> ('w, 'z) Encrypt_Program_scheme \<Rightarrow> string \<Rightarrow> string \<Rightarrow> ('w, unit) M" where
  "Encrypt_run_finished lib self output_asset_name locator_name =
     bindM (printM ''Job finished.'' []) (\<lambda>_.
     bindM (get_or_create_content_key_policy self (resource_group_name self) (account_name self)
              (content_key_policy_name self)) (\<lambda>policy.
     bindM (create_streaming_locator self (resource_group_name self) (account_name self)
              output_asset_name locator_name (content_key_policy_name self)) (\<lambda>locator.
     bindM (first_item (StreamingLocator_content_keys locator)) (\<lambda>key_identifier.
     bindM (get_token lib (issuer self) (audience self) (content_key_identifier_claim_type self)
              key_identifier (token_sign_key self)) (\<lambda>token.
     bindM (get_dash_streaming_url lib self (resource_group_name self) (account_name self)
              (StreamingLocator_name locator)) (\<lambda>dash_path.
     bindM (printM ''Copy and paste the following URL in your browser to play back the file in the Azure Media Player.'' []) (\<lambda>_.
     bindM (printM ''Note, the player is set to use the AES token and the Bearer token is specified. '' []) (\<lambda>_.
     bindM (printM [] []) (\<lambda>_.
     bindM (printM ''https://ampdemo.azureedge.net/?url={}&aes=true&aestoken=Bearer%3D{}''
              [PStr dash_path, PStr token]) (\<lambda>_.
     printM [] []))))))))))"

definition Encrypt_run :: "'w libs \<Rightarrow> ('w, 'z) Encrypt_Program_scheme \<Rightarrow> ('w, unit) P" where
  "Encrypt_run lib self =
     (let input_mp4_file_name = ''ignite.mp4'';
          output_folder_name = ''output''
      in
     bindP (liftP (effect_total (uuid1 lib))) (\<lambda>uniqueness.
     (let job_name = ''job-'' @ uniqueness;
          locator_name = ''locator-'' @ uniqueness;
          output_asset_name = ''output-'' @ uniqueness;
          input_asset_name = ''input-'' @ uniqueness
      in
     bindP (liftP (Encrypt_get_or_create_transform self (resource_group_name self)
                     (account_name self) (transform_name self))) (\<lambda>transform.
     bindP (liftP (create_input_asset lib self (resource_group_name self) (account_name self)
                     input_asset_name input_mp4_file_name)) (\<lambda>_.
     bindP (liftP (create_output_asset lib self (resource_group_name self) (account_name self)
                     output_asset_name)) (\<lambda>output_asset.
     bindP (liftP (submit_job self (resource_group_name self) (account_name self)
                     (transform_name self) job_name input_asset_name (Asset_name output_asset)))
       (\<lambda>job0.
     bindP (wait_for_job_to_finish lib self (resource_group_name self) (account_name self)
              (transform_name self) job_name) (\<lambda>job.
     bindP (liftP (if Job_state job = JobState_finished
                   then Encrypt_run_finished lib self (Asset_name output_asset) locator_name
                   else returnM ())) (\<lambda>_.
     liftP (bindM (printM ''clean up ...'' []) (\<lambda>_.
            bindM (inputM lib ''press any key to continue'') (\<lambda>_.
            Encrypt_clean_up self (resource_group_name self) (account_name self)
              (transform_name self) (content_key_policy_name self)))))))))))))"

section \<open>The live script\<close>

text \<open>The methods of this script take \<^verbatim>\<open>resource_group_name\<close> and \<^verbatim>\<open>account_name\<close>
  and then read \<^verbatim>\<open>self.resource_group_name\<close> and \<^verbatim>\<open>self.account_name\<close> instead; the
  model passes the parameters and uses the fields where the source does.\<close>

definition create_live_event ::
  "('w, 'z) Program_scheme \<Rightarrow> string \<Rightarrow> string \<Rightarrow> string \<Rightarrow> ('w, LiveEvent) M" where
  "create_live_event self rg acct live_event_name =
     bindM (invoke (Mediaservices_get rg acct) (mediaservices_get (client self) rg acct))
       (\<lambda>media_service.
     bindM (printM ''Creating a live event named {}'' [PStr live_event_name]) (\<lambda>_.
     bindM (printM ''Creating the LiveEvent, be patient this can take time...'' []) (\<lambda>_.
     invoke (Live_events_create rg (account_name self) live_event_name
               (MediaService_location media_service) True)
       (live_events_create (client self) rg (account_name self) live_event_name
               (MediaService_location media_service) True))))"

definition clean_up_live_event_and_live_output ::
  "'w libs \<Rightarrow> ('w, 'z) Program_scheme \<Rightarrow> string \<Rightarrow> string \<Rightarrow> string \<Rightarrow> ('w, unit) M" where
  "clean_up_live_event_and_live_output lib self rg acct live_event_name =
     bindM (enterM M_clean_up_live_event_and_live_output) (\<lambda>_.
     bindM (invoke (Live_events_get (resource_group_name self) (account_name self) live_event_name)
              (live_events_get (client self) (resource_group_name self) (account_name self)
                 live_event_name)) (\<lambda>live_event.
     case live_event of
       None \<Rightarrow> returnM ()
     | Some ev \<Rightarrow>
         bindM (if LiveEvent_resource_state ev = LiveEventResourceState_running
                then bindM (invoke (Live_events_stop (resource_group_name self) (account_name self)
                                      live_event_name True)
                              (live_events_stop (client self) (resource_group_name self)
                                      (account_name self) live_event_name True)) (\<lambda>_.
                     sleepM lib 10)
                else returnM ()) (\<lambda>_.
         invoke (Live_events_delete (resource_group_name self) (account_name self) live_event_name)
           (live_events_delete (client self) (resource_group_name self) (account_name self)
              live_event_name))))"

definition clean_up_locator_and_asset ::
  "('w, 'z) Program_scheme \<Rightarrow> string \<Rightarrow> string \<Rightarrow> string \<Rightarrow> string \<Rightarrow> ('w, unit) M" where
  "clean_up_locator_and_asset self rg acct locator_name asset_name =
     bindM (enterM M_clean_up_locator_and_asset) (\<lambda>_.
     bindM (invoke (Streaming_locators_delete (resource_group_name self) (account_name self)
                      locator_name)
              (streaming_locators_delete (client self) (resource_group_name self)
                      (account_name self) locator_name)) (\<lambda>_.
     invoke (Assets_delete (resource_group_name self) (account_name self) asset_name)
       (assets_delete (client self) (resource_group_name self) (account_name self) asset_name)))"

text \<open>The \<^verbatim>\<open>while True\<close> loop of \<^verbatim>\<open>run\<close> (lines 203 to 207).\<close>

partial_function (option) wait_for_live_event ::
  "'w libs \<Rightarrow> ('w, 'z) Program_scheme \<Rightarrow> string \<Rightarrow> ('w, LiveEvent) P" where
  "wait_for_live_event lib self live_event_name s =
     (case invoke (Live_events_get (resource_group_name self) (account_name self) live_event_name)
             (live_events_get (client self) (resource_group_name self) (account_name self)
                live_event_name) s of
        (Inl e, s1) \<Rightarrow> Some (Inl e, s1)
      | (Inr (Some live_event), s1) \<Rightarrow> Some (Inr live_event, s1)
      | (Inr None, s1) \<Rightarrow> wait_for_live_event lib self live_event_name (sleep lib 5 s1))"

text \<open>\<^verbatim>\<open>str\<close> of the two enumerations that the loop over the streaming paths formats: the
  values the SDK declares for them.\<close>

fun str_StreamingPolicyStreamingProtocol :: "StreamingPolicyStreamingProtocol \<Rightarrow> string" where
  "str_StreamingPolicyStreamingProtocol StreamingPolicyStreamingProtocol_hls = ''Hls''"
| "str_StreamingPolicyStreamingProtocol StreamingPolicyStreamingProtocol_dash = ''Dash''"
| "str_StreamingPolicyStreamingProtocol StreamingPolicyStreamingProtocol_smooth_streaming =
     ''SmoothStreaming''"
| "str_StreamingPolicyStreamingProtocol StreamingPolicyStreamingProtocol_download = ''Download''"

fun str_EncryptionScheme :: "EncryptionScheme \<Rightarrow> string" where
  "str_EncryptionScheme EncryptionScheme_no_encryption = ''NoEncryption''"
| "str_EncryptionScheme EncryptionScheme_envelope_encryption = ''EnvelopeEncryption''"
| "str_EncryptionScheme EncryptionScheme_common_encryption_cenc = ''CommonEncryptionCenc''"
| "str_EncryptionScheme EncryptionScheme_common_encryption_cbcs = ''CommonEncryptionCbcs''"

text \<open>The loop over \<^verbatim>\<open>paths.streaming_paths\<close>: the pair is
  \<^verbatim>\<open>(player_path, string_builder)\<close>.\<close>

fun streaming_paths_loop ::
  "'w libs \<Rightarrow> string \<Rightarrow> StreamingPath list \<Rightarrow> string \<times> string \<Rightarrow> string \<times> string" where
  "streaming_paths_loop lib host [] acc = acc"
| "streaming_paths_loop lib host (streaming_path # rest) (player_path, string_builder) =
     (case StreamingPath_paths streaming_path of
        [] \<Rightarrow> streaming_paths_loop lib host rest (player_path, string_builder)
      | path # _ \<Rightarrow>
          streaming_paths_loop lib host rest
            (if StreamingPath_streaming_protocol streaming_path = StreamingPolicyStreamingProtocol_dash
             then urlunparse lib ''https'' host path else player_path,
             string_builder
               @ [CHR 0x09]
               @ str_StreamingPolicyStreamingProtocol (StreamingPath_streaming_protocol streaming_path)
               @ ''-'' @ str_EncryptionScheme (StreamingPath_encryption_scheme streaming_path)
               @ [CHR 0x09, CHR 0x09]
               @ urlunparse lib ''https'' host path))"

text \<open>The \<^verbatim>\<open>try\<close> block after the polling loop (lines 210 to 280).\<close>

definition Live_run_streaming ::
  "'w libs \<Rightarrow> ('w, 'z) Program_scheme \<Rightarrow> LiveEvent \<Rightarrow> string \<Rightarrow> string \<Rightarrow> string \<Rightarrow> string
     \<Rightarrow> string \<Rightarrow> ('w, unit) M" where
  "Live_run_streaming lib self live_event live_event_name asset_name live_output_name
       streaming_locator_name streaming_endpoint_name =
     bindM (first_item (LiveEvent_input_endpoints live_event)) (\<lambda>ingest_url.
     bindM (printM ''The ingest url to configure the on premise encoderwith is: {}''
              [PStr ingest_url]) (\<lambda>_.
     bindM (first_item (LiveEvent_preview_endpoints live_event)) (\<lambda>preview_endpoint.
     bindM (printM ''The preview url is {}'' [PStr preview_endpoint]) (\<lambda>_.
     bindM (printM ''Open the live preview in your browser and use the Azure Media Player to monitor the preview playback:'' []) (\<lambda>_.
     bindM (printM ([CHR 0x09] @ ''https://ampdemo.azureedge.net/?url={}&heuristicprofile=lowlatency'')
              [PStr preview_endpoint]) (\<lambda>_.
     bindM (printM ''Creating an asset named {}'' [PStr asset_name]) (\<lambda>_.
     bindM (invoke (Assets_create_or_update (resource_group_name self) (account_name self) asset_name)
              (assets_create_or_update (client self) (resource_group_name self) (account_name self)
                 asset_name)) (\<lambda>asset.
     bindM (printM ''Creating a live output named {}'' [PStr live_output_name]) (\<lambda>_.
     bindM (invoke (Live_outputs_create (resource_group_name self) (account_name self)
                      live_event_name live_output_name (Asset_name asset) ''output''
                      (timedelta_minutes 10))
              (live_outputs_create (client self) (resource_group_name self) (account_name self)
                      live_event_name live_output_name (Asset_name asset) ''output''
                      (timedelta_minutes 10))) (\<lambda>liveOutput.
     bindM (printM ''Creating a streaming locator named {}'' [PStr streaming_locator_name]) (\<lambda>_.
     bindM (invoke (Streaming_locators_create (resource_group_name self) (account_name self)
                      streaming_locator_name (Asset_name asset) ''Predefined_ClearStreamingOnly'' None)
              (streaming_locators_create (client self) (resource_group_name self) (account_name self)
                      streaming_locator_name (Asset_name asset) ''Predefined_ClearStreamingOnly'' None))
       (\<lambda>locator.
     bindM (invoke (Streaming_endpoints_get (resource_group_name self) (account_name self)
                      streaming_endpoint_name)
              (streaming_endpoints_get (client self) (resource_group_name self) (account_name self)
                      streaming_endpoint_name)) (\<lambda>streaming_endpoint_opt.
     bindM (case streaming_endpoint_opt of None \<Rightarrow> raiseM AttributeError | Some ep \<Rightarrow> returnM ep)
       (\<lambda>streaming_endpoint.
     bindM (if StreamingEndpoint_resource_state streaming_endpoint
                 \<noteq> StreamingEndpointResourceState_running
            then bindM (printM ''Streaming Endpoint was Stopped, restarting now..'' []) (\<lambda>_.
                 invoke (Streaming_endpoints_start (resource_group_name self) (account_name self)
                           streaming_endpoint_name)
                   (streaming_endpoints_start (client self) (resource_group_name self)
                           (account_name self) streaming_endpoint_name))
            else returnM ()) (\<lambda>_.
     bindM (invoke (Streaming_locators_list_paths (resource_group_name self) (account_name self)
                      streaming_locator_name)
              (streaming_locators_list_paths (client self) (resource_group_name self)
                      (account_name self) streaming_locator_name)) (\<lambda>paths.
     bindM (printM ''The urls to stream the output from a client:'' []) (\<lambda>_.
     (case streaming_paths_loop lib (StreamingEndpoint_host_name streaming_endpoint) paths ([], [])
      of (player_path, string_builder) \<Rightarrow>
     if length string_builder > 0 then
       bindM (printM ''Open the following URL to playback the published,recording LiveOutput in the Azure Media Player'' []) (\<lambda>_.
       bindM (printM ([CHR 0x09] @ '' https://ampdemo.azureedge.net/?url={}&heuristicprofile=lowlatency'')
                [PStr player_path]) (\<lambda>_.
       bindM (printM ''Continue experimenting with the stream until you are ready to finish.'' [])
         (\<lambda>_.
       bindM (inputM lib ''Press enter to stop the LiveOutput...'') (\<lambda>_.
       bindM (clean_up_live_event_and_live_output lib self (resource_group_name self)
                (account_name self) live_event_name) (\<lambda>_.
       bindM (printM ''The LiveOutput and LiveEvent are now deleted.  The event is available as an archive and can still be streamed.'' []) (\<lambda>_.
       bindM (inputM lib ''Press enter to finish cleanup...'') (\<lambda>_.
       returnM ())))))))
     else
       bindM (printM ''No Streaming Paths were detected.  Has the Stream been started?'' []) (\<lambda>_.
       printM ''Cleaning up and Exiting...'' [])))))))))))))))))))"

text \<open>The whole \<^verbatim>\<open>try\<close> block, once the names are fixed.\<close>

definition Live_run_try ::
  "'w libs \<Rightarrow> ('w, 'z) Program_scheme \<Rightarrow> string \<Rightarrow> string \<Rightarrow> string \<Rightarrow> string \<Rightarrow> string
     \<Rightarrow> ('w, unit) P" where
  "Live_run_try lib self live_event_name asset_name live_output_name streaming_locator_name
       streaming_endpoint_name =
     bindP (liftP (create_live_event self (resource_group_name self) (account_name self)
                     live_event_name)) (\<lambda>live_event0.
     bindP (wait_for_live_event lib self live_event_name) (\<lambda>live_event.
     liftP (Live_run_streaming lib self live_event live_event_name asset_name live_output_name
              streaming_locator_name streaming_endpoint_name)))"

text \<open>\<^verbatim>\<open>except ApiErrorException as ex\<close>: the exception is printed and the block ends
  normally; any other outcome passes through.\<close>

fun Live_run_except :: "(exn + unit) \<times> 'w state \<Rightarrow> (exn + unit) \<times> 'w state" where
  "Live_run_except (Inl (ApiErrorException msg), s) =
     (Inr (), print ''{}'' [PExn (ApiErrorException msg)] (print ''Hit ApiErrorException'' [] s))"
| "Live_run_except (r, s) = (r, s)"

text \<open>\<^verbatim>\<open>finally\<close>: the two cleanup methods in turn; an exception raised here replaces the
  outcome of the block, and the outcome of the block stands otherwise.\<close>

definition Live_run_finally ::
  "'w libs \<Rightarrow> ('w, 'z) Program_scheme \<Rightarrow> string \<Rightarrow> string \<Rightarrow> string
     \<Rightarrow> (exn + unit) \<times> 'w state \<Rightarrow> (exn + unit) \<times> 'w state" where
  "Live_run_finally lib self live_event_name streaming_locator_name asset_name outcome =
     (case outcome of (r, s) \<Rightarrow>
        (case bindM (clean_up_live_event_and_live_output lib self (resource_group_name self)
                       (account_name self) live_event_name) (\<lambda>_.
                     clean_up_locator_and_asset self (resource_group_name self) (account_name self)
                       streaming_locator_name asset_name) s of
           (Inl e, s') \<Rightarrow> (Inl e, s')
         | (Inr _, s') \<Rightarrow> (r, s')))"

definition Live_run :: "'w libs \<Rightarrow> ('w, 'z) Program_scheme \<Rightarrow> ('w, unit) P" where
  "Live_run lib self s =
     (case uuid1 lib (world s) of (u, w0) \<Rightarrow>
        (let uniqueness = take 13 u;
             live_event_name = ''liveevent-'' @ uniqueness;
             asset_name = ''archiveasset-'' @ uniqueness;
             live_output_name = ''liveoutput-'' @ uniqueness;
             streaming_locator_name = ''streaminglocator-'' @ uniqueness;
             streaming_endpoint_name = ''default''
         in case Live_run_try lib self live_event_name asset_name live_output_name
                   streaming_locator_name streaming_endpoint_name \<lparr>world = w0, trace = trace s\<rparr> of
              None \<Rightarrow> None
            | Some outcome \<Rightarrow>
                Some (Live_run_finally lib self live_event_name streaming_locator_name asset_name
                        (Live_run_except outcome))))"

section \<open>Observations used to state the properties\<close>

text \<open>What \<^verbatim>\<open>jobs.get\<close> answers in a state, and the state in which the next round of
  the polling loop starts when the job fetched is not done.\<close>

definition fetched_job ::
  "('w, 'z) Program_scheme \<Rightarrow> string \<Rightarrow> string \<Rightarrow> string \<Rightarrow> string \<Rightarrow> 'w state \<Rightarrow> exn + Job option" where
  "fetched_job self rg acct tn jn s = fst (jobs_get (client self) rg acct tn jn (world s))"

definition poll_round ::
  "'w libs \<Rightarrow> ('w, 'z) Program_scheme \<Rightarrow> string \<Rightarrow> string \<Rightarrow> string \<Rightarrow> string \<Rightarrow> 'w state \<Rightarrow> 'w state" where
  "poll_round lib self rg acct tn jn s =
     (case invoke (Jobs_get rg acct tn jn) (jobs_get (client self) rg acct tn jn) s of
        (Inr (Some job), s1) \<Rightarrow> sleep lib SleepIntervalMs (print_job job s1)
      | (_, s1) \<Rightarrow> s1)"

definition never_done ::
  "'w libs \<Rightarrow> ('w, 'z) Program_scheme \<Rightarrow> string \<Rightarrow> string \<Rightarrow> string \<Rightarrow> string \<Rightarrow> 'w state \<Rightarrow> bool" where
  "never_done lib self rg acct tn jn s \<longleftrightarrow>
     (\<forall>i. \<exists>j. fetched_job self rg acct tn jn ((poll_round lib self rg acct tn jn ^^ i) s) = Inr (Some j)
              \<and> \<not> job_is_done j)"

text \<open>The remote calls and the sleeps of a trace, without its prints.\<close>

fun is_poll_or_sleep :: "event \<Rightarrow> bool" where
  "is_poll_or_sleep (Api _) = True"
| "is_poll_or_sleep (Sleep _) = True"
| "is_poll_or_sleep _ = False"

subsection \<open>A stub of the remote client and of the libraries\<close>

text \<open>A stub whose world is a counter. Every call succeeds with a plain answer and leaves
  the counter alone; the examples below replace single operations to script a scenario.\<close>

definition stub_client :: "nat AzureMediaServices" where
  "stub_client =
     \<lparr>assets_create_or_update = (\<lambda>rg acct name w. (Inr \<lparr>Asset_name = name\<rparr>, w)),
      assets_list_container_sas =
        (\<lambda>rg acct name perm expiry w. (Inr [''https://store.blob.example/box?sig=1''], w)),
      assets_get = (\<lambda>rg acct name w. (Inr None, w)),
      assets_list = (\<lambda>rg acct w. (Inr [], w)),
      assets_delete = (\<lambda>rg acct name w. (Inr (), w)),
      transforms_get = (\<lambda>rg acct name w. (Inr None, w)),
      transforms_create_or_update =
        (\<lambda>rg acct name outs w. (Inr \<lparr>Transform_name = name, Transform_outputs = outs\<rparr>, w)),
      jobs_create =
        (\<lambda>rg acct tn jn inp outs w.
           (Inr \<lparr>Job_name = jn, Job_state = JobState_queued, Job_outputs = []\<rparr>, w)),
      jobs_get =
        (\<lambda>rg acct tn jn w.
           (Inr (Some \<lparr>Job_name = jn, Job_state = JobState_finished, Job_outputs = []\<rparr>), w)),
      jobs_list = (\<lambda>rg acct tn w. (Inr [], w)),
      jobs_delete = (\<lambda>rg acct tn jn w. (Inr (), w)),
      content_key_policies_get = (\<lambda>rg acct name w. (Inr None, w)),
      content_key_policies_create_or_update =
        (\<lambda>rg acct name opts w. (Inr \<lparr>ContentKeyPolicy_name = name\<rparr>, w)),
      content_key_policies_delete = (\<lambda>rg acct name w. (Inr (), w)),
      streaming_locators_create =
        (\<lambda>rg acct name asset policy ckp w.
           (Inr \<lparr>StreamingLocator_name = name, StreamingLocator_content_keys = [''key-1'']\<rparr>, w)),
      streaming_locators_list = (\<lambda>rg acct w. (Inr [], w)),
      streaming_locators_delete = (\<lambda>rg acct name w. (Inr (), w)),
      streaming_locators_list_paths = (\<lambda>rg acct name w. (Inr [], w)),
      streaming_endpoints_get =
        (\<lambda>rg acct name w.
           (Inr (Some \<lparr>StreamingEndpoint_resource_state = StreamingEndpointResourceState_running,
                       StreamingEndpoint_host_name = ''host.example''\<rparr>), w)),
      streaming_endpoints_start = (\<lambda>rg acct name w. (Inr (), w)),
      live_events_create =
        (\<lambda>rg acct name loc auto w.
           (Inr \<lparr>LiveEvent_resource_state = LiveEventResourceState_running,
                 LiveEvent_input_endpoints = [''rtmp://ingest.example/live''],
                 LiveEvent_preview_endpoints = [''https://preview.example/p'']\<rparr>, w)),
      live_events_get =
        (\<lambda>rg acct name w.
           (Inr (if w = 0
                 then Some \<lparr>LiveEvent_resource_state = LiveEventResourceState_running,
                            LiveEvent_input_endpoints = [''rtmp://ingest.example/live''],
                            LiveEvent_preview_endpoints = [''https://preview.example/p'']\<rparr>
                 else None), w)),
      live_events_stop = (\<lambda>rg acct name remove w. (Inr (), w)),
      live_events_delete = (\<lambda>rg acct name w. (Inr (), Suc w)),
      live_outputs_create = (\<lambda>rg acct ev out asset manifest win w. (Inr (), w)),
      mediaservices_get = (\<lambda>rg acct w. (Inr \<lparr>MediaService_location = ''West US 2''\<rparr>, w))\<rparr>"

definition stub_libs :: "nat libs" where
  "stub_libs =
     \<lparr>uuid1 = (\<lambda>w. (''0a1b2c3d-4e5f-11ef-8a9b-0242ac120002'', w)),
      uuid1_address = ''7f3a5c1d2e50'',
      utcnow = (\<lambda>w. (1700000000000000, w)),
      time_sleep = (\<lambda>n w. w),
      console_input = (\<lambda>prompt w. (Inr [], w)),
      urandom = (\<lambda>n w. (replicate n 0, w)),
      jwt_encode = (\<lambda>payload key alg.
        map (\<lambda>c. of_nat (of_char c))
          (alg @ ''.'' @ concat (map (\<lambda>(k, v). k @ ''=''
              @ (case v of ClaimStr x \<Rightarrow> x | ClaimDatetime t \<Rightarrow> ''<datetime>'') @ '';'') payload))),
      bytes_decode = (\<lambda>b codec. Inr (map (\<lambda>x. char_of (unat x)) b)),
      urlparse = (\<lambda>url. \<lparr>ParseResult_netloc = ''store.blob.example'', ParseResult_path = ''/box'',
                          ParseResult_query = ''sig=1''\<rparr>),
      urlunparse = (\<lambda>scheme host path. scheme @ ''://'' @ host @ path),
      getcwd = (\<lambda>w. (Inr ''/home/user'', w)),
      path_exists = (\<lambda>p w. (True, w)),
      makedirs = (\<lambda>p w. (Inr (), w)),
      path_join = (\<lambda>a b. a @ ''/'' @ b),
      create_blob_from_path = (\<lambda>svc container blob file w. (Inr (), w)),
      list_blobs = (\<lambda>svc container w. (Inr [], w)),
      get_blob_to_path = (\<lambda>svc container blob file w. (Inr (), w))\<rparr>"

definition stub_self :: "nat AzureMediaServices \<Rightarrow> nat Program" where
  "stub_self c = \<lparr>account_name = ''acct'', resource_group_name = ''rg'', client = c\<rparr>"

definition stub_state :: "nat \<Rightarrow> nat state" where
  "stub_state w = \<lparr>world = w, trace = []\<rparr>"

text \<open>A job that is reported as processing on the first two fetches and as finished from
  the third on (the counter counts the fetches), and a job that is processing for ever.\<close>

definition job_in :: "JobState \<Rightarrow> Job" where
  "job_in st = \<lparr>Job_name = ''job-1'', Job_state = st,
                 Job_outputs = [\<lparr>JobOutput_state = st, JobOutput_progress = 40\<rparr>]\<rparr>"

definition client_finishing :: "nat AzureMediaServices" where
  "client_finishing =
     stub_client\<lparr>jobs_get := (\<lambda>rg acct tn jn w.
       (Inr (Some (job_in (if w < 2 then JobState_processing else JobState_finished))), Suc w))\<rparr>"

definition client_processing :: "nat AzureMediaServices" where
  "client_processing =
     stub_client\<lparr>jobs_get := (\<lambda>rg acct tn jn w. (Inr (Some (job_in JobState_processing)), Suc w))\<rparr>"

text \<open>The events a computation appended to the trace, and the remote calls among them.\<close>

definition new_events :: "'w state \<Rightarrow> 'w state \<Rightarrow> event list" where
  "new_events s s' = drop (length (trace s)) (trace s')"

fun api_calls :: "event list \<Rightarrow> api_call list" where
  "api_calls [] = []"
| "api_calls (Api c # evs) = c # api_calls evs"
| "api_calls (_ # evs) = api_calls evs"

fun prints :: "event list \<Rightarrow> event list" where
  "prints [] = []"
| "prints (Print fmt args # evs) = Print fmt args # prints evs"
| "prints (_ # evs) = prints evs"



text \<open>A service whose counter counts the assets created, and that reports an asset under
  every name asked for once one has been created.\<close>

definition client_assets :: "nat AzureMediaServices" where
  "client_assets =
     stub_client\<lparr>assets_get := (\<lambda>rg acct name w.
                    (Inr (if w = 0 then None else Some \<lparr>Asset_name = name\<rparr>), w)),
                 assets_create_or_update := (\<lambda>rg acct name w. (Inr \<lparr>Asset_name = name\<rparr>, Suc w))\<rparr>"

text \<open>The settings of the encrypt script, as \<^verbatim>\<open>settings.ini\<close> gives them.\<close>

definition stub_config :: "string \<rightharpoonup> string" where
  "stub_config =
     map_of [(''ACCOUNT_NAME'', ''acct''), (''RESOURCE_GROUP_NAME'', ''rg''),
             (''TRANSFORM_NAME'', ''t''), (''CONTENT_KEY_POLICY_NAME'', ''policy''),
             (''CONTENT_KEY_IDENTIFIER_CLAIM_TYPE'',
              ''urn:microsoft:azure:mediaservices:contentkeyidentifier''),
             (''ISSUER'', ''myIssuer''), (''AUDIENCE'', ''myAudience''),
             (''CLIENT'', ''client-id''), (''KEY'', ''secret''),
             (''SUBSCRIPTION_ID'', ''sub''), (''TENANT_ID'', ''tenant'')]"

text \<open>What \<^verbatim>\<open>live_events.get\<close> answers in a state, and the state in which the next round
  of the loop of \<^verbatim>\<open>run\<close> starts after an answer \<^verbatim>\<open>None\<close>.\<close>

definition fetched_live_event ::
  "('w, 'z) Program_scheme \<Rightarrow> string \<Rightarrow> 'w state \<Rightarrow> exn + LiveEvent option" where
  "fetched_live_event self live_event_name s =
     fst (live_events_get (client self) (resource_group_name self) (account_name self)
            live_event_name (world s))"

definition live_poll_round :: "'w libs \<Rightarrow> ('w, 'z) Program_scheme \<Rightarrow> string \<Rightarrow> 'w state \<Rightarrow> 'w state"
  where
  "live_poll_round lib self live_event_name s =
     sleep lib 5
       (snd (invoke (Live_events_get (resource_group_name self) (account_name self) live_event_name)
               (live_events_get (client self) (resource_group_name self) (account_name self)
                  live_event_name) s))"

definition never_created :: "'w libs \<Rightarrow> ('w, 'z) Program_scheme \<Rightarrow> string \<Rightarrow> 'w state \<Rightarrow> bool" where
  "never_created lib self live_event_name s \<longleftrightarrow>
     (\<forall>i. fetched_live_event self live_event_name
            ((live_poll_round lib self live_event_name ^^ i) s) = Inr None)"

definition created_after ::
  "'w libs \<Rightarrow> ('w, 'z) Program_scheme \<Rightarrow> string \<Rightarrow> 'w state \<Rightarrow> nat \<Rightarrow> LiveEvent \<Rightarrow> bool" where
  "created_after lib self live_event_name s n ev \<longleftrightarrow>
     fetched_live_event self live_event_name ((live_poll_round lib self live_event_name ^^ n) s)
       = Inr (Some ev)
     \<and> (\<forall>i<n. fetched_live_event self live_event_name
                 ((live_poll_round lib self live_event_name ^^ i) s) = Inr None)"

text \<open>A live event that the service reports from the third fetch on, and one that it never
  reports (the counter counts the fetches).\<close>

definition the_live_event :: LiveEvent where
  "the_live_event =
     \<lparr>LiveEvent_resource_state = LiveEventResourceState_running,
      LiveEvent_input_endpoints = [''rtmp://ingest.example/live''],
      LiveEvent_preview_endpoints = [''https://preview.example/p'']\<rparr>"

definition client_event_late :: "nat AzureMediaServices" where
  "client_event_late =
     stub_client\<lparr>live_events_get := (\<lambda>rg acct name w.
       (Inr (if w < 2 then None else Some the_live_event), Suc w))\<rparr>"

definition client_event_never :: "nat AzureMediaServices" where
  "client_event_never =
     stub_client\<lparr>live_events_get := (\<lambda>rg acct name w. (Inr None, Suc w))\<rparr>"


text \<open>
  Two facts about the events a computation appends, whatever state it starts in: a remote
  call that raised is the end of it, with that exception as its outcome; and it enters
  \<^verbatim>\<open>clean_up_locator_and_asset\<close> never and \<^verbatim>\<open>clean_up_live_event_and_live_output\<close> at
  most \<open>n\<close> times, and then only after the prompt that precedes the call in \<^verbatim>\<open>run\<close>.
\<close>

definition stop_prompt :: string where
  "stop_prompt = ''Press enter to stop the LiveOutput...''"

definition tame_events :: "nat \<Rightarrow> exn option \<Rightarrow> event list \<Rightarrow> bool" where
  "tame_events n x evs \<longleftrightarrow>
     (\<forall>e. ApiRaised e \<in> set evs \<longrightarrow> x = Some e)
     \<and> Enter M_clean_up_locator_and_asset \<notin> set evs
     \<and> count_list evs (Enter M_clean_up_live_event_and_live_output) \<le> n
     \<and> (Enter M_clean_up_live_event_and_live_output \<in> set evs \<longrightarrow> Input stop_prompt \<in> set evs)"

definition exn_of :: "exn + 'a \<Rightarrow> exn option" where
  "exn_of r = (case r of Inl e \<Rightarrow> Some e | Inr _ \<Rightarrow> None)"

definition tame :: "nat \<Rightarrow> ('w, 'a) M \<Rightarrow> bool" where
  "tame n m \<longleftrightarrow>
     (\<forall>s r s'. m s = (r, s') \<longrightarrow> (\<exists>evs. trace s' = trace s @ evs \<and> tame_events n (exn_of r) evs))"

definition tameP :: "nat \<Rightarrow> ('w, 'a) P \<Rightarrow> bool" where
  "tameP n m \<longleftrightarrow>
     (\<forall>s r s'. m s = Some (r, s') \<longrightarrow>
        (\<exists>evs. trace s' = trace s @ evs \<and> tame_events n (exn_of r) evs))"

text \<open>A service that is down: every call the live script makes first raises.\<close>

definition client_down :: "nat AzureMediaServices" where
  "client_down =
     stub_client\<lparr>mediaservices_get := (\<lambda>rg acct w. (Inl (ApiErrorException ''down''), w)),
                 live_events_get := (\<lambda>rg acct name w. (Inl (ApiErrorException ''down''), w)),
                 transforms_get := (\<lambda>rg acct name w. (Inl (ApiErrorException ''down''), w))\<rparr>"

text \<open>The \<^verbatim>\<open>Program\<close> objects of the analyze and of the encrypt script over a stub.\<close>

definition stub_analyze_self :: "nat AzureMediaServices \<Rightarrow> nat Analyze_Program" where
  "stub_analyze_self c =
     \<lparr>account_name = ''acct'', resource_group_name = ''rg'', client = c, transform_name = ''t''\<rparr>"

definition stub_encrypt_self :: "nat AzureMediaServices \<Rightarrow> nat Encrypt_Program" where
  "stub_encrypt_self c =
     \<lparr>account_name = ''acct'', resource_group_name = ''rg'', client = c, transform_name = ''t'',
      content_key_policy_name = ''policy'',
      content_key_identifier_claim_type = ''urn:microsoft:azure:mediaservices:contentkeyidentifier'',
      issuer = ''myIssuer'', audience = ''myAudience'', token_sign_key = replicate 40 0\<rparr>"

text \<open>A service that reports one streaming path for the locator.\<close>

definition client_streaming :: "nat AzureMediaServices" where
  "client_streaming =
     stub_client\<lparr>streaming_locators_list_paths := (\<lambda>rg acct name w.
       (Inr [\<lparr>StreamingPath_streaming_protocol = StreamingPolicyStreamingProtocol_dash,
               StreamingPath_encryption_scheme = EncryptionScheme_no_encryption,
               StreamingPath_paths = [''/locator/manifest(format=mpd-time-csf)'']\<rparr>], w))\<rparr>"

text \<open>The entries into the two cleanup methods of the live script, in order, and the
  outcome of a run together with them.\<close>

fun entries :: "event list \<Rightarrow> cleanup_method list" where
  "entries [] = []"
| "entries (Enter m # evs) = m # entries evs"
| "entries (_ # evs) = entries evs"

fun outcome_entries ::
  "((exn + 'a) \<times> 'w state) option \<Rightarrow> ((exn + 'a) \<times> cleanup_method list) option" where
  "outcome_entries None = None"
| "outcome_entries (Some (r, s)) = Some (r, entries (trace s))"

fun outcome_api_calls ::
  "((exn + 'a) \<times> 'w state) option \<Rightarrow> ((exn + 'a) \<times> api_call list) option" where
  "outcome_api_calls None = None"
| "outcome_api_calls (Some (r, s)) = Some (r, api_calls (trace s))"

section \<open>The job polling loop\<close>

lemma world_print [simp]: "world (print fmt args s) = world s"
  by (simp add: print_def)

lemma trace_print [simp]: "trace (print fmt args s) = trace s @ [Print fmt args]"
  by (simp add: print_def)

lemma print_job_outputs_prints:
  "\<exists>evs. print_job_outputs i os s = \<lparr>world = world s, trace = trace s @ evs\<rparr>
     \<and> (\<forall>e \<in> set evs. \<exists>fmt args. e = Print fmt args)"
proof (induction os arbitrary: i s)
  case Nil
  show ?case by (rule exI [of _ "[]"]) simp
next
  case (Cons out rest)
  let ?s1 = "print '' JobOutput[{}] is {}'' [PInt (int i), PJobState (JobOutput_state out)] s"
  let ?s2 = "if JobOutput_state out = JobState_processing
             then print ''  Progress: {}'' [PInt (JobOutput_progress out)] ?s1 else ?s1"
  from Cons.IH [of "Suc i" ?s2] obtain evs where
    e: "print_job_outputs (Suc i) rest ?s2 = \<lparr>world = world ?s2, trace = trace ?s2 @ evs\<rparr>"
    and p: "\<forall>e \<in> set evs. \<exists>fmt args. e = Print fmt args" by blast
  obtain pre where pre: "trace ?s2 = trace s @ pre" "\<forall>e \<in> set pre. \<exists>fmt args. e = Print fmt args"
    "world ?s2 = world s"
    by (cases "JobOutput_state out = JobState_processing") auto
  have "print_job_outputs i (out # rest) s = \<lparr>world = world s, trace = trace s @ (pre @ evs)\<rparr>"
    using e pre by (simp add: Let_def)
  moreover have "\<forall>e \<in> set (pre @ evs). \<exists>fmt args. e = Print fmt args"
    using p pre(2) by auto
  ultimately show ?case by blast
qed

lemma print_job_prints:
  "\<exists>evs. print_job job s = \<lparr>world = world s, trace = trace s @ evs\<rparr>
     \<and> (\<forall>e \<in> set evs. \<exists>fmt args. e = Print fmt args)"
proof -
  let ?s1 = "print ''Job is {}'' [PJobState (Job_state job)] s"
  from print_job_outputs_prints [of 0 "Job_outputs job" ?s1] obtain evs where
    e: "print_job_outputs 0 (Job_outputs job) ?s1 = \<lparr>world = world ?s1, trace = trace ?s1 @ evs\<rparr>"
    and p: "\<forall>e \<in> set evs. \<exists>fmt args. e = Print fmt args" by blast
  have "print_job job s = \<lparr>world = world s, trace = trace s @ (Print ''Job is {}'' [PJobState (Job_state job)] # evs)\<rparr>"
    using e by (simp add: print_job_def)
  moreover have "\<forall>e \<in> set (Print ''Job is {}'' [PJobState (Job_state job)] # evs). \<exists>fmt args. e = Print fmt args"
    using p by auto
  ultimately show ?thesis by blast
qed

lemma filter_prints_poll:
  "\<forall>e \<in> set evs. \<exists>fmt args. e = Print fmt args \<Longrightarrow> filter is_poll_or_sleep evs = []"
  by (induction evs) auto

lemma invoke_fetched:
  assumes "fetched_job self rg acct tn jn s = Inr r"
  shows "invoke (Jobs_get rg acct tn jn) (jobs_get (client self) rg acct tn jn) s =
           (Inr r, \<lparr>world = snd (jobs_get (client self) rg acct tn jn (world s)),
                    trace = trace s @ [Api (Jobs_get rg acct tn jn)]\<rparr>)"
  using assms by (cases "jobs_get (client self) rg acct tn jn (world s)")
    (simp add: fetched_job_def invoke_def)

lemma wait_step_done:
  assumes "fetched_job self rg acct tn jn s = Inr (Some job)" "job_is_done job"
  shows "\<exists>s' evs. wait_for_job_to_finish lib self rg acct tn jn s = Some (Inr job, s')
           \<and> trace s' = trace s @ evs
           \<and> filter is_poll_or_sleep evs = [Api (Jobs_get rg acct tn jn)]"
proof -
  let ?s1 = "\<lparr>world = snd (jobs_get (client self) rg acct tn jn (world s)),
              trace = trace s @ [Api (Jobs_get rg acct tn jn)]\<rparr>"
  obtain evs where e: "print_job job ?s1 = \<lparr>world = world ?s1, trace = trace ?s1 @ evs\<rparr>"
    and p: "\<forall>e \<in> set evs. \<exists>fmt args. e = Print fmt args"
    using print_job_prints [of job ?s1] by blast
  have "wait_for_job_to_finish lib self rg acct tn jn s = Some (Inr job, print_job job ?s1)"
    by (subst wait_for_job_to_finish.simps) (simp add: invoke_fetched [OF assms(1)] assms(2))
  moreover have "trace (print_job job ?s1) = trace s @ (Api (Jobs_get rg acct tn jn) # evs)"
    using e by simp
  moreover have "filter is_poll_or_sleep (Api (Jobs_get rg acct tn jn) # evs) = [Api (Jobs_get rg acct tn jn)]"
    using filter_prints_poll [OF p] by simp
  ultimately show ?thesis by blast
qed

lemma wait_step_continue:
  assumes "fetched_job self rg acct tn jn s = Inr (Some job)" "\<not> job_is_done job"
  shows "wait_for_job_to_finish lib self rg acct tn jn s =
           wait_for_job_to_finish lib self rg acct tn jn (poll_round lib self rg acct tn jn s)"
  by (subst wait_for_job_to_finish.simps)
     (simp add: invoke_fetched [OF assms(1)] assms(2) poll_round_def)

lemma poll_round_trace:
  assumes "fetched_job self rg acct tn jn s = Inr (Some job)"
  shows "\<exists>evs. trace (poll_round lib self rg acct tn jn s) = trace s @ evs
           \<and> filter is_poll_or_sleep evs = [Api (Jobs_get rg acct tn jn), Sleep 5]"
proof -
  let ?s1 = "\<lparr>world = snd (jobs_get (client self) rg acct tn jn (world s)),
              trace = trace s @ [Api (Jobs_get rg acct tn jn)]\<rparr>"
  obtain evs where e: "print_job job ?s1 = \<lparr>world = world ?s1, trace = trace ?s1 @ evs\<rparr>"
    and p: "\<forall>e \<in> set evs. \<exists>fmt args. e = Print fmt args"
    using print_job_prints [of job ?s1] by blast
  have "trace (poll_round lib self rg acct tn jn s) =
          trace s @ (Api (Jobs_get rg acct tn jn) # evs @ [Sleep 5])"
    using e by (simp add: poll_round_def invoke_fetched [OF assms] sleep_def SleepIntervalMs_def)
  moreover have "filter is_poll_or_sleep (Api (Jobs_get rg acct tn jn) # evs @ [Sleep 5])
                   = [Api (Jobs_get rg acct tn jn), Sleep 5]"
    using filter_prints_poll [OF p] by simp
  ultimately show ?thesis by blast
qed

text \<open>
  Claim C1. Take any run of \<^verbatim>\<open>wait_for_job_to_finish\<close> (the method is the same in the
  analyze and in the encrypt script) in which the successive \<^verbatim>\<open>jobs.get\<close> calls return job
  records, the first \<open>n\<close> of them in a state other than finished, error and canceled, and
  the next one, \<open>job\<close>, in one of these three states. Then the loop returns, and it returns
  \<open>job\<close>: it has fetched \<open>n + 1\<close> times, and between any two fetches it has slept once, for
  5 seconds.
\<close>

theorem wait_for_job_to_finish_returns_first_done:
  assumes "fetched_job self rg acct tn jn ((poll_round lib self rg acct tn jn ^^ n) s) = Inr (Some job)"
    and "Job_state job \<in> {JobState_finished, JobState_error, JobState_canceled}"
    and "\<forall>i<n. \<exists>j. fetched_job self rg acct tn jn ((poll_round lib self rg acct tn jn ^^ i) s) = Inr (Some j)
              \<and> Job_state j \<notin> {JobState_finished, JobState_error, JobState_canceled}"
  shows "\<exists>s' evs. wait_for_job_to_finish lib self rg acct tn jn s = Some (Inr job, s')
           \<and> trace s' = trace s @ evs
           \<and> filter is_poll_or_sleep evs =
               concat (replicate n [Api (Jobs_get rg acct tn jn), Sleep 5])
                 @ [Api (Jobs_get rg acct tn jn)]"
  using assms
proof (induction n arbitrary: s)
  case 0
  then have "job_is_done job" by (auto simp: job_is_done_def)
  with 0 wait_step_done [of self rg acct tn jn s job lib] show ?case by simp
next
  case (Suc n)
  let ?r = "poll_round lib self rg acct tn jn"
  from Suc.prems(3) obtain j where j: "fetched_job self rg acct tn jn s = Inr (Some j)"
    "\<not> job_is_done j" by (force simp: job_is_done_def)
  have a: "fetched_job self rg acct tn jn ((?r ^^ n) (?r s)) = Inr (Some job)"
    using Suc.prems(1) by (simp add: funpow_swap1)
  have b: "\<forall>i<n. \<exists>j. fetched_job self rg acct tn jn ((?r ^^ i) (?r s)) = Inr (Some j)
              \<and> Job_state j \<notin> {JobState_finished, JobState_error, JobState_canceled}"
  proof (intro allI impI)
    fix i assume "i < n"
    then have "Suc i < Suc n" by simp
    from Suc.prems(3) [rule_format, OF this]
    show "\<exists>j. fetched_job self rg acct tn jn ((?r ^^ i) (?r s)) = Inr (Some j)
              \<and> Job_state j \<notin> {JobState_finished, JobState_error, JobState_canceled}"
      by (simp add: funpow_swap1)
  qed
  from Suc.IH [OF a Suc.prems(2) b] obtain s' evs where
    w: "wait_for_job_to_finish lib self rg acct tn jn (?r s) = Some (Inr job, s')"
    and t: "trace s' = trace (?r s) @ evs"
    and f: "filter is_poll_or_sleep evs =
               concat (replicate n [Api (Jobs_get rg acct tn jn), Sleep 5]) @ [Api (Jobs_get rg acct tn jn)]"
    by blast
  obtain pre where pre: "trace (?r s) = trace s @ pre"
    "filter is_poll_or_sleep pre = [Api (Jobs_get rg acct tn jn), Sleep 5]"
    using poll_round_trace [OF j(1)] by blast
  have "wait_for_job_to_finish lib self rg acct tn jn s = Some (Inr job, s')"
    using wait_step_continue [OF j] w by simp
  moreover have "trace s' = trace s @ (pre @ evs)" using t pre(1) by simp
  moreover have "filter is_poll_or_sleep (pre @ evs) =
      concat (replicate (Suc n) [Api (Jobs_get rg acct tn jn), Sleep 5]) @ [Api (Jobs_get rg acct tn jn)]"
    using f pre(2) by simp
  ultimately show ?case by blast
qed

theorem wait_for_job_to_finish_returns_first_done_witness:
  "\<exists>s'. wait_for_job_to_finish stub_libs (stub_self client_finishing) ''rg'' ''acct'' ''t'' ''job-1''
           (stub_state 0) = Some (Inr (job_in JobState_finished), s')
        \<and> filter is_poll_or_sleep (trace s') =
            [Api (Jobs_get ''rg'' ''acct'' ''t'' ''job-1''), Sleep 5,
             Api (Jobs_get ''rg'' ''acct'' ''t'' ''job-1''), Sleep 5,
             Api (Jobs_get ''rg'' ''acct'' ''t'' ''job-1'')]"
proof -
  let ?self = "stub_self client_finishing"
  let ?r = "poll_round stub_libs ?self ''rg'' ''acct'' ''t'' ''job-1''"
  have r1: "world (?r (stub_state 0)) = 1"
    by (simp add: poll_round_def invoke_def stub_self_def client_finishing_def stub_state_def
          sleep_def stub_libs_def print_job_def job_in_def)
  have r2: "world (?r (?r (stub_state 0))) = 2"
    using r1
    by (simp add: poll_round_def invoke_def stub_self_def client_finishing_def
          sleep_def stub_libs_def print_job_def job_in_def)
  have h1: "fetched_job ?self ''rg'' ''acct'' ''t'' ''job-1'' ((?r ^^ 2) (stub_state 0))
              = Inr (Some (job_in JobState_finished))"
    using r2 by (simp add: numeral_2_eq_2 fetched_job_def stub_self_def client_finishing_def)
  have h2: "Job_state (job_in JobState_finished)
              \<in> {JobState_finished, JobState_error, JobState_canceled}"
    by (simp add: job_in_def)
  have h3: "\<forall>i<2. \<exists>j. fetched_job ?self ''rg'' ''acct'' ''t'' ''job-1'' ((?r ^^ i) (stub_state 0))
                = Inr (Some j)
              \<and> Job_state j \<notin> {JobState_finished, JobState_error, JobState_canceled}"
  proof (intro allI impI)
    fix i :: nat assume "i < 2"
    then consider "i = 0" | "i = 1" by linarith
    then show "\<exists>j. fetched_job ?self ''rg'' ''acct'' ''t'' ''job-1'' ((?r ^^ i) (stub_state 0))
                = Inr (Some j)
              \<and> Job_state j \<notin> {JobState_finished, JobState_error, JobState_canceled}"
    proof cases
      case 1
      then show ?thesis
        by (simp add: fetched_job_def stub_self_def client_finishing_def stub_state_def job_in_def)
    next
      case 2
      then show ?thesis
        using r1 by (simp add: fetched_job_def stub_self_def client_finishing_def job_in_def)
    qed
  qed
  from wait_for_job_to_finish_returns_first_done [OF h1 h2 h3]
  show ?thesis by (auto simp: stub_state_def numeral_2_eq_2)
qed

lemma never_done_step:
  assumes "never_done lib self rg acct tn jn s"
  shows "\<exists>j. fetched_job self rg acct tn jn s = Inr (Some j) \<and> \<not> job_is_done j
           \<and> never_done lib self rg acct tn jn (poll_round lib self rg acct tn jn s)"
proof -
  let ?r = "poll_round lib self rg acct tn jn"
  from assms have all: "\<And>i. \<exists>j. fetched_job self rg acct tn jn ((?r ^^ i) s) = Inr (Some j) \<and> \<not> job_is_done j"
    by (simp add: never_done_def)
  from all [of 0] obtain j where j: "fetched_job self rg acct tn jn s = Inr (Some j)" "\<not> job_is_done j"
    by auto
  have "never_done lib self rg acct tn jn (?r s)"
    unfolding never_done_def
  proof
    fix i
    from all [of "Suc i"] show "\<exists>j. fetched_job self rg acct tn jn ((?r ^^ i) (?r s)) = Inr (Some j) \<and> \<not> job_is_done j"
      by (simp add: funpow_swap1)
  qed
  with j show ?thesis by blast
qed

lemma wait_never_returns_aux:
  assumes "wait_for_job_to_finish lib self rg acct tn jn s = Some y"
  shows "\<not> never_done lib self rg acct tn jn s"
proof (rule wait_for_job_to_finish.raw_induct
         [where P = "\<lambda>lib self rg acct tn jn s y. \<not> never_done lib self rg acct tn jn s", OF _ assms])
  fix f :: "'a libs \<Rightarrow> ('a, 'b) Program_scheme \<Rightarrow> string \<Rightarrow> string \<Rightarrow> string \<Rightarrow> string \<Rightarrow> ('a, Job) P"
  fix lib self rg acct tn jn s y
  assume IH: "\<And>lib self rg acct tn jn s y. f lib self rg acct tn jn s = Some y
                \<Longrightarrow> \<not> never_done lib self rg acct tn jn s"
  assume body: "(case invoke (Jobs_get rg acct tn jn) (jobs_get (client self) rg acct tn jn) s of
        (Inl e, s1) \<Rightarrow> Some (Inl e, s1)
      | (Inr None, s1) \<Rightarrow> Some (Inl AttributeError, s1)
      | (Inr (Some job), s1) \<Rightarrow>
          (let s2 = print_job job s1
           in if job_is_done job then Some (Inr job, s2)
              else f lib self rg acct tn jn (sleep lib SleepIntervalMs s2))) = Some y"
  show "\<not> never_done lib self rg acct tn jn s"
  proof
    assume nd: "never_done lib self rg acct tn jn s"
    from never_done_step [OF nd] obtain j where j: "fetched_job self rg acct tn jn s = Inr (Some j)"
      "\<not> job_is_done j" "never_done lib self rg acct tn jn (poll_round lib self rg acct tn jn s)"
      by blast
    have "f lib self rg acct tn jn (poll_round lib self rg acct tn jn s) = Some y"
      using body by (simp add: invoke_fetched [OF j(1)] j(2) poll_round_def)
    from IH [OF this] j(3) show False by contradiction
  qed
qed

lemma wait_returns_done_aux:
  assumes "wait_for_job_to_finish lib self rg acct tn jn s = Some y"
  shows "\<forall>job s'. y = (Inr job, s') \<longrightarrow> job_is_done job"
proof (rule wait_for_job_to_finish.raw_induct
         [where P = "\<lambda>lib self rg acct tn jn s y. \<forall>job s'. y = (Inr job, s') \<longrightarrow> job_is_done job",
          OF _ assms])
  fix f :: "'a libs \<Rightarrow> ('a, 'b) Program_scheme \<Rightarrow> string \<Rightarrow> string \<Rightarrow> string \<Rightarrow> string \<Rightarrow> ('a, Job) P"
  fix lib self rg acct tn jn s y
  assume IH: "\<And>lib self rg acct tn jn s y. f lib self rg acct tn jn s = Some y
                \<Longrightarrow> \<forall>job s'. y = (Inr job, s') \<longrightarrow> job_is_done job"
  assume body: "(case invoke (Jobs_get rg acct tn jn) (jobs_get (client self) rg acct tn jn) s of
        (Inl e, s1) \<Rightarrow> Some (Inl e, s1)
      | (Inr None, s1) \<Rightarrow> Some (Inl AttributeError, s1)
      | (Inr (Some job), s1) \<Rightarrow>
          (let s2 = print_job job s1
           in if job_is_done job then Some (Inr job, s2)
              else f lib self rg acct tn jn (sleep lib SleepIntervalMs s2))) = Some y"
  show "\<forall>job s'. y = (Inr job, s') \<longrightarrow> job_is_done job"
  proof (intro allI impI)
    fix job s' assume y: "y = (Inr job, s')"
    obtain r s1 where i: "invoke (Jobs_get rg acct tn jn) (jobs_get (client self) rg acct tn jn) s = (r, s1)"
      by (cases "invoke (Jobs_get rg acct tn jn) (jobs_get (client self) rg acct tn jn) s") auto
    show "job_is_done job"
    proof (cases r)
      case (Inl e)
      with body i y show ?thesis by simp
    next
      case (Inr jo)
      show ?thesis
      proof (cases jo)
        case None
        with body i y Inr show ?thesis by simp
      next
        case (Some j)
        show ?thesis
        proof (cases "job_is_done j")
          case True
          with body i y Inr Some show ?thesis by (simp add: Let_def)
        next
          case False
          with body i Inr Some
          have "f lib self rg acct tn jn (sleep lib SleepIntervalMs (print_job j s1)) = Some y"
            by (simp add: Let_def)
          from IH [OF this] y show ?thesis by simp
        qed
      qed
    qed
  qed
qed

text \<open>
  Claim C4. When every fetch of a run of \<^verbatim>\<open>wait_for_job_to_finish\<close> returns a job whose
  state is none of finished, error and canceled, the loop does not return (first part). The
  loop has no other way out on a job that is not done: whenever it returns a job, that job
  is finished, in error or canceled (second part). There is no bound on the rounds and no
  timeout in the loop.
\<close>

theorem wait_for_job_to_finish_never_returns:
  "((\<forall>i. \<exists>j. fetched_job self rg acct tn jn ((poll_round lib self rg acct tn jn ^^ i) s) = Inr (Some j)
            \<and> Job_state j \<notin> {JobState_finished, JobState_error, JobState_canceled})
      \<longrightarrow> wait_for_job_to_finish lib self rg acct tn jn s = None)
   \<and> (wait_for_job_to_finish lib2 self2 rg2 acct2 tn2 jn2 s2 = Some (Inr job, s')
      \<longrightarrow> Job_state job \<in> {JobState_finished, JobState_error, JobState_canceled})"
proof (intro conjI impI)
  assume "\<forall>i. \<exists>j. fetched_job self rg acct tn jn ((poll_round lib self rg acct tn jn ^^ i) s) = Inr (Some j)
            \<and> Job_state j \<notin> {JobState_finished, JobState_error, JobState_canceled}"
  then have nd: "never_done lib self rg acct tn jn s"
    by (simp add: never_done_def job_is_done_def)
  show "wait_for_job_to_finish lib self rg acct tn jn s = None"
  proof (cases "wait_for_job_to_finish lib self rg acct tn jn s")
    case None
    then show ?thesis .
  next
    case (Some y)
    from wait_never_returns_aux [OF this] nd show ?thesis by contradiction
  qed
next
  assume "wait_for_job_to_finish lib2 self2 rg2 acct2 tn2 jn2 s2 = Some (Inr job, s')"
  from wait_returns_done_aux [OF this] have "job_is_done job" by simp
  then show "Job_state job \<in> {JobState_finished, JobState_error, JobState_canceled}"
    by (simp add: job_is_done_def)
qed

theorem wait_for_job_to_finish_never_returns_witness:
  "wait_for_job_to_finish stub_libs (stub_self client_processing) ''rg'' ''acct'' ''t'' ''job-1''
     (stub_state 0) = None
   \<and> wait_for_job_to_finish stub_libs (stub_self stub_client) ''rg'' ''acct'' ''t'' ''job-1''
       (stub_state 0)
       = Some (Inr \<lparr>Job_name = ''job-1'', Job_state = JobState_finished, Job_outputs = []\<rparr>,
               \<lparr>world = 0, trace = [Api (Jobs_get ''rg'' ''acct'' ''t'' ''job-1''),
                                     Print ''Job is {}'' [PJobState JobState_finished]]\<rparr>)
   \<and> Job_state \<lparr>Job_name = ''job-1'', Job_state = JobState_finished, Job_outputs = []\<rparr>
       \<in> {JobState_finished, JobState_error, JobState_canceled}"
proof -
  have h: "\<forall>i. \<exists>j. fetched_job (stub_self client_processing) ''rg'' ''acct'' ''t'' ''job-1''
              ((poll_round stub_libs (stub_self client_processing) ''rg'' ''acct'' ''t'' ''job-1'' ^^ i)
                 (stub_state 0)) = Inr (Some j)
            \<and> Job_state j \<notin> {JobState_finished, JobState_error, JobState_canceled}"
    by (simp add: fetched_job_def stub_self_def client_processing_def job_in_def)
  have r: "wait_for_job_to_finish stub_libs (stub_self stub_client) ''rg'' ''acct'' ''t'' ''job-1''
       (stub_state 0)
       = Some (Inr \<lparr>Job_name = ''job-1'', Job_state = JobState_finished, Job_outputs = []\<rparr>,
               \<lparr>world = 0, trace = [Api (Jobs_get ''rg'' ''acct'' ''t'' ''job-1''),
                                     Print ''Job is {}'' [PJobState JobState_finished]]\<rparr>)"
    by (subst wait_for_job_to_finish.simps)
       (simp add: invoke_def stub_self_def stub_client_def stub_state_def print_job_def
          job_is_done_def print_def)
  from wait_for_job_to_finish_never_returns
         [of "stub_self client_processing" "''rg''" "''acct''" "''t''" "''job-1''" stub_libs
             "stub_state 0" stub_libs "stub_self stub_client" "''rg''" "''acct''" "''t''" "''job-1''"
             "stub_state 0"] h r
  show ?thesis by simp
qed

section \<open>Existence checks\<close>

lemma api_calls_append [simp]: "api_calls (xs @ ys) = api_calls xs @ api_calls ys"
  by (induction xs rule: api_calls.induct) auto

lemma prints_append [simp]: "prints (xs @ ys) = prints xs @ prints ys"
  by (induction xs rule: prints.induct) auto

lemma new_events_append [simp]: "trace s' = trace s @ evs \<Longrightarrow> new_events s s' = evs"
  by (simp add: new_events_def)

lemma new_events_mk [simp]: "new_events s \<lparr>world = w, trace = trace s @ evs\<rparr> = evs"
  by (simp add: new_events_def)

lemma invoke_result:
  "invoke c op s =
     (fst (op (world s)),
      \<lparr>world = snd (op (world s)),
       trace = trace s @ Api c # (case fst (op (world s)) of Inl e \<Rightarrow> [ApiRaised e] | Inr _ \<Rightarrow> [])\<rparr>)"
  by (cases "op (world s)") (auto simp: invoke_def split: sum.splits)

lemma str_function_not_empty: "str_function q a \<noteq> []"
  by (simp add: str_function_def)

text \<open>
  Claim C3. \<^verbatim>\<open>create_output_asset\<close> (the same method in the analyze and in the encrypt
  script) issues two remote calls, \<^verbatim>\<open>assets.get\<close> for the requested name and then
  \<^verbatim>\<open>assets.create_or_update\<close>, and what it returns or raises is what
  \<^verbatim>\<open>assets.create_or_update\<close> returned or raised. When \<^verbatim>\<open>assets.get\<close> returns an existing
  asset, \<^verbatim>\<open>assets.create_or_update\<close> is applied to the requested name followed by a suffix
  (the text of \<^verbatim>\<open>str(uuid.uuid1)\<close>), which is a different name, in the state of the service
  that \<^verbatim>\<open>assets.get\<close> left, after the two lines of the warning have been printed. When
  \<^verbatim>\<open>assets.get\<close> returns \<^verbatim>\<open>None\<close>, \<^verbatim>\<open>assets.create_or_update\<close> is applied to the
  requested name itself and nothing is printed. In both cases the state of the service
  after the method is the one that \<^verbatim>\<open>assets.create_or_update\<close> left.
\<close>

theorem create_output_asset_name:
  "(fst (assets_get (client self) rg acct asset_name (world s)) = Inr (Some existing) \<longrightarrow>
      (let unique_name = asset_name @ str_function ''uuid1'' (uuid1_address lib);
           created = assets_create_or_update (client self) rg acct unique_name
                       (snd (assets_get (client self) rg acct asset_name (world s)));
           s' = snd (create_output_asset lib self rg acct asset_name s)
       in unique_name \<noteq> asset_name
          \<and> fst (create_output_asset lib self rg acct asset_name s) = fst created
          \<and> world s' = snd created
          \<and> new_events s s' =
              [Api (Assets_get rg acct asset_name),
               Print (''Warning '' @ [CHR 0xE2, CHR 0x80, CHR 0x93]
                        @ '' found an existing Asset with name = '' @ asset_name) [],
               Print (''Creating an Asset with this name instead: '' @ unique_name) [],
               Api (Assets_create_or_update rg acct unique_name)]
              @ (case fst created of Inl e \<Rightarrow> [ApiRaised e] | Inr _ \<Rightarrow> [])
          \<and> api_calls (new_events s s') =
              [Assets_get rg acct asset_name, Assets_create_or_update rg acct unique_name]
          \<and> prints (new_events s s') =
              [Print (''Warning '' @ [CHR 0xE2, CHR 0x80, CHR 0x93]
                        @ '' found an existing Asset with name = '' @ asset_name) [],
               Print (''Creating an Asset with this name instead: '' @ unique_name) []]))
   \<and> (fst (assets_get (client self2) rg2 acct2 asset_name2 (world s2)) = Inr None \<longrightarrow>
      (let created = assets_create_or_update (client self2) rg2 acct2 asset_name2
                       (snd (assets_get (client self2) rg2 acct2 asset_name2 (world s2)));
           s' = snd (create_output_asset lib2 self2 rg2 acct2 asset_name2 s2)
       in fst (create_output_asset lib2 self2 rg2 acct2 asset_name2 s2) = fst created
          \<and> world s' = snd created
          \<and> new_events s2 s' =
              [Api (Assets_get rg2 acct2 asset_name2),
               Api (Assets_create_or_update rg2 acct2 asset_name2)]
              @ (case fst created of Inl e \<Rightarrow> [ApiRaised e] | Inr _ \<Rightarrow> [])
          \<and> api_calls (new_events s2 s') =
              [Assets_get rg2 acct2 asset_name2, Assets_create_or_update rg2 acct2 asset_name2]
          \<and> prints (new_events s2 s') = []))"
proof (intro conjI impI)
  assume a: "fst (assets_get (client self) rg acct asset_name (world s)) = Inr (Some existing)"
  let ?unique_name = "asset_name @ str_function ''uuid1'' (uuid1_address lib)"
  let ?created = "assets_create_or_update (client self) rg acct ?unique_name
                    (snd (assets_get (client self) rg acct asset_name (world s)))"
  let ?r = "create_output_asset lib self rg acct asset_name s"
  have ne: "?unique_name \<noteq> asset_name"
    using str_function_not_empty [of "''uuid1''" "uuid1_address lib"] by simp
  have r: "?r = (fst ?created,
                 \<lparr>world = snd ?created,
                  trace = trace s @
                    [Api (Assets_get rg acct asset_name),
                     Print (''Warning '' @ [CHR 0xE2, CHR 0x80, CHR 0x93]
                              @ '' found an existing Asset with name = '' @ asset_name) [],
                     Print (''Creating an Asset with this name instead: '' @ ?unique_name) [],
                     Api (Assets_create_or_update rg acct ?unique_name)]
                    @ (case fst ?created of Inl e \<Rightarrow> [ApiRaised e] | Inr _ \<Rightarrow> [])\<rparr>)"
    using a
    by (simp add: create_output_asset_def bindM_def invoke_result returnM_def printM_def
          print_def Let_def)
  have c: "api_calls (case fst ?created of Inl e \<Rightarrow> [ApiRaised e] | Inr _ \<Rightarrow> []) = []"
    "prints (case fst ?created of Inl e \<Rightarrow> [ApiRaised e] | Inr _ \<Rightarrow> []) = []"
    by (simp_all split: sum.splits)
  show "let unique_name = asset_name @ str_function ''uuid1'' (uuid1_address lib);
            created = assets_create_or_update (client self) rg acct unique_name
                        (snd (assets_get (client self) rg acct asset_name (world s)));
            s' = snd (create_output_asset lib self rg acct asset_name s)
        in unique_name \<noteq> asset_name
          \<and> fst (create_output_asset lib self rg acct asset_name s) = fst created
          \<and> world s' = snd created
          \<and> new_events s s' =
              [Api (Assets_get rg acct asset_name),
               Print (''Warning '' @ [CHR 0xE2, CHR 0x80, CHR 0x93]
                        @ '' found an existing Asset with name = '' @ asset_name) [],
               Print (''Creating an Asset with this name instead: '' @ unique_name) [],
               Api (Assets_create_or_update rg acct unique_name)]
              @ (case fst created of Inl e \<Rightarrow> [ApiRaised e] | Inr _ \<Rightarrow> [])
          \<and> api_calls (new_events s s') =
              [Assets_get rg acct asset_name, Assets_create_or_update rg acct unique_name]
          \<and> prints (new_events s s') =
              [Print (''Warning '' @ [CHR 0xE2, CHR 0x80, CHR 0x93]
                        @ '' found an existing Asset with name = '' @ asset_name) [],
               Print (''Creating an Asset with this name instead: '' @ unique_name) []]"
    unfolding Let_def r using ne c by simp
next
  assume a: "fst (assets_get (client self2) rg2 acct2 asset_name2 (world s2)) = Inr None"
  let ?created = "assets_create_or_update (client self2) rg2 acct2 asset_name2
                    (snd (assets_get (client self2) rg2 acct2 asset_name2 (world s2)))"
  let ?r = "create_output_asset lib2 self2 rg2 acct2 asset_name2 s2"
  have r: "?r = (fst ?created,
                 \<lparr>world = snd ?created,
                  trace = trace s2 @
                    [Api (Assets_get rg2 acct2 asset_name2),
                     Api (Assets_create_or_update rg2 acct2 asset_name2)]
                    @ (case fst ?created of Inl e \<Rightarrow> [ApiRaised e] | Inr _ \<Rightarrow> [])\<rparr>)"
    using a
    by (simp add: create_output_asset_def bindM_def invoke_result returnM_def Let_def)
  have c: "api_calls (case fst ?created of Inl e \<Rightarrow> [ApiRaised e] | Inr _ \<Rightarrow> []) = []"
    "prints (case fst ?created of Inl e \<Rightarrow> [ApiRaised e] | Inr _ \<Rightarrow> []) = []"
    by (simp_all split: sum.splits)
  show "let created = assets_create_or_update (client self2) rg2 acct2 asset_name2
                        (snd (assets_get (client self2) rg2 acct2 asset_name2 (world s2)));
            s' = snd (create_output_asset lib2 self2 rg2 acct2 asset_name2 s2)
        in fst (create_output_asset lib2 self2 rg2 acct2 asset_name2 s2) = fst created
          \<and> world s' = snd created
          \<and> new_events s2 s' =
              [Api (Assets_get rg2 acct2 asset_name2),
               Api (Assets_create_or_update rg2 acct2 asset_name2)]
              @ (case fst created of Inl e \<Rightarrow> [ApiRaised e] | Inr _ \<Rightarrow> [])
          \<and> api_calls (new_events s2 s') =
              [Assets_get rg2 acct2 asset_name2, Assets_create_or_update rg2 acct2 asset_name2]
          \<and> prints (new_events s2 s') = []"
    unfolding Let_def r using c by simp
qed

theorem create_output_asset_name_witness:
  "create_output_asset stub_libs (stub_self client_assets) ''rg'' ''acct'' ''output-1'' (stub_state 1)
     = (Inr \<lparr>Asset_name = ''output-1<function uuid1 at 0x7f3a5c1d2e50>''\<rparr>,
        \<lparr>world = 2,
         trace = [Api (Assets_get ''rg'' ''acct'' ''output-1''),
                  Print (''Warning '' @ [CHR 0xE2, CHR 0x80, CHR 0x93]
                           @ '' found an existing Asset with name = output-1'') [],
                  Print ''Creating an Asset with this name instead: output-1<function uuid1 at 0x7f3a5c1d2e50>'' [],
                  Api (Assets_create_or_update ''rg'' ''acct''
                         ''output-1<function uuid1 at 0x7f3a5c1d2e50>'')]\<rparr>)
   \<and> create_output_asset stub_libs (stub_self client_assets) ''rg'' ''acct'' ''output-1'' (stub_state 0)
     = (Inr \<lparr>Asset_name = ''output-1''\<rparr>,
        \<lparr>world = 1,
         trace = [Api (Assets_get ''rg'' ''acct'' ''output-1''),
                  Api (Assets_create_or_update ''rg'' ''acct'' ''output-1'')]\<rparr>)"
proof -
  let ?self = "stub_self client_assets"
  have h1: "fst (assets_get (client ?self) ''rg'' ''acct'' ''output-1'' (world (stub_state 1)))
              = Inr (Some \<lparr>Asset_name = ''output-1''\<rparr>)"
    by (simp add: stub_self_def client_assets_def stub_state_def)
  have h2: "fst (assets_get (client ?self) ''rg'' ''acct'' ''output-1'' (world (stub_state 0)))
              = Inr None"
    by (simp add: stub_self_def client_assets_def stub_state_def)
  have g: "snd (assets_get (client ?self) ''rg'' ''acct'' ''output-1'' (world (stub_state w))) = w"
    for w
    by (simp add: stub_self_def client_assets_def stub_state_def)
  have c: "assets_create_or_update (client ?self) ''rg'' ''acct'' name w
             = (Inr \<lparr>Asset_name = name\<rparr>, Suc w)" for name w
    by (simp add: stub_self_def client_assets_def)
  have t: "trace (stub_state w) = []" for w :: nat
    by (simp add: stub_state_def)
  have u: "uuid1_address stub_libs = ''7f3a5c1d2e50''"
    by (simp add: stub_libs_def)
  from create_output_asset_name
         [of ?self "''rg''" "''acct''" "''output-1''" "stub_state 1"
             "\<lparr>Asset_name = ''output-1''\<rparr>" stub_libs
             ?self "''rg''" "''acct''" "''output-1''" "stub_state 0" stub_libs]
       h1 h2
  have "(let r = create_output_asset stub_libs ?self ''rg'' ''acct'' ''output-1'' (stub_state 1)
         in fst r = Inr \<lparr>Asset_name = ''output-1<function uuid1 at 0x7f3a5c1d2e50>''\<rparr>
            \<and> world (snd r) = 2
            \<and> trace (snd r) =
                [Api (Assets_get ''rg'' ''acct'' ''output-1''),
                  Print (''Warning '' @ [CHR 0xE2, CHR 0x80, CHR 0x93]
                           @ '' found an existing Asset with name = output-1'') [],
                  Print ''Creating an Asset with this name instead: output-1<function uuid1 at 0x7f3a5c1d2e50>'' [],
                  Api (Assets_create_or_update ''rg'' ''acct''
                         ''output-1<function uuid1 at 0x7f3a5c1d2e50>'')])
       \<and> (let r = create_output_asset stub_libs ?self ''rg'' ''acct'' ''output-1'' (stub_state 0)
          in fst r = Inr \<lparr>Asset_name = ''output-1''\<rparr>
            \<and> world (snd r) = 1
            \<and> trace (snd r) =
                [Api (Assets_get ''rg'' ''acct'' ''output-1''),
                 Api (Assets_create_or_update ''rg'' ''acct'' ''output-1'')])"
    by (simp add: Let_def g c t u str_function_def new_events_def)
  then show ?thesis
    by (simp add: Let_def prod_eq_iff state.equality)
qed






section \<open>Cleanup of the live event\<close>

lemma clean_up_live_event_missing:
  assumes "fst (live_events_get (client self) (resource_group_name self) (account_name self)
                  live_event_name (world s)) = Inr None"
  shows "clean_up_live_event_and_live_output lib self rg acct live_event_name s =
           (Inr (),
            \<lparr>world = snd (live_events_get (client self) (resource_group_name self)
                             (account_name self) live_event_name (world s)),
             trace = trace s @ [Enter M_clean_up_live_event_and_live_output,
                                Api (Live_events_get (resource_group_name self) (account_name self)
                                       live_event_name)]\<rparr>)"
  using assms
  by (simp add: clean_up_live_event_and_live_output_def bindM_def enterM_def invoke_result
        returnM_def)

lemma clean_up_live_event_running:
  assumes "fst (live_events_get (client self) (resource_group_name self) (account_name self)
                  live_event_name (world s)) = Inr (Some ev)"
    and "LiveEvent_resource_state ev = LiveEventResourceState_running"
  shows "api_calls (new_events s (snd (clean_up_live_event_and_live_output lib self rg acct
                                         live_event_name s))) =
           Live_events_get (resource_group_name self) (account_name self) live_event_name
           # Live_events_stop (resource_group_name self) (account_name self) live_event_name True
           # (case fst (live_events_stop (client self) (resource_group_name self) (account_name self)
                          live_event_name True
                          (snd (live_events_get (client self) (resource_group_name self)
                                  (account_name self) live_event_name (world s)))) of
                Inl e \<Rightarrow> []
              | Inr u \<Rightarrow> [Live_events_delete (resource_group_name self) (account_name self)
                            live_event_name])"
  using assms
  by (simp add: clean_up_live_event_and_live_output_def bindM_def enterM_def invoke_result
        returnM_def sleepM_def sleep_def new_events_def split: sum.splits)

lemma clean_up_live_event_not_running:
  assumes "fst (live_events_get (client self) (resource_group_name self) (account_name self)
                  live_event_name (world s)) = Inr (Some ev)"
    and "LiveEvent_resource_state ev \<noteq> LiveEventResourceState_running"
  shows "api_calls (new_events s (snd (clean_up_live_event_and_live_output lib self rg acct
                                         live_event_name s))) =
           [Live_events_get (resource_group_name self) (account_name self) live_event_name,
            Live_events_delete (resource_group_name self) (account_name self) live_event_name]"
  using assms
  by (simp add: clean_up_live_event_and_live_output_def bindM_def enterM_def invoke_result
        returnM_def new_events_def split: sum.splits)

lemma clean_up_live_event_failed_get:
  assumes "fst (live_events_get (client self) (resource_group_name self) (account_name self)
                  live_event_name (world s)) = Inl e"
  shows "api_calls (new_events s (snd (clean_up_live_event_and_live_output lib self rg acct
                                         live_event_name s))) =
           [Live_events_get (resource_group_name self) (account_name self) live_event_name]"
  using assms
  by (simp add: clean_up_live_event_and_live_output_def bindM_def enterM_def invoke_result
        new_events_def)

lemma clean_up_live_event_stop_only_if_running:
  assumes "Live_events_stop a b c d
             \<in> set (api_calls (new_events s (snd (clean_up_live_event_and_live_output lib self rg acct
                                                    live_event_name s))))"
  shows "\<exists>ev. fst (live_events_get (client self) (resource_group_name self) (account_name self)
                     live_event_name (world s)) = Inr (Some ev)
              \<and> LiveEvent_resource_state ev = LiveEventResourceState_running \<and> d = True"
proof (cases "fst (live_events_get (client self) (resource_group_name self) (account_name self)
                     live_event_name (world s))")
  case (Inl e)
  from clean_up_live_event_failed_get [OF this] assms show ?thesis by simp
next
  case (Inr r)
  show ?thesis
  proof (cases r)
    case None
    with Inr have "fst (live_events_get (client self) (resource_group_name self) (account_name self)
                     live_event_name (world s)) = Inr None" by simp
    from clean_up_live_event_missing [OF this, of lib rg acct] assms show ?thesis
      by (simp add: new_events_def)
  next
    case (Some ev)
    with Inr have g: "fst (live_events_get (client self) (resource_group_name self) (account_name self)
                     live_event_name (world s)) = Inr (Some ev)" by simp
    show ?thesis
    proof (cases "LiveEvent_resource_state ev = LiveEventResourceState_running")
      case True
      from clean_up_live_event_running [OF g True, of lib rg acct] assms g True show ?thesis
        by (auto split: sum.splits)
    next
      case False
      from clean_up_live_event_not_running [OF g False, of lib rg acct] assms show ?thesis by simp
    qed
  qed
qed

lemma clean_up_live_event_delete_only_if_exists:
  assumes "Live_events_delete a b c
             \<in> set (api_calls (new_events s (snd (clean_up_live_event_and_live_output lib self rg acct
                                                    live_event_name s))))"
  shows "\<exists>ev. fst (live_events_get (client self) (resource_group_name self) (account_name self)
                     live_event_name (world s)) = Inr (Some ev)"
proof (cases "fst (live_events_get (client self) (resource_group_name self) (account_name self)
                     live_event_name (world s))")
  case (Inl e)
  from clean_up_live_event_failed_get [OF this] assms show ?thesis by simp
next
  case (Inr r)
  show ?thesis
  proof (cases r)
    case None
    with Inr have "fst (live_events_get (client self) (resource_group_name self) (account_name self)
                     live_event_name (world s)) = Inr None" by simp
    from clean_up_live_event_missing [OF this, of lib rg acct] assms show ?thesis
      by (simp add: new_events_def)
  next
    case (Some ev)
    with Inr show ?thesis by simp
  qed
qed

text \<open>
  Claim C10. \<^verbatim>\<open>clean_up_live_event_and_live_output\<close>: when \<^verbatim>\<open>live_events.get\<close> returns
  \<^verbatim>\<open>None\<close>, the method returns normally and the \<^verbatim>\<open>get\<close> is its only remote call, so no
  stop and no delete is issued (first part). A stop call is issued only when the event exists
  and is running, and it asks for the outputs to be removed; a delete call is issued only
  when the event exists (second and third part). For a running event the calls are the
  \<^verbatim>\<open>get\<close>, the stop and, when the stop did not raise, the delete, in this order (fourth
  part). Hence a second call, made after a cleanup that returned normally and when the
  service by now reports no event, returns normally with the \<^verbatim>\<open>get\<close> as its only remote
  call (fifth part).
\<close>

theorem clean_up_live_event_and_live_output_idempotent:
  "(fst (live_events_get (client self) (resource_group_name self) (account_name self)
           live_event_name (world s)) = Inr None \<longrightarrow>
      clean_up_live_event_and_live_output lib self rg acct live_event_name s =
        (Inr (),
         \<lparr>world = snd (live_events_get (client self) (resource_group_name self)
                          (account_name self) live_event_name (world s)),
          trace = trace s @ [Enter M_clean_up_live_event_and_live_output,
                             Api (Live_events_get (resource_group_name self) (account_name self)
                                    live_event_name)]\<rparr>))
   \<and> (Live_events_stop a b c d
         \<in> set (api_calls (new_events s2 (snd (clean_up_live_event_and_live_output lib2 self2 rg2 acct2
                                                 live_event_name2 s2)))) \<longrightarrow>
      (\<exists>ev. fst (live_events_get (client self2) (resource_group_name self2) (account_name self2)
                   live_event_name2 (world s2)) = Inr (Some ev)
            \<and> LiveEvent_resource_state ev = LiveEventResourceState_running \<and> d = True))
   \<and> (Live_events_delete a' b' c'
         \<in> set (api_calls (new_events s2 (snd (clean_up_live_event_and_live_output lib2 self2 rg2 acct2
                                                 live_event_name2 s2)))) \<longrightarrow>
      (\<exists>ev. fst (live_events_get (client self2) (resource_group_name self2) (account_name self2)
                   live_event_name2 (world s2)) = Inr (Some ev)))
   \<and> (fst (live_events_get (client self2) (resource_group_name self2) (account_name self2)
              live_event_name2 (world s2)) = Inr (Some ev2)
       \<and> LiveEvent_resource_state ev2 = LiveEventResourceState_running \<longrightarrow>
      api_calls (new_events s2 (snd (clean_up_live_event_and_live_output lib2 self2 rg2 acct2
                                       live_event_name2 s2))) =
        Live_events_get (resource_group_name self2) (account_name self2) live_event_name2
        # Live_events_stop (resource_group_name self2) (account_name self2) live_event_name2 True
        # (case fst (live_events_stop (client self2) (resource_group_name self2)
                       (account_name self2) live_event_name2 True
                       (snd (live_events_get (client self2) (resource_group_name self2)
                               (account_name self2) live_event_name2 (world s2)))) of
             Inl e \<Rightarrow> []
           | Inr u \<Rightarrow> [Live_events_delete (resource_group_name self2) (account_name self2)
                         live_event_name2]))
   \<and> (clean_up_live_event_and_live_output lib2 self2 rg2 acct2 live_event_name2 s2 = (Inr (), s2')
       \<and> fst (live_events_get (client self2) (resource_group_name self2) (account_name self2)
                live_event_name2 (world s2')) = Inr None \<longrightarrow>
      clean_up_live_event_and_live_output lib2 self2 rg2 acct2 live_event_name2 s2' =
        (Inr (),
         \<lparr>world = snd (live_events_get (client self2) (resource_group_name self2)
                          (account_name self2) live_event_name2 (world s2')),
          trace = trace s2' @ [Enter M_clean_up_live_event_and_live_output,
                               Api (Live_events_get (resource_group_name self2)
                                      (account_name self2) live_event_name2)]\<rparr>))"
proof (intro conjI impI)
  assume "fst (live_events_get (client self) (resource_group_name self) (account_name self)
           live_event_name (world s)) = Inr None"
  from clean_up_live_event_missing [OF this]
  show "clean_up_live_event_and_live_output lib self rg acct live_event_name s =
        (Inr (),
         \<lparr>world = snd (live_events_get (client self) (resource_group_name self)
                          (account_name self) live_event_name (world s)),
          trace = trace s @ [Enter M_clean_up_live_event_and_live_output,
                             Api (Live_events_get (resource_group_name self) (account_name self)
                                    live_event_name)]\<rparr>)" .
next
  assume "Live_events_stop a b c d
         \<in> set (api_calls (new_events s2 (snd (clean_up_live_event_and_live_output lib2 self2 rg2 acct2
                                                 live_event_name2 s2))))"
  from clean_up_live_event_stop_only_if_running [OF this]
  show "\<exists>ev. fst (live_events_get (client self2) (resource_group_name self2) (account_name self2)
                   live_event_name2 (world s2)) = Inr (Some ev)
            \<and> LiveEvent_resource_state ev = LiveEventResourceState_running \<and> d = True" .
next
  assume "Live_events_delete a' b' c'
         \<in> set (api_calls (new_events s2 (snd (clean_up_live_event_and_live_output lib2 self2 rg2 acct2
                                                 live_event_name2 s2))))"
  from clean_up_live_event_delete_only_if_exists [OF this]
  show "\<exists>ev. fst (live_events_get (client self2) (resource_group_name self2) (account_name self2)
                   live_event_name2 (world s2)) = Inr (Some ev)" .
next
  assume "fst (live_events_get (client self2) (resource_group_name self2) (account_name self2)
              live_event_name2 (world s2)) = Inr (Some ev2)
       \<and> LiveEvent_resource_state ev2 = LiveEventResourceState_running"
  then have g: "fst (live_events_get (client self2) (resource_group_name self2) (account_name self2)
              live_event_name2 (world s2)) = Inr (Some ev2)"
    and r: "LiveEvent_resource_state ev2 = LiveEventResourceState_running" by simp_all
  from clean_up_live_event_running [OF g r]
  show "api_calls (new_events s2 (snd (clean_up_live_event_and_live_output lib2 self2 rg2 acct2
                                       live_event_name2 s2))) =
        Live_events_get (resource_group_name self2) (account_name self2) live_event_name2
        # Live_events_stop (resource_group_name self2) (account_name self2) live_event_name2 True
        # (case fst (live_events_stop (client self2) (resource_group_name self2)
                       (account_name self2) live_event_name2 True
                       (snd (live_events_get (client self2) (resource_group_name self2)
                               (account_name self2) live_event_name2 (world s2)))) of
             Inl e \<Rightarrow> []
           | Inr u \<Rightarrow> [Live_events_delete (resource_group_name self2) (account_name self2)
                         live_event_name2])" .
next
  assume "clean_up_live_event_and_live_output lib2 self2 rg2 acct2 live_event_name2 s2 = (Inr (), s2')
       \<and> fst (live_events_get (client self2) (resource_group_name self2) (account_name self2)
                live_event_name2 (world s2')) = Inr None"
  then have "fst (live_events_get (client self2) (resource_group_name self2) (account_name self2)
                live_event_name2 (world s2')) = Inr None" by simp
  from clean_up_live_event_missing [OF this]
  show "clean_up_live_event_and_live_output lib2 self2 rg2 acct2 live_event_name2 s2' =
        (Inr (),
         \<lparr>world = snd (live_events_get (client self2) (resource_group_name self2)
                          (account_name self2) live_event_name2 (world s2')),
          trace = trace s2' @ [Enter M_clean_up_live_event_and_live_output,
                               Api (Live_events_get (resource_group_name self2)
                                      (account_name self2) live_event_name2)]\<rparr>)" .
qed

theorem clean_up_live_event_and_live_output_idempotent_witness:
  "clean_up_live_event_and_live_output stub_libs (stub_self stub_client) ''rg'' ''acct'' ''ev-1''
       (stub_state 1)
     = (Inr (), \<lparr>world = 1,
                 trace = [Enter M_clean_up_live_event_and_live_output,
                          Api (Live_events_get ''rg'' ''acct'' ''ev-1'')]\<rparr>)
   \<and> api_calls (new_events (stub_state 0)
        (snd (clean_up_live_event_and_live_output stub_libs (stub_self stub_client) ''rg'' ''acct''
                ''ev-1'' (stub_state 0))))
     = [Live_events_get ''rg'' ''acct'' ''ev-1'', Live_events_stop ''rg'' ''acct'' ''ev-1'' True,
        Live_events_delete ''rg'' ''acct'' ''ev-1'']
   \<and> clean_up_live_event_and_live_output stub_libs (stub_self stub_client) ''rg'' ''acct'' ''ev-1''
       (snd (clean_up_live_event_and_live_output stub_libs (stub_self stub_client) ''rg'' ''acct''
               ''ev-1'' (stub_state 0)))
     = (Inr (), \<lparr>world = 1,
                 trace = [Enter M_clean_up_live_event_and_live_output,
                          Api (Live_events_get ''rg'' ''acct'' ''ev-1''),
                          Api (Live_events_stop ''rg'' ''acct'' ''ev-1'' True),
                          Sleep 10,
                          Api (Live_events_delete ''rg'' ''acct'' ''ev-1''),
                          Enter M_clean_up_live_event_and_live_output,
                          Api (Live_events_get ''rg'' ''acct'' ''ev-1'')]\<rparr>)"
proof -
  let ?self = "stub_self stub_client"
  let ?ev = "\<lparr>LiveEvent_resource_state = LiveEventResourceState_running,
              LiveEvent_input_endpoints = [''rtmp://ingest.example/live''],
              LiveEvent_preview_endpoints = [''https://preview.example/p'']\<rparr>"
  let ?s2' = "\<lparr>world = Suc 0,
              trace = [Enter M_clean_up_live_event_and_live_output,
                       Api (Live_events_get ''rg'' ''acct'' ''ev-1''),
                       Api (Live_events_stop ''rg'' ''acct'' ''ev-1'' True),
                       Sleep 10,
                       Api (Live_events_delete ''rg'' ''acct'' ''ev-1'')]\<rparr> :: nat state"
  have h1: "fst (live_events_get (client ?self) (resource_group_name ?self) (account_name ?self)
                   ''ev-1'' (world (stub_state 1))) = Inr None"
    by (simp add: stub_self_def stub_client_def stub_state_def)
  have h2: "fst (live_events_get (client ?self) (resource_group_name ?self) (account_name ?self)
                   ''ev-1'' (world (stub_state 0))) = Inr (Some ?ev)
            \<and> LiveEvent_resource_state ?ev = LiveEventResourceState_running"
    by (simp add: stub_self_def stub_client_def stub_state_def)
  have h3: "clean_up_live_event_and_live_output stub_libs ?self ''rg'' ''acct'' ''ev-1'' (stub_state 0)
              = (Inr (), ?s2')"
    by (simp add: clean_up_live_event_and_live_output_def bindM_def enterM_def invoke_def
          returnM_def sleepM_def sleep_def stub_self_def stub_client_def stub_state_def
          stub_libs_def)
  have h4: "fst (live_events_get (client ?self) (resource_group_name ?self) (account_name ?self)
                   ''ev-1'' (world ?s2')) = Inr None"
    by (simp add: stub_self_def stub_client_def)
  have h5: "Live_events_stop ''rg'' ''acct'' ''ev-1'' True
              \<in> set (api_calls (new_events (stub_state 0)
                    (snd (clean_up_live_event_and_live_output stub_libs ?self ''rg'' ''acct''
                            ''ev-1'' (stub_state 0)))))"
    "Live_events_delete ''rg'' ''acct'' ''ev-1''
              \<in> set (api_calls (new_events (stub_state 0)
                    (snd (clean_up_live_event_and_live_output stub_libs ?self ''rg'' ''acct''
                            ''ev-1'' (stub_state 0)))))"
    using h3 by (simp_all add: new_events_def stub_state_def)
  from clean_up_live_event_and_live_output_idempotent
         [where self = ?self and live_event_name = "''ev-1''" and s = "stub_state 1"
            and lib = stub_libs and rg = "''rg''" and acct = "''acct''"
            and a = "''rg''" and b = "''acct''" and c = "''ev-1''" and d = True
            and a' = "''rg''" and b' = "''acct''" and c' = "''ev-1''"
            and ?lib2.0 = stub_libs and ?self2.0 = ?self and ?rg2.0 = "''rg''"
            and ?acct2.0 = "''acct''" and ?live_event_name2.0 = "''ev-1''"
            and ?s2.0 = "stub_state 0" and ?ev2.0 = ?ev and s2' = ?s2']
       h1 h2 h3 h4 h5
  show ?thesis
    by (simp add: stub_self_def stub_client_def stub_state_def)
qed

section \<open>The playback token\<close>

lemma get_token_result:
  "fst (get_token lib iss aud ct kid key s) =
     bytes_decode lib
       (jwt_encode lib
          (token_payload iss aud ct kid (fst (utcnow lib (world s)))
             (fst (utcnow lib (snd (utcnow lib (world s))))))
          key ''HS256'')
       ''utf-8''"
  by (cases "utcnow lib (world s)"; cases "utcnow lib (snd (utcnow lib (world s)))")
     (simp add: get_token_def bindM_def effect_total_def raiseM_def returnM_def Let_def
        split: sum.splits)

lemma token_payload_times:
  "map_of (token_payload iss aud ct kid t1 t2) ''nbf'' = Some (ClaimDatetime (t1 - 5 * 60 * 1000000))"
  "map_of (token_payload iss aud ct kid t1 t2) ''exp'' = Some (ClaimDatetime (t2 + 60 * 60 * 1000000))"
  by (simp_all add: token_payload_def update_conv' timedelta_minutes_def timedelta_hours_def)

lemma token_payload_iss:
  "ct \<noteq> ''iss'' \<Longrightarrow> map_of (token_payload iss aud ct kid t1 t2) ''iss'' = Some (ClaimStr iss)"
  by (simp add: token_payload_def update_conv')

lemma token_payload_aud:
  "ct \<noteq> ''aud'' \<Longrightarrow> map_of (token_payload iss aud ct kid t1 t2) ''aud'' = Some (ClaimStr aud)"
  by (simp add: token_payload_def update_conv')

lemma token_payload_claim:
  "ct \<noteq> ''nbf'' \<Longrightarrow> ct \<noteq> ''exp'' \<Longrightarrow>
     map_of (token_payload iss aud ct kid t1 t2) ct = Some (ClaimStr kid)"
  by (simp add: token_payload_def update_conv')

lemma Encrypt_Program_init_fields:
  assumes "Encrypt_Program_init lib config new_client s = (Inr self, s')"
  shows "token_sign_key self = fst (urandom lib 40 (world s))
         \<and> config ''ISSUER'' = Some (issuer self)
         \<and> config ''AUDIENCE'' = Some (audience self)
         \<and> config ''CONTENT_KEY_IDENTIFIER_CLAIM_TYPE'' = Some (content_key_identifier_claim_type self)"
proof -
  obtain k w where u: "urandom lib 40 (world s) = (k, w)"
    by (cases "urandom lib 40 (world s)") auto
  from assms u show ?thesis
    by (auto simp: Encrypt_Program_init_def bindM_def config_get_def raiseM_def returnM_def
          effect_total_def split: option.splits)
qed

lemma Encrypt_run_finished_token:
  assumes p: "fst (get_or_create_content_key_policy self (resource_group_name self)
                     (account_name self) (content_key_policy_name self)
                     (print ''Job finished.'' [] s)) = Inr policy"
    and l: "fst (create_streaming_locator self (resource_group_name self) (account_name self)
                   output_asset_name locator_name (content_key_policy_name self)
                   (snd (get_or_create_content_key_policy self (resource_group_name self)
                           (account_name self) (content_key_policy_name self)
                           (print ''Job finished.'' [] s)))) = Inr locator"
    and k: "StreamingLocator_content_keys locator = key_identifier # other_keys"
  shows "Encrypt_run_finished lib self output_asset_name locator_name s =
           bindM (get_token lib (issuer self) (audience self)
                    (content_key_identifier_claim_type self) key_identifier (token_sign_key self))
             (\<lambda>token.
           bindM (get_dash_streaming_url lib self (resource_group_name self) (account_name self)
                    (StreamingLocator_name locator)) (\<lambda>dash_path.
           bindM (printM ''Copy and paste the following URL in your browser to play back the file in the Azure Media Player.'' []) (\<lambda>_.
           bindM (printM ''Note, the player is set to use the AES token and the Bearer token is specified. '' []) (\<lambda>_.
           bindM (printM [] []) (\<lambda>_.
           bindM (printM ''https://ampdemo.azureedge.net/?url={}&aes=true&aestoken=Bearer%3D{}''
                    [PStr dash_path, PStr token]) (\<lambda>_.
           printM [] []))))))
             (snd (create_streaming_locator self (resource_group_name self) (account_name self)
                   output_asset_name locator_name (content_key_policy_name self)
                   (snd (get_or_create_content_key_policy self (resource_group_name self)
                           (account_name self) (content_key_policy_name self)
                           (print ''Job finished.'' [] s)))))"
proof -
  let ?p = "get_or_create_content_key_policy self (resource_group_name self)
              (account_name self) (content_key_policy_name self) (print ''Job finished.'' [] s)"
  let ?l = "create_streaming_locator self (resource_group_name self) (account_name self)
              output_asset_name locator_name (content_key_policy_name self) (snd ?p)"
  have p': "?p = (Inr policy, snd ?p)" using p by (simp add: prod_eq_iff)
  have l': "?l = (Inr locator, snd ?l)" using l by (simp add: prod_eq_iff)
  show ?thesis
    unfolding Encrypt_run_finished_def
    apply (subst bindM_def)
    apply (simp only: printM_def prod.case sum.case)
    apply (subst bindM_def)
    apply (subst p')
    apply (simp only: prod.case sum.case)
    apply (subst bindM_def)
    apply (subst l')
    apply (simp only: prod.case sum.case)
    apply (subst bindM_def)
    apply (simp only: first_item_def k list.case returnM_def prod.case sum.case)
    done
qed

lemma Encrypt_run_finished_prints:
  assumes p: "fst (get_or_create_content_key_policy self (resource_group_name self)
                     (account_name self) (content_key_policy_name self)
                     (print ''Job finished.'' [] s)) = Inr policy"
    and l: "fst (create_streaming_locator self (resource_group_name self) (account_name self)
                   output_asset_name locator_name (content_key_policy_name self)
                   (snd (get_or_create_content_key_policy self (resource_group_name self)
                           (account_name self) (content_key_policy_name self)
                           (print ''Job finished.'' [] s)))) = Inr locator"
    and k: "StreamingLocator_content_keys locator = key_identifier # other_keys"
  shows "(let p = get_or_create_content_key_policy self (resource_group_name self)
                    (account_name self) (content_key_policy_name self)
                    (print ''Job finished.'' [] s);
              l = create_streaming_locator self (resource_group_name self) (account_name self)
                    output_asset_name locator_name (content_key_policy_name self) (snd p);
              t = get_token lib (issuer self) (audience self)
                    (content_key_identifier_claim_type self) key_identifier (token_sign_key self)
                    (snd l);
              d = get_dash_streaming_url lib self (resource_group_name self) (account_name self)
                    (StreamingLocator_name locator) (snd t);
              r = Encrypt_run_finished lib self output_asset_name locator_name s
          in case fst t of
               Inl e \<Rightarrow> r = (Inl e, snd t)
             | Inr token \<Rightarrow>
                 (case fst d of
                    Inl e \<Rightarrow> r = (Inl e, snd d)
                  | Inr dash_path \<Rightarrow>
                      r = (Inr (),
                           \<lparr>world = world (snd d),
                            trace = trace (snd d) @
                              [Print ''Copy and paste the following URL in your browser to play back the file in the Azure Media Player.'' [],
                               Print ''Note, the player is set to use the AES token and the Bearer token is specified. '' [],
                               Print [] [],
                               Print ''https://ampdemo.azureedge.net/?url={}&aes=true&aestoken=Bearer%3D{}''
                                 [PStr dash_path, PStr token],
                               Print [] []]\<rparr>)))"
  unfolding Let_def Encrypt_run_finished_token [OF p l k, of lib]
  by (cases "get_token lib (issuer self) (audience self)
                    (content_key_identifier_claim_type self) key_identifier (token_sign_key self)
                    (snd (create_streaming_locator self (resource_group_name self) (account_name self)
                    output_asset_name locator_name (content_key_policy_name self) (snd (get_or_create_content_key_policy self (resource_group_name self)
                    (account_name self) (content_key_policy_name self)
                    (print ''Job finished.'' [] s)))))")
     (auto simp: bindM_def printM_def print_def split: sum.splits prod.splits)

lemma Encrypt_run_job_finished:
  assumes tr: "fst (Encrypt_get_or_create_transform self (resource_group_name self)
                      (account_name self) (transform_name self)
                      (snd (effect_total (uuid1 lib) s))) = Inr transform"
    and ia: "fst (create_input_asset lib self (resource_group_name self) (account_name self)
                    (''input-'' @ fst (uuid1 lib (world s))) ''ignite.mp4''
                    (snd (Encrypt_get_or_create_transform self (resource_group_name self)
                            (account_name self) (transform_name self)
                            (snd (effect_total (uuid1 lib) s))))) = Inr input_asset"
    and oa: "fst (create_output_asset lib self (resource_group_name self) (account_name self)
                    (''output-'' @ fst (uuid1 lib (world s)))
                    (snd (create_input_asset lib self (resource_group_name self) (account_name self)
                            (''input-'' @ fst (uuid1 lib (world s))) ''ignite.mp4''
                            (snd (Encrypt_get_or_create_transform self (resource_group_name self)
                                    (account_name self) (transform_name self)
                                    (snd (effect_total (uuid1 lib) s))))))) = Inr output_asset"
    and sj: "fst (submit_job self (resource_group_name self) (account_name self)
                    (transform_name self) (''job-'' @ fst (uuid1 lib (world s)))
                    (''input-'' @ fst (uuid1 lib (world s))) (Asset_name output_asset)
                    (snd (create_output_asset lib self (resource_group_name self) (account_name self)
                            (''output-'' @ fst (uuid1 lib (world s)))
                            (snd (create_input_asset lib self (resource_group_name self)
                                    (account_name self)
                                    (''input-'' @ fst (uuid1 lib (world s))) ''ignite.mp4''
                                    (snd (Encrypt_get_or_create_transform self
                                            (resource_group_name self)
                                            (account_name self) (transform_name self)
                                            (snd (effect_total (uuid1 lib) s))))))))) = Inr job0"
    and wj: "wait_for_job_to_finish lib self (resource_group_name self) (account_name self)
               (transform_name self) (''job-'' @ fst (uuid1 lib (world s)))
               (snd (submit_job self (resource_group_name self) (account_name self)
                    (transform_name self) (''job-'' @ fst (uuid1 lib (world s)))
                    (''input-'' @ fst (uuid1 lib (world s))) (Asset_name output_asset)
                    (snd (create_output_asset lib self (resource_group_name self) (account_name self)
                            (''output-'' @ fst (uuid1 lib (world s)))
                            (snd (create_input_asset lib self (resource_group_name self)
                                    (account_name self)
                                    (''input-'' @ fst (uuid1 lib (world s))) ''ignite.mp4''
                                    (snd (Encrypt_get_or_create_transform self
                                            (resource_group_name self)
                                            (account_name self) (transform_name self)
                                            (snd (effect_total (uuid1 lib) s)))))))))) = Some (Inr job, s')"
    and fin: "Job_state job = JobState_finished"
  shows "Encrypt_run lib self s =
           Some (bindM (Encrypt_run_finished lib self (Asset_name output_asset)
                          (''locator-'' @ fst (uuid1 lib (world s)))) (\<lambda>_.
                 bindM (printM ''clean up ...'' []) (\<lambda>_.
                 bindM (inputM lib ''press any key to continue'') (\<lambda>_.
                 Encrypt_clean_up self (resource_group_name self) (account_name self)
                   (transform_name self) (content_key_policy_name self)))) s')"
proof -
  have u: "effect_total (uuid1 lib) s = (Inr (fst (uuid1 lib (world s))), snd (effect_total (uuid1 lib) s))"
    by (cases "uuid1 lib (world s)") (simp add: effect_total_def)
  have pe: "m = (Inr a, snd m)" if "fst m = Inr a" for m :: "(exn + 'x) \<times> 'y" and a
    using that by (simp add: prod_eq_iff)
  note tr' = pe [OF tr] and ia' = pe [OF ia] and oa' = pe [OF oa] and sj' = pe [OF sj]
  show ?thesis
    unfolding Encrypt_run_def Let_def
    apply (subst bindP_def)
    apply (subst liftP_def)
    apply (subst u)
    apply (simp only: option.case prod.case sum.case)
    apply (subst bindP_def)
    apply (subst liftP_def)
    apply (subst tr')
    apply (simp only: option.case prod.case sum.case)
    apply (subst bindP_def)
    apply (subst liftP_def)
    apply (subst ia')
    apply (simp only: option.case prod.case sum.case)
    apply (subst bindP_def)
    apply (subst liftP_def)
    apply (subst oa')
    apply (simp only: option.case prod.case sum.case)
    apply (subst bindP_def)
    apply (subst liftP_def)
    apply (subst sj')
    apply (simp only: option.case prod.case sum.case)
    apply (subst bindP_def)
    apply (subst wj)
    apply (simp only: option.case prod.case sum.case fin if_True)
    apply (simp add: bindP_def liftP_def bindM_def split: prod.splits sum.splits)
    done
qed

lemma byte_char: "char_of (unat (of_nat (of_char c) :: 8 word)) = c"
  by (simp add: unat_of_nat)

lemma bytes_roundtrip:
  "map (\<lambda>x. char_of (unat x)) (map (\<lambda>c. of_nat (of_char c) :: 8 word) str) = str"
  by (simp add: comp_def byte_char)

lemma stub_jwt_text:
  "bytes_decode stub_libs (jwt_encode stub_libs payload key alg) codec =
     Inr (alg @ ''.'' @ concat (map (\<lambda>(k, v). k @ ''=''
              @ (case v of ClaimStr x \<Rightarrow> x | ClaimDatetime t \<Rightarrow> ''<datetime>'') @ '';'') payload))"
  unfolding stub_libs_def by (simp only: libs.select_convs bytes_roundtrip)

lemma stub_token:
  "get_token stub_libs ''myIssuer'' ''myAudience''
     ''urn:microsoft:azure:mediaservices:contentkeyidentifier'' ''key-1'' (replicate 40 0) s
   = (Inr ''HS256.iss=myIssuer;aud=myAudience;urn:microsoft:azure:mediaservices:contentkeyidentifier=key-1;nbf=<datetime>;exp=<datetime>;'', s)"
proof -
  have u: "utcnow stub_libs w = (1700000000000000, w)" for w
    by (simp add: stub_libs_def)
  show ?thesis
    by (simp add: get_token_def bindM_def effect_total_def returnM_def Let_def u stub_jwt_text
          token_payload_def)
qed

lemma get_token_signs_payload:
  "(let t1 = fst (utcnow lib (world s));
        t2 = fst (utcnow lib (snd (utcnow lib (world s))));
        payload = token_payload iss aud ct kid t1 t2
    in fst (get_token lib iss aud ct kid key s) =
         bytes_decode lib (jwt_encode lib payload key ''HS256'') ''utf-8''
       \<and> map_of payload ''nbf'' = Some (ClaimDatetime (t1 - 5 * 60 * 1000000))
       \<and> map_of payload ''exp'' = Some (ClaimDatetime (t2 + 60 * 60 * 1000000))
       \<and> (ct \<noteq> ''iss'' \<longrightarrow> map_of payload ''iss'' = Some (ClaimStr iss))
       \<and> (ct \<noteq> ''aud'' \<longrightarrow> map_of payload ''aud'' = Some (ClaimStr aud))
       \<and> (ct \<noteq> ''nbf'' \<and> ct \<noteq> ''exp'' \<longrightarrow> map_of payload ct = Some (ClaimStr kid)))"
  unfolding Let_def
  using get_token_result [of lib iss aud ct kid key s]
    token_payload_times [of iss aud ct kid]
    token_payload_iss [of ct iss aud kid]
    token_payload_aud [of ct iss aud kid]
    token_payload_claim [of ct iss aud kid]
  by blast

lemma Encrypt_Program_init_passes:
  "(Encrypt_Program_init lib2 config new_client s2 = (Inr self, s2') \<longrightarrow>
        token_sign_key self = fst (urandom lib2 40 (world s2))
        \<and> config ''ISSUER'' = Some (issuer self)
        \<and> config ''AUDIENCE'' = Some (audience self)
        \<and> config ''CONTENT_KEY_IDENTIFIER_CLAIM_TYPE''
            = Some (content_key_identifier_claim_type self))"
  using Encrypt_Program_init_fields [of lib2 config new_client s2 self s2']
  by blast

lemma Encrypt_run_finished_passes:
  "(let rg = resource_group_name self3;
        acct = account_name self3;
        p = get_or_create_content_key_policy self3 rg acct (content_key_policy_name self3)
              (print ''Job finished.'' [] s3);
        l = create_streaming_locator self3 rg acct output_asset_name locator_name
              (content_key_policy_name self3) (snd p);
        t = get_token lib3 (issuer self3) (audience self3)
              (content_key_identifier_claim_type self3) key_identifier (token_sign_key self3)
              (snd l);
        d = get_dash_streaming_url lib3 self3 rg acct (StreamingLocator_name locator) (snd t);
        r = Encrypt_run_finished lib3 self3 output_asset_name locator_name s3
    in fst p = Inr policy \<and> fst l = Inr locator
       \<and> StreamingLocator_content_keys locator = key_identifier # other_keys \<longrightarrow>
       (case fst t of
          Inl e \<Rightarrow> r = (Inl e, snd t)
        | Inr token \<Rightarrow>
            (case fst d of
               Inl e \<Rightarrow> r = (Inl e, snd d)
             | Inr dash_path \<Rightarrow>
                 r = (Inr (),
                      \<lparr>world = world (snd d),
                       trace = trace (snd d) @
                         [Print ''Copy and paste the following URL in your browser to play back the file in the Azure Media Player.'' [],
                          Print ''Note, the player is set to use the AES token and the Bearer token is specified. '' [],
                          Print [] [],
                          Print ''https://ampdemo.azureedge.net/?url={}&aes=true&aestoken=Bearer%3D{}''
                            [PStr dash_path, PStr token],
                          Print [] []]\<rparr>))))"
  unfolding Let_def
  by (intro impI, elim conjE, rule Encrypt_run_finished_prints [unfolded Let_def]; assumption)

lemma Encrypt_run_passes:
  "(let rg = resource_group_name self4;
        acct = account_name self4;
        tn = transform_name self4;
        uniqueness = fst (uuid1 lib4 (world s4));
        job_name = ''job-'' @ uniqueness;
        locator_name = ''locator-'' @ uniqueness;
        output_asset_name = ''output-'' @ uniqueness;
        input_asset_name = ''input-'' @ uniqueness;
        tr = Encrypt_get_or_create_transform self4 rg acct tn (snd (effect_total (uuid1 lib4) s4));
        ia = create_input_asset lib4 self4 rg acct input_asset_name ''ignite.mp4'' (snd tr);
        oa = create_output_asset lib4 self4 rg acct output_asset_name (snd ia);
        sj = submit_job self4 rg acct tn job_name input_asset_name (Asset_name output_asset) (snd oa)
    in fst tr = Inr transform \<and> fst ia = Inr input_asset \<and> fst oa = Inr output_asset
       \<and> fst sj = Inr job0
       \<and> wait_for_job_to_finish lib4 self4 rg acct tn job_name (snd sj) = Some (Inr job, s5)
       \<and> Job_state job = JobState_finished \<longrightarrow>
       Encrypt_run lib4 self4 s4 =
         Some (bindM (Encrypt_run_finished lib4 self4 (Asset_name output_asset) locator_name) (\<lambda>_.
               bindM (printM ''clean up ...'' []) (\<lambda>_.
               bindM (inputM lib4 ''press any key to continue'') (\<lambda>_.
               Encrypt_clean_up self4 rg acct tn (content_key_policy_name self4)))) s5))"
  unfolding Let_def
  by (intro impI, elim conjE, rule Encrypt_run_job_finished; assumption)

text \<open>
  Claim C2, as the source has it. \<^verbatim>\<open>get_token\<close> returns the UTF-8 text of
  \<^verbatim>\<open>jwt.encode(payload, token_verification_key, algorithm='HS256')\<close>. In the payload,
  \<^verbatim>\<open>nbf\<close> is the first reading of the clock minus five minutes and \<^verbatim>\<open>exp\<close> is the second
  reading plus one hour; \<^verbatim>\<open>iss\<close> is the issuer unless the claim type is itself \<^verbatim>\<open>iss\<close>;
  \<^verbatim>\<open>aud\<close> is the audience unless the claim type is itself \<^verbatim>\<open>aud\<close>; and the claim type
  is mapped to the key identifier unless the claim type is \<^verbatim>\<open>nbf\<close> or \<^verbatim>\<open>exp\<close> (first
  part). The key \<^verbatim>\<open>self.token_sign_key\<close> is the one that \<^verbatim>\<open>__init__\<close> draws with
  \<^verbatim>\<open>urandom(40)\<close>, and \<^verbatim>\<open>self.issuer\<close>, \<^verbatim>\<open>self.audience\<close> and
  \<^verbatim>\<open>self.content_key_identifier_claim_type\<close> are the configured ones (second part). The
  branch of \<^verbatim>\<open>run\<close> for a finished job, once the content key policy and the streaming
  locator have been obtained, calls \<^verbatim>\<open>get_token\<close> with \<^verbatim>\<open>self.issuer\<close>,
  \<^verbatim>\<open>self.audience\<close>, \<^verbatim>\<open>self.content_key_identifier_claim_type\<close>, the first content key
  of the locator and \<^verbatim>\<open>self.token_sign_key\<close>, in the state that the creation of the
  locator left: an exception of \<^verbatim>\<open>get_token\<close> or of \<^verbatim>\<open>get_dash_streaming_url\<close> is the
  outcome of the branch, and otherwise the branch ends with the five lines of the playback
  hint, whose URL line carries the token that this call returned (third part). And \<^verbatim>\<open>run\<close>
  enters this branch, with the same \<^verbatim>\<open>self\<close>, the name of the output asset it created and
  the locator name it chose, in the state in which \<^verbatim>\<open>wait_for_job_to_finish\<close> returned a
  finished job; the prompt and \<^verbatim>\<open>clean_up\<close> follow (fourth part).
\<close>

theorem get_token_payload:
  "(let t1 = fst (utcnow lib (world s));
        t2 = fst (utcnow lib (snd (utcnow lib (world s))));
        payload = token_payload iss aud ct kid t1 t2
    in fst (get_token lib iss aud ct kid key s) =
         bytes_decode lib (jwt_encode lib payload key ''HS256'') ''utf-8''
       \<and> map_of payload ''nbf'' = Some (ClaimDatetime (t1 - 5 * 60 * 1000000))
       \<and> map_of payload ''exp'' = Some (ClaimDatetime (t2 + 60 * 60 * 1000000))
       \<and> (ct \<noteq> ''iss'' \<longrightarrow> map_of payload ''iss'' = Some (ClaimStr iss))
       \<and> (ct \<noteq> ''aud'' \<longrightarrow> map_of payload ''aud'' = Some (ClaimStr aud))
       \<and> (ct \<noteq> ''nbf'' \<and> ct \<noteq> ''exp'' \<longrightarrow> map_of payload ct = Some (ClaimStr kid)))
   \<and> (Encrypt_Program_init lib2 config new_client s2 = (Inr self, s2') \<longrightarrow>
        token_sign_key self = fst (urandom lib2 40 (world s2))
        \<and> config ''ISSUER'' = Some (issuer self)
        \<and> config ''AUDIENCE'' = Some (audience self)
        \<and> config ''CONTENT_KEY_IDENTIFIER_CLAIM_TYPE''
            = Some (content_key_identifier_claim_type self))
   \<and> (let rg = resource_group_name self3;
        acct = account_name self3;
        p = get_or_create_content_key_policy self3 rg acct (content_key_policy_name self3)
              (print ''Job finished.'' [] s3);
        l = create_streaming_locator self3 rg acct output_asset_name locator_name
              (content_key_policy_name self3) (snd p);
        t = get_token lib3 (issuer self3) (audience self3)
              (content_key_identifier_claim_type self3) key_identifier (token_sign_key self3)
              (snd l);
        d = get_dash_streaming_url lib3 self3 rg acct (StreamingLocator_name locator) (snd t);
        r = Encrypt_run_finished lib3 self3 output_asset_name locator_name s3
    in fst p = Inr policy \<and> fst l = Inr locator
       \<and> StreamingLocator_content_keys locator = key_identifier # other_keys \<longrightarrow>
       (case fst t of
          Inl e \<Rightarrow> r = (Inl e, snd t)
        | Inr token \<Rightarrow>
            (case fst d of
               Inl e \<Rightarrow> r = (Inl e, snd d)
             | Inr dash_path \<Rightarrow>
                 r = (Inr (),
                      \<lparr>world = world (snd d),
                       trace = trace (snd d) @
                         [Print ''Copy and paste the following URL in your browser to play back the file in the Azure Media Player.'' [],
                          Print ''Note, the player is set to use the AES token and the Bearer token is specified. '' [],
                          Print [] [],
                          Print ''https://ampdemo.azureedge.net/?url={}&aes=true&aestoken=Bearer%3D{}''
                            [PStr dash_path, PStr token],
                          Print [] []]\<rparr>))))
   \<and> (let rg = resource_group_name self4;
        acct = account_name self4;
        tn = transform_name self4;
        uniqueness = fst (uuid1 lib4 (world s4));
        job_name = ''job-'' @ uniqueness;
        locator_name = ''locator-'' @ uniqueness;
        output_asset_name = ''output-'' @ uniqueness;
        input_asset_name = ''input-'' @ uniqueness;
        tr = Encrypt_get_or_create_transform self4 rg acct tn (snd (effect_total (uuid1 lib4) s4));
        ia = create_input_asset lib4 self4 rg acct input_asset_name ''ignite.mp4'' (snd tr);
        oa = create_output_asset lib4 self4 rg acct output_asset_name (snd ia);
        sj = submit_job self4 rg acct tn job_name input_asset_name (Asset_name output_asset) (snd oa)
    in fst tr = Inr transform \<and> fst ia = Inr input_asset \<and> fst oa = Inr output_asset
       \<and> fst sj = Inr job0
       \<and> wait_for_job_to_finish lib4 self4 rg acct tn job_name (snd sj) = Some (Inr job, s5)
       \<and> Job_state job = JobState_finished \<longrightarrow>
       Encrypt_run lib4 self4 s4 =
         Some (bindM (Encrypt_run_finished lib4 self4 (Asset_name output_asset) locator_name) (\<lambda>_.
               bindM (printM ''clean up ...'' []) (\<lambda>_.
               bindM (inputM lib4 ''press any key to continue'') (\<lambda>_.
               Encrypt_clean_up self4 rg acct tn (content_key_policy_name self4)))) s5))"
  by (intro conjI get_token_signs_payload Encrypt_Program_init_passes
        Encrypt_run_finished_passes Encrypt_run_passes)

theorem get_token_payload_witness:
  "map_of (token_payload ''myIssuer'' ''myAudience''
             ''urn:microsoft:azure:mediaservices:contentkeyidentifier'' ''key-1''
             1700000000000000 1700000000000000) ''iss'' = Some (ClaimStr ''myIssuer'')
   \<and> map_of (token_payload ''myIssuer'' ''myAudience''
             ''urn:microsoft:azure:mediaservices:contentkeyidentifier'' ''key-1''
             1700000000000000 1700000000000000) ''aud'' = Some (ClaimStr ''myAudience'')
   \<and> map_of (token_payload ''myIssuer'' ''myAudience''
             ''urn:microsoft:azure:mediaservices:contentkeyidentifier'' ''key-1''
             1700000000000000 1700000000000000)
         ''urn:microsoft:azure:mediaservices:contentkeyidentifier'' = Some (ClaimStr ''key-1'')
   \<and> map_of (token_payload ''myIssuer'' ''myAudience''
             ''urn:microsoft:azure:mediaservices:contentkeyidentifier'' ''key-1''
             1700000000000000 1700000000000000) ''nbf'' = Some (ClaimDatetime 1699999700000000)
   \<and> map_of (token_payload ''myIssuer'' ''myAudience''
             ''urn:microsoft:azure:mediaservices:contentkeyidentifier'' ''key-1''
             1700000000000000 1700000000000000) ''exp'' = Some (ClaimDatetime 1700003600000000)
   \<and> token_sign_key (projr (fst (Encrypt_Program_init stub_libs stub_config
                                    (\<lambda>client_id key subscription_id tenant_id. stub_client)
                                    (stub_state 0)))) = replicate 40 0
   \<and> Encrypt_run stub_libs (stub_encrypt_self client_streaming) (stub_state 0)
     = Some (Inr (),
             \<lparr>world = 0,
             trace = [Api (Transforms_get ''rg'' ''acct'' ''t''),
                      Api (Transforms_create_or_update ''rg'' ''acct'' ''t'' [\<lparr>TransformOutput_preset = BuiltInStandardEncoderPreset EncoderNamedPreset_adaptive_streaming\<rparr>]),
                      Api (Assets_create_or_update ''rg'' ''acct'' ''input-0a1b2c3d-4e5f-11ef-8a9b-0242ac120002''),
                      Api (Assets_list_container_sas ''rg'' ''acct'' ''input-0a1b2c3d-4e5f-11ef-8a9b-0242ac120002'' AssetContainerPermission_read_write 1700014400000000),
                      Api (Blob_create_blob_from_path \<lparr>BlockBlobService_account_name = ''store'', BlockBlobService_sas_token = ''sig=1''\<rparr> ''box'' ''ignite.mp4'' ''/home/user/ignite.mp4''),
                      Api (Assets_get ''rg'' ''acct'' ''output-0a1b2c3d-4e5f-11ef-8a9b-0242ac120002''),
                      Api (Assets_create_or_update ''rg'' ''acct'' ''output-0a1b2c3d-4e5f-11ef-8a9b-0242ac120002''),
                      Api (Jobs_create ''rg'' ''acct'' ''t'' ''job-0a1b2c3d-4e5f-11ef-8a9b-0242ac120002'' ''input-0a1b2c3d-4e5f-11ef-8a9b-0242ac120002'' [''output-0a1b2c3d-4e5f-11ef-8a9b-0242ac120002'']),
                      Api (Jobs_get ''rg'' ''acct'' ''t'' ''job-0a1b2c3d-4e5f-11ef-8a9b-0242ac120002''),
                      Print ''Job is {}'' [PJobState JobState_finished],
                      Print ''Job finished.'' [],
                      Api (Content_key_policies_get ''rg'' ''acct'' ''policy''),
                      Api (Content_key_policies_create_or_update ''rg'' ''acct'' ''policy'' [\<lparr>restriction_issuer = ''myIssuer'', restriction_audience = ''myAudience'', primary_verification_key = replicate 40 0, required_claims = [(''urn:microsoft:azure:mediaservices:contentkeyidentifier'', None)]\<rparr>]),
                      Api (Streaming_locators_create ''rg'' ''acct'' ''locator-0a1b2c3d-4e5f-11ef-8a9b-0242ac120002'' ''output-0a1b2c3d-4e5f-11ef-8a9b-0242ac120002'' ''Predefined_ClearKey'' (Some ''policy'')),
                      Api (Streaming_endpoints_get ''rg'' ''acct'' ''default''),
                      Api (Streaming_locators_list_paths ''rg'' ''acct'' ''locator-0a1b2c3d-4e5f-11ef-8a9b-0242ac120002''),
                      Print ''Copy and paste the following URL in your browser to play back the file in the Azure Media Player.'' [],
                      Print ''Note, the player is set to use the AES token and the Bearer token is specified. '' [],
                      Print [] [],
                      Print ''https://ampdemo.azureedge.net/?url={}&aes=true&aestoken=Bearer%3D{}'' [PStr ''https://host.example/locator/manifest(format=mpd-time-csf)'', PStr ''HS256.iss=myIssuer;aud=myAudience;urn:microsoft:azure:mediaservices:contentkeyidentifier=key-1;nbf=<datetime>;exp=<datetime>;''],
                      Print [] [],
                      Print ''clean up ...'' [],
                      Input ''press any key to continue'',
                      Api (Jobs_list ''rg'' ''acct'' ''t''),
                      Api (Streaming_locators_list ''rg'' ''acct''),
                      Api (Assets_list ''rg'' ''acct''),
                      Api (Content_key_policies_delete ''rg'' ''acct'' ''policy'')]\<rparr>)"
proof -
  let ?ct = "''urn:microsoft:azure:mediaservices:contentkeyidentifier''"
  let ?self = "\<lparr>account_name = ''acct'', resource_group_name = ''rg'', client = stub_client,
                transform_name = ''t'', content_key_policy_name = ''policy'',
                content_key_identifier_claim_type = ?ct, issuer = ''myIssuer'',
                audience = ''myAudience'', token_sign_key = replicate 40 0\<rparr>"
  let ?run_self = "stub_encrypt_self client_streaming"
  let ?u = "''0a1b2c3d-4e5f-11ef-8a9b-0242ac120002''"
  let ?transform = "\<lparr>Transform_name = ''t'', Transform_outputs = [\<lparr>TransformOutput_preset = BuiltInStandardEncoderPreset EncoderNamedPreset_adaptive_streaming\<rparr>]\<rparr>"
  let ?input_asset = "\<lparr>Asset_name = ''input-0a1b2c3d-4e5f-11ef-8a9b-0242ac120002''\<rparr>"
  let ?output_asset = "\<lparr>Asset_name = ''output-0a1b2c3d-4e5f-11ef-8a9b-0242ac120002''\<rparr>"
  let ?queued = "\<lparr>Job_name = ''job-0a1b2c3d-4e5f-11ef-8a9b-0242ac120002'', Job_state = JobState_queued, Job_outputs = []\<rparr>"
  let ?finished = "\<lparr>Job_name = ''job-0a1b2c3d-4e5f-11ef-8a9b-0242ac120002'', Job_state = JobState_finished, Job_outputs = []\<rparr>"
  let ?policy = "\<lparr>ContentKeyPolicy_name = ''policy''\<rparr>"
  let ?locator = "\<lparr>StreamingLocator_name = ''locator-0a1b2c3d-4e5f-11ef-8a9b-0242ac120002'',
                   StreamingLocator_content_keys = [''key-1'']\<rparr>"
  let ?waited = "\<lparr>world = 0,
             trace = [Api (Transforms_get ''rg'' ''acct'' ''t''),
                      Api (Transforms_create_or_update ''rg'' ''acct'' ''t'' [\<lparr>TransformOutput_preset = BuiltInStandardEncoderPreset EncoderNamedPreset_adaptive_streaming\<rparr>]),
                      Api (Assets_create_or_update ''rg'' ''acct'' ''input-0a1b2c3d-4e5f-11ef-8a9b-0242ac120002''),
                      Api (Assets_list_container_sas ''rg'' ''acct'' ''input-0a1b2c3d-4e5f-11ef-8a9b-0242ac120002'' AssetContainerPermission_read_write 1700014400000000),
                      Api (Blob_create_blob_from_path \<lparr>BlockBlobService_account_name = ''store'', BlockBlobService_sas_token = ''sig=1''\<rparr> ''box'' ''ignite.mp4'' ''/home/user/ignite.mp4''),
                      Api (Assets_get ''rg'' ''acct'' ''output-0a1b2c3d-4e5f-11ef-8a9b-0242ac120002''),
                      Api (Assets_create_or_update ''rg'' ''acct'' ''output-0a1b2c3d-4e5f-11ef-8a9b-0242ac120002''),
                      Api (Jobs_create ''rg'' ''acct'' ''t'' ''job-0a1b2c3d-4e5f-11ef-8a9b-0242ac120002'' ''input-0a1b2c3d-4e5f-11ef-8a9b-0242ac120002'' [''output-0a1b2c3d-4e5f-11ef-8a9b-0242ac120002'']),
                      Api (Jobs_get ''rg'' ''acct'' ''t'' ''job-0a1b2c3d-4e5f-11ef-8a9b-0242ac120002''),
                      Print ''Job is {}'' [PJobState JobState_finished]]\<rparr> :: nat state"
  let ?hinted = "\<lparr>world = 0,
             trace = [Api (Transforms_get ''rg'' ''acct'' ''t''),
                      Api (Transforms_create_or_update ''rg'' ''acct'' ''t'' [\<lparr>TransformOutput_preset = BuiltInStandardEncoderPreset EncoderNamedPreset_adaptive_streaming\<rparr>]),
                      Api (Assets_create_or_update ''rg'' ''acct'' ''input-0a1b2c3d-4e5f-11ef-8a9b-0242ac120002''),
                      Api (Assets_list_container_sas ''rg'' ''acct'' ''input-0a1b2c3d-4e5f-11ef-8a9b-0242ac120002'' AssetContainerPermission_read_write 1700014400000000),
                      Api (Blob_create_blob_from_path \<lparr>BlockBlobService_account_name = ''store'', BlockBlobService_sas_token = ''sig=1''\<rparr> ''box'' ''ignite.mp4'' ''/home/user/ignite.mp4''),
                      Api (Assets_get ''rg'' ''acct'' ''output-0a1b2c3d-4e5f-11ef-8a9b-0242ac120002''),
                      Api (Assets_create_or_update ''rg'' ''acct'' ''output-0a1b2c3d-4e5f-11ef-8a9b-0242ac120002''),
                      Api (Jobs_create ''rg'' ''acct'' ''t'' ''job-0a1b2c3d-4e5f-11ef-8a9b-0242ac120002'' ''input-0a1b2c3d-4e5f-11ef-8a9b-0242ac120002'' [''output-0a1b2c3d-4e5f-11ef-8a9b-0242ac120002'']),
                      Api (Jobs_get ''rg'' ''acct'' ''t'' ''job-0a1b2c3d-4e5f-11ef-8a9b-0242ac120002''),
                      Print ''Job is {}'' [PJobState JobState_finished],
                      Print ''Job finished.'' [],
                      Api (Content_key_policies_get ''rg'' ''acct'' ''policy''),
                      Api (Content_key_policies_create_or_update ''rg'' ''acct'' ''policy'' [\<lparr>restriction_issuer = ''myIssuer'', restriction_audience = ''myAudience'', primary_verification_key = replicate 40 0, required_claims = [(''urn:microsoft:azure:mediaservices:contentkeyidentifier'', None)]\<rparr>]),
                      Api (Streaming_locators_create ''rg'' ''acct'' ''locator-0a1b2c3d-4e5f-11ef-8a9b-0242ac120002'' ''output-0a1b2c3d-4e5f-11ef-8a9b-0242ac120002'' ''Predefined_ClearKey'' (Some ''policy'')),
                      Api (Streaming_endpoints_get ''rg'' ''acct'' ''default''),
                      Api (Streaming_locators_list_paths ''rg'' ''acct'' ''locator-0a1b2c3d-4e5f-11ef-8a9b-0242ac120002''),
                      Print ''Copy and paste the following URL in your browser to play back the file in the Azure Media Player.'' [],
                      Print ''Note, the player is set to use the AES token and the Bearer token is specified. '' [],
                      Print [] [],
                      Print ''https://ampdemo.azureedge.net/?url={}&aes=true&aestoken=Bearer%3D{}'' [PStr ''https://host.example/locator/manifest(format=mpd-time-csf)'', PStr ''HS256.iss=myIssuer;aud=myAudience;urn:microsoft:azure:mediaservices:contentkeyidentifier=key-1;nbf=<datetime>;exp=<datetime>;''],
                      Print [] []]\<rparr> :: nat state"
  have h1: "?ct \<noteq> ''iss''" "?ct \<noteq> ''aud''" "?ct \<noteq> ''nbf'' \<and> ?ct \<noteq> ''exp''"
    by simp_all
  have h2: "Encrypt_Program_init stub_libs stub_config
              (\<lambda>client_id key subscription_id tenant_id. stub_client) (stub_state 0)
            = (Inr ?self, stub_state 0)"
    by (simp add: Encrypt_Program_init_def bindM_def config_get_def returnM_def effect_total_def
          stub_config_def stub_libs_def stub_state_def)
  have f: "resource_group_name ?run_self = ''rg''" "account_name ?run_self = ''acct''"
    "transform_name ?run_self = ''t''"
    "content_key_policy_name ?run_self = ''policy''" "issuer ?run_self = ''myIssuer''"
    "audience ?run_self = ''myAudience''" "token_sign_key ?run_self = replicate 40 0"
    "content_key_identifier_claim_type ?run_self = ?ct"
    by (simp_all add: stub_encrypt_self_def)
  have u: "uuid1 stub_libs w = (?u, w)" for w
    by (simp add: stub_libs_def)
  have eu: "effect_total (uuid1 stub_libs) \<lparr>world = 0, trace = t\<rparr>
              = (Inr ?u, \<lparr>world = 0, trace = t\<rparr>)" for t
    by (simp add: effect_total_def u)
  have tr: "Encrypt_get_or_create_transform ?run_self ''rg'' ''acct'' ''t'' \<lparr>world = 0, trace = t\<rparr>
              = (Inr ?transform,
                 \<lparr>world = 0, trace = t @ [Api (Transforms_get ''rg'' ''acct'' ''t''),
                                    Api (Transforms_create_or_update ''rg'' ''acct'' ''t'' [\<lparr>TransformOutput_preset = BuiltInStandardEncoderPreset EncoderNamedPreset_adaptive_streaming\<rparr>])]\<rparr>)" for t
    by (simp add: Encrypt_get_or_create_transform_def bindM_def invoke_def Let_def
          stub_encrypt_self_def client_streaming_def stub_client_def)
  have ia: "create_input_asset stub_libs ?run_self ''rg'' ''acct'' n ''ignite.mp4''
              \<lparr>world = 0, trace = t\<rparr>
              = (Inr \<lparr>Asset_name = n\<rparr>,
                 \<lparr>world = 0, trace = t @ [Api (Assets_create_or_update ''rg'' ''acct'' n),
                                    Api (Assets_list_container_sas ''rg'' ''acct'' n AssetContainerPermission_read_write 1700014400000000),
                                    Api (Blob_create_blob_from_path \<lparr>BlockBlobService_account_name = ''store'', BlockBlobService_sas_token = ''sig=1''\<rparr> ''box'' ''ignite.mp4'' ''/home/user/ignite.mp4'')]\<rparr>)" for n t
    by (simp add: create_input_asset_def bindM_def invoke_def effect_total_def effect_def
          first_item_def returnM_def blob_service_of_sas_def timedelta_hours_def Let_def
          stub_encrypt_self_def client_streaming_def stub_client_def stub_libs_def)
  have oa: "create_output_asset stub_libs ?run_self ''rg'' ''acct'' n \<lparr>world = 0, trace = t\<rparr>
              = (Inr \<lparr>Asset_name = n\<rparr>,
                 \<lparr>world = 0, trace = t @ [Api (Assets_get ''rg'' ''acct'' n),
                                    Api (Assets_create_or_update ''rg'' ''acct'' n)]\<rparr>)" for n t
    by (simp add: create_output_asset_def bindM_def invoke_def returnM_def
          stub_encrypt_self_def client_streaming_def stub_client_def)
  have sj: "submit_job ?run_self ''rg'' ''acct'' ''t'' j i out \<lparr>world = 0, trace = t\<rparr>
              = (Inr \<lparr>Job_name = j, Job_state = JobState_queued, Job_outputs = []\<rparr>,
                 \<lparr>world = 0, trace = t @ [Api (Jobs_create ''rg'' ''acct'' ''t'' j i [out])]\<rparr>)" for j i out t
    by (simp add: submit_job_def invoke_def
          stub_encrypt_self_def client_streaming_def stub_client_def)
  have wj: "wait_for_job_to_finish stub_libs ?run_self ''rg'' ''acct'' ''t'' j
              \<lparr>world = 0, trace = t\<rparr>
              = Some (Inr \<lparr>Job_name = j, Job_state = JobState_finished, Job_outputs = []\<rparr>,
                      \<lparr>world = 0, trace = t @ [Api (Jobs_get ''rg'' ''acct'' ''t'' j),
                                         Print ''Job is {}'' [PJobState JobState_finished]]\<rparr>)" for j t
    by (subst wait_for_job_to_finish.simps)
       (simp add: invoke_def job_is_done_def print_job_def print_def
          stub_encrypt_self_def client_streaming_def stub_client_def)
  have jf: "print ''Job finished.'' [] \<lparr>world = 0, trace = t\<rparr>
              = \<lparr>world = 0, trace = t @ [Print ''Job finished.'' []]\<rparr>" for t :: "event list"
    by (simp add: print_def)
  have p: "get_or_create_content_key_policy ?run_self ''rg'' ''acct'' ''policy''
             \<lparr>world = 0, trace = t\<rparr>
             = (Inr ?policy,
                \<lparr>world = 0, trace = t @ [Api (Content_key_policies_get ''rg'' ''acct'' ''policy''),
                                   Api (Content_key_policies_create_or_update ''rg'' ''acct'' ''policy'' [\<lparr>restriction_issuer = ''myIssuer'', restriction_audience = ''myAudience'', primary_verification_key = replicate 40 0, required_claims = [(''urn:microsoft:azure:mediaservices:contentkeyidentifier'', None)]\<rparr>])]\<rparr>)" for t
    by (simp add: get_or_create_content_key_policy_def bindM_def invoke_def Let_def
          stub_encrypt_self_def client_streaming_def stub_client_def)
  have l: "create_streaming_locator ?run_self ''rg'' ''acct'' out loc ''policy''
             \<lparr>world = 0, trace = t\<rparr>
             = (Inr \<lparr>StreamingLocator_name = loc, StreamingLocator_content_keys = [''key-1'']\<rparr>,
                \<lparr>world = 0, trace = t @ [Api (Streaming_locators_create ''rg'' ''acct'' loc out ''Predefined_ClearKey'' (Some ''policy''))]\<rparr>)" for out loc t
    by (simp add: create_streaming_locator_def invoke_def
          stub_encrypt_self_def client_streaming_def stub_client_def)
  have d: "get_dash_streaming_url stub_libs ?run_self ''rg'' ''acct'' loc \<lparr>world = 0, trace = t\<rparr>
             = (Inr ''https://host.example/locator/manifest(format=mpd-time-csf)'',
                \<lparr>world = 0, trace = t @ [Api (Streaming_endpoints_get ''rg'' ''acct'' ''default''),
                                   Api (Streaming_locators_list_paths ''rg'' ''acct'' loc)]\<rparr>)" for loc t
    by (simp add: get_dash_streaming_url_def bindM_def invoke_def returnM_def
          DefaultStreamingEndpointName_def
          stub_encrypt_self_def client_streaming_def stub_client_def stub_libs_def)
  have i: "inputM stub_libs prompt \<lparr>world = 0, trace = t\<rparr>
             = (Inr [], \<lparr>world = 0, trace = t @ [Input prompt]\<rparr>)" for prompt t
    by (simp add: inputM_def stub_libs_def)
  have c: "Encrypt_clean_up ?run_self ''rg'' ''acct'' ''t'' ''policy'' \<lparr>world = 0, trace = t\<rparr>
             = (Inr (), \<lparr>world = 0, trace = t @ [Api (Jobs_list ''rg'' ''acct'' ''t''),
                                   Api (Streaming_locators_list ''rg'' ''acct''),
                                   Api (Assets_list ''rg'' ''acct''),
                                   Api (Content_key_policies_delete ''rg'' ''acct'' ''policy'')]\<rparr>)" for t
    by (simp add: Encrypt_clean_up_def bindM_def invoke_def
          stub_encrypt_self_def client_streaming_def stub_client_def)
  note T = get_token_payload
         [where lib = stub_libs and s = "stub_state 0" and iss = "''myIssuer''"
            and aud = "''myAudience''" and ct = ?ct and kid = "''key-1''" and key = "[]"
            and ?lib2.0 = stub_libs and config = stub_config
            and new_client = "\<lambda>client_id key subscription_id tenant_id. stub_client"
            and ?s2.0 = "stub_state 0" and self = ?self and s2' = "stub_state 0"
            and ?lib3.0 = stub_libs and ?self3.0 = ?run_self and ?s3.0 = ?waited
            and output_asset_name = "''output-0a1b2c3d-4e5f-11ef-8a9b-0242ac120002''" and locator_name = "''locator-0a1b2c3d-4e5f-11ef-8a9b-0242ac120002''"
            and policy = ?policy and locator = ?locator and key_identifier = "''key-1''"
            and other_keys = "[]"
            and ?lib4.0 = stub_libs and ?self4.0 = ?run_self and ?s4.0 = "stub_state 0"
            and transform = ?transform and input_asset = ?input_asset
            and output_asset = ?output_asset and ?job0.0 = ?queued and job = ?finished and ?s5.0 = ?waited]
  from T h1 h2 have payload: "map_of (token_payload ''myIssuer'' ''myAudience''
             ''urn:microsoft:azure:mediaservices:contentkeyidentifier'' ''key-1''
             1700000000000000 1700000000000000) ''iss'' = Some (ClaimStr ''myIssuer'')
   \<and> map_of (token_payload ''myIssuer'' ''myAudience''
             ''urn:microsoft:azure:mediaservices:contentkeyidentifier'' ''key-1''
             1700000000000000 1700000000000000) ''aud'' = Some (ClaimStr ''myAudience'')
   \<and> map_of (token_payload ''myIssuer'' ''myAudience''
             ''urn:microsoft:azure:mediaservices:contentkeyidentifier'' ''key-1''
             1700000000000000 1700000000000000)
         ''urn:microsoft:azure:mediaservices:contentkeyidentifier'' = Some (ClaimStr ''key-1'')
   \<and> map_of (token_payload ''myIssuer'' ''myAudience''
             ''urn:microsoft:azure:mediaservices:contentkeyidentifier'' ''key-1''
             1700000000000000 1700000000000000) ''nbf'' = Some (ClaimDatetime 1699999700000000)
   \<and> map_of (token_payload ''myIssuer'' ''myAudience''
             ''urn:microsoft:azure:mediaservices:contentkeyidentifier'' ''key-1''
             1700000000000000 1700000000000000) ''exp'' = Some (ClaimDatetime 1700003600000000)
   \<and> token_sign_key (projr (fst (Encrypt_Program_init stub_libs stub_config
                                    (\<lambda>client_id key subscription_id tenant_id. stub_client)
                                    (stub_state 0)))) = replicate 40 0"
    by (simp add: Let_def stub_libs_def stub_state_def)
  from T have finished:
    "Encrypt_run_finished stub_libs ?run_self ''output-0a1b2c3d-4e5f-11ef-8a9b-0242ac120002'' ''locator-0a1b2c3d-4e5f-11ef-8a9b-0242ac120002'' ?waited = (Inr (), ?hinted)"
    by (simp add: Let_def f jf p l d stub_token)
  from T have run:
    "Encrypt_run stub_libs ?run_self (stub_state 0) =
       Some (bindM (Encrypt_run_finished stub_libs ?run_self ''output-0a1b2c3d-4e5f-11ef-8a9b-0242ac120002'' ''locator-0a1b2c3d-4e5f-11ef-8a9b-0242ac120002'') (\<lambda>_.
             bindM (printM ''clean up ...'' []) (\<lambda>_.
             bindM (inputM stub_libs ''press any key to continue'') (\<lambda>_.
             Encrypt_clean_up ?run_self ''rg'' ''acct'' ''t'' ''policy''))) ?waited)"
    by (simp add: Let_def f u eu tr ia oa sj wj stub_state_def)
  have "Encrypt_run stub_libs ?run_self (stub_state 0)
     = Some (Inr (),
             \<lparr>world = 0,
             trace = [Api (Transforms_get ''rg'' ''acct'' ''t''),
                      Api (Transforms_create_or_update ''rg'' ''acct'' ''t'' [\<lparr>TransformOutput_preset = BuiltInStandardEncoderPreset EncoderNamedPreset_adaptive_streaming\<rparr>]),
                      Api (Assets_create_or_update ''rg'' ''acct'' ''input-0a1b2c3d-4e5f-11ef-8a9b-0242ac120002''),
                      Api (Assets_list_container_sas ''rg'' ''acct'' ''input-0a1b2c3d-4e5f-11ef-8a9b-0242ac120002'' AssetContainerPermission_read_write 1700014400000000),
                      Api (Blob_create_blob_from_path \<lparr>BlockBlobService_account_name = ''store'', BlockBlobService_sas_token = ''sig=1''\<rparr> ''box'' ''ignite.mp4'' ''/home/user/ignite.mp4''),
                      Api (Assets_get ''rg'' ''acct'' ''output-0a1b2c3d-4e5f-11ef-8a9b-0242ac120002''),
                      Api (Assets_create_or_update ''rg'' ''acct'' ''output-0a1b2c3d-4e5f-11ef-8a9b-0242ac120002''),
                      Api (Jobs_create ''rg'' ''acct'' ''t'' ''job-0a1b2c3d-4e5f-11ef-8a9b-0242ac120002'' ''input-0a1b2c3d-4e5f-11ef-8a9b-0242ac120002'' [''output-0a1b2c3d-4e5f-11ef-8a9b-0242ac120002'']),
                      Api (Jobs_get ''rg'' ''acct'' ''t'' ''job-0a1b2c3d-4e5f-11ef-8a9b-0242ac120002''),
                      Print ''Job is {}'' [PJobState JobState_finished],
                      Print ''Job finished.'' [],
                      Api (Content_key_policies_get ''rg'' ''acct'' ''policy''),
                      Api (Content_key_policies_create_or_update ''rg'' ''acct'' ''policy'' [\<lparr>restriction_issuer = ''myIssuer'', restriction_audience = ''myAudience'', primary_verification_key = replicate 40 0, required_claims = [(''urn:microsoft:azure:mediaservices:contentkeyidentifier'', None)]\<rparr>]),
                      Api (Streaming_locators_create ''rg'' ''acct'' ''locator-0a1b2c3d-4e5f-11ef-8a9b-0242ac120002'' ''output-0a1b2c3d-4e5f-11ef-8a9b-0242ac120002'' ''Predefined_ClearKey'' (Some ''policy'')),
                      Api (Streaming_endpoints_get ''rg'' ''acct'' ''default''),
                      Api (Streaming_locators_list_paths ''rg'' ''acct'' ''locator-0a1b2c3d-4e5f-11ef-8a9b-0242ac120002''),
                      Print ''Copy and paste the following URL in your browser to play back the file in the Azure Media Player.'' [],
                      Print ''Note, the player is set to use the AES token and the Bearer token is specified. '' [],
                      Print [] [],
                      Print ''https://ampdemo.azureedge.net/?url={}&aes=true&aestoken=Bearer%3D{}'' [PStr ''https://host.example/locator/manifest(format=mpd-time-csf)'', PStr ''HS256.iss=myIssuer;aud=myAudience;urn:microsoft:azure:mediaservices:contentkeyidentifier=key-1;nbf=<datetime>;exp=<datetime>;''],
                      Print [] [],
                      Print ''clean up ...'' [],
                      Input ''press any key to continue'',
                      Api (Jobs_list ''rg'' ''acct'' ''t''),
                      Api (Streaming_locators_list ''rg'' ''acct''),
                      Api (Assets_list ''rg'' ''acct''),
                      Api (Content_key_policies_delete ''rg'' ''acct'' ''policy'')]\<rparr>)"
    unfolding run by (simp add: bindM_def finished printM_def print_def i c)
  with payload show ?thesis by simp
qed

text \<open>
  Claim C2 as it is stated fails when the configured claim type is one of the names the
  payload already uses. With the claim type \<^verbatim>\<open>iss\<close>, the payload that \<^verbatim>\<open>get_token\<close> signs
  maps \<^verbatim>\<open>iss\<close> to the key identifier and not to the issuer.
\<close>

theorem get_token_payload_counterexample:
  "fst (get_token stub_libs ''myIssuer'' ''myAudience'' ''iss'' ''key-1'' [] (stub_state 0)) =
     bytes_decode stub_libs
       (jwt_encode stub_libs
          (token_payload ''myIssuer'' ''myAudience'' ''iss'' ''key-1''
             1700000000000000 1700000000000000) [] ''HS256'') ''utf-8''
   \<and> token_payload ''myIssuer'' ''myAudience'' ''iss'' ''key-1'' 1700000000000000 1700000000000000
       = [(''iss'', ClaimStr ''key-1''), (''aud'', ClaimStr ''myAudience''),
          (''nbf'', ClaimDatetime 1699999700000000), (''exp'', ClaimDatetime 1700003600000000)]
   \<and> map_of (token_payload ''myIssuer'' ''myAudience'' ''iss'' ''key-1''
               1700000000000000 1700000000000000) ''iss'' \<noteq> Some (ClaimStr ''myIssuer'')"
proof -
  have p: "token_payload ''myIssuer'' ''myAudience'' ''iss'' ''key-1'' 1700000000000000 1700000000000000
       = [(''iss'', ClaimStr ''key-1''), (''aud'', ClaimStr ''myAudience''),
          (''nbf'', ClaimDatetime 1699999700000000), (''exp'', ClaimDatetime 1700003600000000)]"
    by (simp add: token_payload_def timedelta_minutes_def timedelta_hours_def)
  have g: "fst (get_token stub_libs ''myIssuer'' ''myAudience'' ''iss'' ''key-1'' [] (stub_state 0)) =
     bytes_decode stub_libs
       (jwt_encode stub_libs
          (token_payload ''myIssuer'' ''myAudience'' ''iss'' ''key-1''
             1700000000000000 1700000000000000) [] ''HS256'') ''utf-8''"
    using get_token_result [of stub_libs "''myIssuer''" "''myAudience''" "''iss''" "''key-1''" "[]"
                               "stub_state 0"]
    by (simp add: stub_libs_def stub_state_def)
  show ?thesis using p g by simp
qed

section \<open>The live event polling loop\<close>

lemma invoke_fetched_live:
  assumes "fetched_live_event self n s = Inr r"
  shows "invoke (Live_events_get (resource_group_name self) (account_name self) n)
           (live_events_get (client self) (resource_group_name self) (account_name self) n) s =
           (Inr r,
            \<lparr>world = snd (live_events_get (client self) (resource_group_name self) (account_name self)
                             n (world s)),
             trace = trace s @ [Api (Live_events_get (resource_group_name self) (account_name self) n)]\<rparr>)"
  using assms by (simp add: fetched_live_event_def invoke_result)

lemma live_poll_round_trace:
  assumes "fetched_live_event self n s = Inr None"
  shows "trace (live_poll_round lib self n s) =
           trace s @ [Api (Live_events_get (resource_group_name self) (account_name self) n), Sleep 5]"
  by (simp add: live_poll_round_def invoke_fetched_live [OF assms] sleep_def)

lemma wait_for_live_event_found:
  assumes "fetched_live_event self n s = Inr (Some ev)"
  shows "wait_for_live_event lib self n s =
           Some (Inr ev,
                 \<lparr>world = snd (live_events_get (client self) (resource_group_name self)
                                  (account_name self) n (world s)),
                  trace = trace s @ [Api (Live_events_get (resource_group_name self)
                                            (account_name self) n)]\<rparr>)"
  by (subst wait_for_live_event.simps) (simp add: invoke_fetched_live [OF assms])

lemma wait_for_live_event_retry:
  assumes "fetched_live_event self n s = Inr None"
  shows "wait_for_live_event lib self n s = wait_for_live_event lib self n (live_poll_round lib self n s)"
  by (subst wait_for_live_event.simps)
     (simp add: invoke_fetched_live [OF assms] live_poll_round_def)

lemma wait_for_live_event_created_after:
  assumes "created_after lib self n s k ev"
  shows "\<exists>s'. wait_for_live_event lib self n s = Some (Inr ev, s')
           \<and> trace s' = trace s
               @ concat (replicate k [Api (Live_events_get (resource_group_name self)
                                             (account_name self) n), Sleep 5])
               @ [Api (Live_events_get (resource_group_name self) (account_name self) n)]"
  using assms
proof (induction k arbitrary: s)
  case 0
  then have "fetched_live_event self n s = Inr (Some ev)" by (simp add: created_after_def)
  from wait_for_live_event_found [OF this] show ?case by simp
next
  case (Suc k)
  let ?r = "live_poll_round lib self n"
  from Suc.prems have all: "\<And>i. i < Suc k \<Longrightarrow> fetched_live_event self n ((?r ^^ i) s) = Inr None"
    and last: "fetched_live_event self n ((?r ^^ Suc k) s) = Inr (Some ev)"
    by (simp_all add: created_after_def)
  from all [of 0] have f0: "fetched_live_event self n s = Inr None" by simp
  have "created_after lib self n (?r s) k ev"
    unfolding created_after_def
  proof (intro conjI allI impI)
    show "fetched_live_event self n ((?r ^^ k) (?r s)) = Inr (Some ev)"
      using last by (simp add: funpow_swap1)
  next
    fix i assume "i < k"
    then have "Suc i < Suc k" by simp
    from all [OF this] show "fetched_live_event self n ((?r ^^ i) (?r s)) = Inr None"
      by (simp add: funpow_swap1)
  qed
  from Suc.IH [OF this] obtain s' where
    w: "wait_for_live_event lib self n (?r s) = Some (Inr ev, s')"
    and t: "trace s' = trace (?r s)
               @ concat (replicate k [Api (Live_events_get (resource_group_name self)
                                             (account_name self) n), Sleep 5])
               @ [Api (Live_events_get (resource_group_name self) (account_name self) n)]"
    by blast
  have "wait_for_live_event lib self n s = Some (Inr ev, s')"
    using wait_for_live_event_retry [OF f0] w by simp
  moreover have "trace s' = trace s
               @ concat (replicate (Suc k) [Api (Live_events_get (resource_group_name self)
                                             (account_name self) n), Sleep 5])
               @ [Api (Live_events_get (resource_group_name self) (account_name self) n)]"
    using t live_poll_round_trace [OF f0] by simp
  ultimately show ?case by blast
qed

lemma never_created_step:
  assumes "never_created lib self n s"
  shows "fetched_live_event self n s = Inr None
         \<and> never_created lib self n (live_poll_round lib self n s)"
proof -
  let ?r = "live_poll_round lib self n"
  from assms have all: "\<And>i. fetched_live_event self n ((?r ^^ i) s) = Inr None"
    by (simp add: never_created_def)
  from all [of 0] have "fetched_live_event self n s = Inr None" by simp
  moreover have "never_created lib self n (?r s)"
    unfolding never_created_def
  proof
    fix i
    from all [of "Suc i"] show "fetched_live_event self n ((?r ^^ i) (?r s)) = Inr None"
      by (simp add: funpow_swap1)
  qed
  ultimately show ?thesis by blast
qed

lemma wait_for_live_event_never_aux:
  assumes "wait_for_live_event lib self n s = Some y"
  shows "\<not> never_created lib self n s"
proof (rule wait_for_live_event.raw_induct
         [where P = "\<lambda>lib self n s y. \<not> never_created lib self n s", OF _ assms])
  fix f :: "'a libs \<Rightarrow> ('a, 'b) Program_scheme \<Rightarrow> string \<Rightarrow> ('a, LiveEvent) P"
  fix lib self n s y
  assume IH: "\<And>lib self n s y. f lib self n s = Some y \<Longrightarrow> \<not> never_created lib self n s"
  assume body: "(case invoke (Live_events_get (resource_group_name self) (account_name self) n)
             (live_events_get (client self) (resource_group_name self) (account_name self) n) s of
        (Inl e, s1) \<Rightarrow> Some (Inl e, s1)
      | (Inr None, s1) \<Rightarrow> f lib self n (sleep lib 5 s1)
      | (Inr (Some live_event), s1) \<Rightarrow> Some (Inr live_event, s1)) = Some y"
  show "\<not> never_created lib self n s"
  proof
    assume nc: "never_created lib self n s"
    from never_created_step [OF nc] have f0: "fetched_live_event self n s = Inr None"
      and nc': "never_created lib self n (live_poll_round lib self n s)" by simp_all
    have "f lib self n (live_poll_round lib self n s) = Some y"
      using body by (simp add: invoke_fetched_live [OF f0] live_poll_round_def)
    from IH [OF this] nc' show False by contradiction
  qed
qed

lemma wait_for_live_event_returns_aux:
  assumes "wait_for_live_event lib self n s = Some y"
  shows "\<forall>ev s'. y = (Inr ev, s') \<longrightarrow> (\<exists>k. created_after lib self n s k ev)"
proof (rule wait_for_live_event.raw_induct
         [where P = "\<lambda>lib self n s y. \<forall>ev s'. y = (Inr ev, s') \<longrightarrow> (\<exists>k. created_after lib self n s k ev)",
          OF _ assms])
  fix f :: "'a libs \<Rightarrow> ('a, 'b) Program_scheme \<Rightarrow> string \<Rightarrow> ('a, LiveEvent) P"
  fix lib self n s y
  assume IH: "\<And>lib self n s y. f lib self n s = Some y
                \<Longrightarrow> \<forall>ev s'. y = (Inr ev, s') \<longrightarrow> (\<exists>k. created_after lib self n s k ev)"
  assume body: "(case invoke (Live_events_get (resource_group_name self) (account_name self) n)
             (live_events_get (client self) (resource_group_name self) (account_name self) n) s of
        (Inl e, s1) \<Rightarrow> Some (Inl e, s1)
      | (Inr None, s1) \<Rightarrow> f lib self n (sleep lib 5 s1)
      | (Inr (Some live_event), s1) \<Rightarrow> Some (Inr live_event, s1)) = Some y"
  show "\<forall>ev s'. y = (Inr ev, s') \<longrightarrow> (\<exists>k. created_after lib self n s k ev)"
  proof (intro allI impI)
    fix ev s' assume y: "y = (Inr ev, s')"
    show "\<exists>k. created_after lib self n s k ev"
    proof (cases "fetched_live_event self n s")
      case (Inl e)
      then have "invoke (Live_events_get (resource_group_name self) (account_name self) n)
             (live_events_get (client self) (resource_group_name self) (account_name self) n) s
             = (Inl e,
                \<lparr>world = snd (live_events_get (client self) (resource_group_name self)
                                 (account_name self) n (world s)),
                 trace = trace s @ [Api (Live_events_get (resource_group_name self)
                                           (account_name self) n), ApiRaised e]\<rparr>)"
        by (simp add: fetched_live_event_def invoke_result)
      with body y show ?thesis by simp
    next
      case (Inr r)
      show ?thesis
      proof (cases r)
        case (Some ev')
        with Inr have g: "fetched_live_event self n s = Inr (Some ev')" by simp
        with body y have "ev' = ev" by (simp add: invoke_fetched_live [OF g])
        with g have "created_after lib self n s 0 ev" by (simp add: created_after_def)
        then show ?thesis by blast
      next
        case None
        with Inr have g: "fetched_live_event self n s = Inr None" by simp
        let ?r = "live_poll_round lib self n"
        have "f lib self n (?r s) = Some y"
          using body by (simp add: invoke_fetched_live [OF g] live_poll_round_def)
        from IH [OF this] y obtain k where k: "created_after lib self n (?r s) k ev" by blast
        have "created_after lib self n s (Suc k) ev"
          unfolding created_after_def
        proof (intro conjI allI impI)
          show "fetched_live_event self n ((?r ^^ Suc k) s) = Inr (Some ev)"
            using k by (simp add: created_after_def funpow_swap1)
        next
          fix i assume i: "i < Suc k"
          show "fetched_live_event self n ((?r ^^ i) s) = Inr None"
          proof (cases i)
            case 0
            with g show ?thesis by simp
          next
            case (Suc j)
            with i have "j < k" by simp
            with k have "fetched_live_event self n ((?r ^^ j) (?r s)) = Inr None"
              by (simp add: created_after_def)
            with Suc show ?thesis by (simp add: funpow_swap1)
          qed
        qed
        then show ?thesis by blast
      qed
    qed
  qed
qed

text \<open>
  Claim C8. The loop of the live script's \<^verbatim>\<open>run\<close> that polls \<^verbatim>\<open>live_events.get\<close>: when
  the first \<open>n\<close> fetches return \<^verbatim>\<open>None\<close> and the next one returns a live event, the loop
  ends with that event after \<open>n + 1\<close> fetches, each followed by a sleep of 5 seconds except
  the last, and nothing else happens (first part). It goes on to the rest of \<^verbatim>\<open>run\<close> only
  with an event that a fetch returned after fetches that all returned \<^verbatim>\<open>None\<close> (second
  part). When every fetch returns \<^verbatim>\<open>None\<close>, the loop does not end (third part).
\<close>

theorem wait_for_live_event_ends_when_created:
  "(fetched_live_event self n ((live_poll_round lib self n ^^ k) s) = Inr (Some ev)
      \<and> (\<forall>i<k. fetched_live_event self n ((live_poll_round lib self n ^^ i) s) = Inr None)
    \<longrightarrow> (\<exists>s'. wait_for_live_event lib self n s = Some (Inr ev, s')
           \<and> trace s' = trace s
               @ concat (replicate k [Api (Live_events_get (resource_group_name self)
                                             (account_name self) n), Sleep 5])
               @ [Api (Live_events_get (resource_group_name self) (account_name self) n)]))
   \<and> (wait_for_live_event lib self n s = Some (Inr ev2, s2)
    \<longrightarrow> (\<exists>k. fetched_live_event self n ((live_poll_round lib self n ^^ k) s) = Inr (Some ev2)
            \<and> (\<forall>i<k. fetched_live_event self n ((live_poll_round lib self n ^^ i) s) = Inr None)))
   \<and> ((\<forall>i. fetched_live_event self3 n3 ((live_poll_round lib3 self3 n3 ^^ i) s3) = Inr None)
    \<longrightarrow> wait_for_live_event lib3 self3 n3 s3 = None)"
proof (intro conjI impI)
  assume "fetched_live_event self n ((live_poll_round lib self n ^^ k) s) = Inr (Some ev)
      \<and> (\<forall>i<k. fetched_live_event self n ((live_poll_round lib self n ^^ i) s) = Inr None)"
  then have "created_after lib self n s k ev" by (simp add: created_after_def)
  from wait_for_live_event_created_after [OF this]
  show "\<exists>s'. wait_for_live_event lib self n s = Some (Inr ev, s')
           \<and> trace s' = trace s
               @ concat (replicate k [Api (Live_events_get (resource_group_name self)
                                             (account_name self) n), Sleep 5])
               @ [Api (Live_events_get (resource_group_name self) (account_name self) n)]" .
next
  assume "wait_for_live_event lib self n s = Some (Inr ev2, s2)"
  from wait_for_live_event_returns_aux [OF this]
  show "\<exists>k. fetched_live_event self n ((live_poll_round lib self n ^^ k) s) = Inr (Some ev2)
            \<and> (\<forall>i<k. fetched_live_event self n ((live_poll_round lib self n ^^ i) s) = Inr None)"
    by (simp add: created_after_def)
next
  assume "\<forall>i. fetched_live_event self3 n3 ((live_poll_round lib3 self3 n3 ^^ i) s3) = Inr None"
  then have nc: "never_created lib3 self3 n3 s3" by (simp add: never_created_def)
  show "wait_for_live_event lib3 self3 n3 s3 = None"
  proof (cases "wait_for_live_event lib3 self3 n3 s3")
    case None
    then show ?thesis .
  next
    case (Some y)
    from wait_for_live_event_never_aux [OF this] nc show ?thesis by contradiction
  qed
qed

lemma live_poll_round_stub_world:
  "world (live_poll_round stub_libs (stub_self client_event_late) n s) = Suc (world s)"
  "world (live_poll_round stub_libs (stub_self client_event_never) n s) = Suc (world s)"
  by (simp_all add: live_poll_round_def invoke_def sleep_def stub_libs_def stub_self_def
        client_event_late_def client_event_never_def)

lemma live_poll_round_stub_world_funpow:
  "world ((live_poll_round stub_libs (stub_self client_event_late) n ^^ i) s) = i + world s"
  by (induction i) (simp_all add: live_poll_round_stub_world)

theorem wait_for_live_event_ends_when_created_witness:
  "(\<exists>s'. wait_for_live_event stub_libs (stub_self client_event_late) ''ev-1'' (stub_state 0)
            = Some (Inr the_live_event, s')
         \<and> trace s' = [Api (Live_events_get ''rg'' ''acct'' ''ev-1''), Sleep 5,
                       Api (Live_events_get ''rg'' ''acct'' ''ev-1''), Sleep 5,
                       Api (Live_events_get ''rg'' ''acct'' ''ev-1'')])
   \<and> wait_for_live_event stub_libs (stub_self client_event_never) ''ev-1'' (stub_state 0) = None"
proof -
  let ?self = "stub_self client_event_late"
  let ?r = "live_poll_round stub_libs ?self ''ev-1''"
  have h1: "fetched_live_event ?self ''ev-1'' ((?r ^^ 2) (stub_state 0)) = Inr (Some the_live_event)
            \<and> (\<forall>i<2. fetched_live_event ?self ''ev-1'' ((?r ^^ i) (stub_state 0)) = Inr None)"
    by (simp add: fetched_live_event_def live_poll_round_stub_world_funpow)
       (simp add: stub_self_def client_event_late_def stub_state_def)
  have h3: "\<forall>i. fetched_live_event (stub_self client_event_never) ''ev-1''
                 ((live_poll_round stub_libs (stub_self client_event_never) ''ev-1'' ^^ i)
                    (stub_state 0)) = Inr None"
    by (simp add: fetched_live_event_def stub_self_def client_event_never_def)
  from wait_for_live_event_ends_when_created
         [where self = ?self and n = "''ev-1''" and lib = stub_libs and k = 2
            and s = "stub_state 0" and ev = the_live_event
            and ?self3.0 = "stub_self client_event_never" and ?n3.0 = "''ev-1''"
            and ?lib3.0 = stub_libs and ?s3.0 = "stub_state 0"]
       h1 h3
  obtain s' where
    w: "wait_for_live_event stub_libs ?self ''ev-1'' (stub_state 0) = Some (Inr the_live_event, s')"
    and t: "trace s' = trace (stub_state 0)
               @ concat (replicate 2 [Api (Live_events_get (resource_group_name ?self)
                                             (account_name ?self) ''ev-1''), Sleep 5])
               @ [Api (Live_events_get (resource_group_name ?self) (account_name ?self) ''ev-1'')]"
    and n: "wait_for_live_event stub_libs (stub_self client_event_never) ''ev-1'' (stub_state 0) = None"
    by blast
  from t have "trace s' = [Api (Live_events_get ''rg'' ''acct'' ''ev-1''), Sleep 5,
                       Api (Live_events_get ''rg'' ''acct'' ''ev-1''), Sleep 5,
                       Api (Live_events_get ''rg'' ''acct'' ''ev-1'')]"
    by (simp add: stub_state_def stub_self_def numeral_2_eq_2)
  with w n show ?thesis by blast
qed

section \<open>Cleanup in the analyze and in the encrypt script\<close>

lemma bindM_cases:
  assumes "bindM m f s = (r, s')"
  obtains (raised) e where "m s = (Inl e, s')" "r = Inl e"
        | (returned) a s1 where "m s = (Inr a, s1)" "f a s1 = (r, s')"
  using assms by (cases "m s") (auto simp: bindM_def split: sum.splits)














section \<open>Exceptions and cleanup in the three scripts\<close>

lemma tame_events_Nil [simp]: "tame_events n x []"
  by (simp add: tame_events_def)

lemma tame_events_mono: "tame_events n x evs \<Longrightarrow> n \<le> k \<Longrightarrow> tame_events k x evs"
  by (auto simp: tame_events_def)

lemma tame_events_append:
  assumes "tame_events a None evs1" "tame_events b x evs2"
  shows "tame_events (a + b) x (evs1 @ evs2)"
  using assms by (auto simp: tame_events_def)

lemma tameI:
  assumes "\<And>s r s'. m s = (r, s') \<Longrightarrow> \<exists>evs. trace s' = trace s @ evs \<and> tame_events n (exn_of r) evs"
  shows "tame n m"
  using assms by (auto simp: tame_def)

lemma tameD:
  assumes "tame n m" "m s = (r, s')"
  obtains evs where "trace s' = trace s @ evs" "tame_events n (exn_of r) evs"
  using assms unfolding tame_def by blast

lemma tame_returnM: "tame n (returnM a)"
  by (rule tameI) (auto simp: returnM_def)

lemma tame_raiseM: "tame n (raiseM e)"
  by (rule tameI) (auto simp: raiseM_def)

lemma tame_printM: "tame n (printM fmt args)"
proof (rule tameI)
  fix s :: "'a state" and r :: "exn + unit" and s'
  assume "printM fmt args s = (r, s')"
  then have "trace s' = trace s @ [Print fmt args]" by (auto simp: printM_def)
  moreover have "tame_events n (exn_of r) [Print fmt args]" by (simp add: tame_events_def)
  ultimately show "\<exists>evs. trace s' = trace s @ evs \<and> tame_events n (exn_of r) evs" by blast
qed

lemma tame_sleepM: "tame n (sleepM lib k)"
proof (rule tameI)
  fix s :: "'a state" and r :: "exn + unit" and s'
  assume "sleepM lib k s = (r, s')"
  then have "trace s' = trace s @ [Sleep k]" by (auto simp: sleepM_def sleep_def)
  moreover have "tame_events n (exn_of r) [Sleep k]" by (simp add: tame_events_def)
  ultimately show "\<exists>evs. trace s' = trace s @ evs \<and> tame_events n (exn_of r) evs" by blast
qed

lemma tame_inputM: "tame n (inputM lib prompt)"
proof (rule tameI)
  fix s :: "'a state" and r :: "exn + string" and s'
  assume "inputM lib prompt s = (r, s')"
  then have "trace s' = trace s @ [Input prompt]"
    by (cases "console_input lib prompt (world s)") (auto simp: inputM_def)
  moreover have "tame_events n (exn_of r) [Input prompt]" by (simp add: tame_events_def)
  ultimately show "\<exists>evs. trace s' = trace s @ evs \<and> tame_events n (exn_of r) evs" by blast
qed

lemma tame_effect: "tame n (effect op)"
proof (rule tameI)
  fix s :: "'a state" and r :: "exn + 'b" and s'
  assume "effect op s = (r, s')"
  then have "trace s' = trace s @ []"
    by (cases "op (world s)") (auto simp: effect_def)
  then show "\<exists>evs. trace s' = trace s @ evs \<and> tame_events n (exn_of r) evs"
    using tame_events_Nil by blast
qed

lemma tame_effect_total: "tame n (effect_total op)"
proof (rule tameI)
  fix s :: "'a state" and r :: "exn + 'b" and s'
  assume "effect_total op s = (r, s')"
  then have "trace s' = trace s @ []"
    by (cases "op (world s)") (auto simp: effect_total_def)
  then show "\<exists>evs. trace s' = trace s @ evs \<and> tame_events n (exn_of r) evs"
    using tame_events_Nil by blast
qed

lemma tame_invoke: "tame n (invoke c op)"
proof (rule tameI)
  fix s :: "'a state" and r :: "exn + 'b" and s'
  assume a: "invoke c op s = (r, s')"
  show "\<exists>evs. trace s' = trace s @ evs \<and> tame_events n (exn_of r) evs"
  proof (cases r)
    case (Inl e)
    with a have "trace s' = trace s @ [Api c, ApiRaised e]"
      by (auto simp: invoke_result split: sum.splits)
    moreover have "tame_events n (exn_of r) [Api c, ApiRaised e]"
      using Inl by (simp add: tame_events_def exn_of_def)
    ultimately show ?thesis by blast
  next
    case (Inr v)
    with a have "trace s' = trace s @ [Api c]"
      by (auto simp: invoke_result split: sum.splits)
    moreover have "tame_events n (exn_of r) [Api c]"
      by (simp add: tame_events_def)
    ultimately show ?thesis by blast
  qed
qed

lemma tame_first_item: "tame n (first_item xs)"
  by (cases xs) (simp_all add: first_item_def tame_returnM tame_raiseM)

lemma tame_bindM_add:
  assumes "tame a m" "\<And>x. tame b (f x)"
  shows "tame (a + b) (bindM m f)"
proof (rule tameI)
  fix s r s'
  assume "bindM m f s = (r, s')"
  then show "\<exists>evs. trace s' = trace s @ evs \<and> tame_events (a + b) (exn_of r) evs"
  proof (cases rule: bindM_cases)
    case (raised e)
    from tameD [OF assms(1) raised(1)] obtain evs where
      "trace s' = trace s @ evs" "tame_events a (exn_of (Inl e :: exn + 'b)) evs" by blast
    then have "trace s' = trace s @ evs" "tame_events (a + b) (exn_of r) evs"
      using raised(2) by (auto simp: exn_of_def intro: tame_events_mono)
    then show ?thesis by blast
  next
    case (returned x s1)
    from tameD [OF assms(1) returned(1)] obtain evs1 where
      t1: "trace s1 = trace s @ evs1" and e1: "tame_events a None evs1"
      by (auto simp: exn_of_def)
    from tameD [OF assms(2) returned(2)] obtain evs2 where
      t2: "trace s' = trace s1 @ evs2" and e2: "tame_events b (exn_of r) evs2" by blast
    have "trace s' = trace s @ (evs1 @ evs2)" using t1 t2 by simp
    with tame_events_append [OF e1 e2] show ?thesis by blast
  qed
qed

lemma tame_bindM:
  assumes "tame 0 m" "\<And>x. tame n (f x)"
  shows "tame n (bindM m f)"
  using tame_bindM_add [OF assms] by simp

lemma tame_if: "tame n a \<Longrightarrow> tame n b \<Longrightarrow> tame n (if c then a else b)"
  by simp

lemma tame_case_option:
  "tame n a \<Longrightarrow> (\<And>y. tame n (b y)) \<Longrightarrow> tame n (case x of None \<Rightarrow> a | Some y \<Rightarrow> b y)"
  by (cases x) simp_all

lemma tame_case_sum:
  "(\<And>y. tame n (a y)) \<Longrightarrow> (\<And>y. tame n (b y)) \<Longrightarrow> tame n (case x of Inl y \<Rightarrow> a y | Inr y \<Rightarrow> b y)"
  by (cases x) simp_all

lemma tame_case_prod:
  "(\<And>y z. tame n (a y z)) \<Longrightarrow> tame n (case x of (y, z) \<Rightarrow> a y z)"
  by (cases x) simp

lemma tame_for_each:
  assumes "\<And>x. tame 0 (body x)"
  shows "tame 0 (for_each xs body)"
proof (induction xs)
  case Nil
  show ?case by (rule tameI) auto
next
  case (Cons x xs)
  have "for_each (x # xs) body = bindM (body x) (\<lambda>_. for_each xs body)"
    by (rule ext) (simp add: bindM_def split: prod.splits sum.splits)
  with tame_bindM [OF assms [of x], of 0 "\<lambda>_. for_each xs body"] Cons show ?case by simp
qed


lemma tame_Let: "tame n (f v) \<Longrightarrow> tame n (Let v f)"
  by (simp add: Let_def)

lemmas tame_intros =
  tame_bindM tame_returnM tame_raiseM tame_printM tame_sleepM tame_inputM tame_effect
  tame_effect_total tame_invoke tame_first_item tame_if tame_case_option tame_case_sum
  tame_case_prod tame_for_each tame_Let

lemma tamePI:
  assumes "\<And>s r s'. m s = Some (r, s')
             \<Longrightarrow> \<exists>evs. trace s' = trace s @ evs \<and> tame_events n (exn_of r) evs"
  shows "tameP n m"
  using assms unfolding tameP_def by blast

lemma tamePD:
  assumes "tameP n m" "m s = Some (r, s')"
  obtains evs where "trace s' = trace s @ evs" "tame_events n (exn_of r) evs"
  using assms unfolding tameP_def by blast

lemma tameP_liftP: "tame n m \<Longrightarrow> tameP n (liftP m)"
  unfolding tame_def tameP_def liftP_def by simp

lemma bindP_cases:
  assumes "bindP m f s = Some (r, s')"
  obtains (raised) e where "m s = Some (Inl e, s')" "r = Inl e"
        | (returned) a s1 where "m s = Some (Inr a, s1)" "f a s1 = Some (r, s')"
  using assms by (cases "m s") (auto simp: bindP_def split: sum.splits prod.splits)

lemma tameP_bindP_add:
  assumes "tameP a m" "\<And>x. tameP b (f x)"
  shows "tameP (a + b) (bindP m f)"
proof (rule tamePI)
  fix s r s'
  assume "bindP m f s = Some (r, s')"
  then show "\<exists>evs. trace s' = trace s @ evs \<and> tame_events (a + b) (exn_of r) evs"
  proof (cases rule: bindP_cases)
    case (raised e)
    from tamePD [OF assms(1) raised(1)] obtain evs where
      "trace s' = trace s @ evs" "tame_events a (exn_of (Inl e :: exn + 'b)) evs" by blast
    then have "trace s' = trace s @ evs" "tame_events (a + b) (exn_of r) evs"
      using raised(2) by (auto simp: exn_of_def intro: tame_events_mono)
    then show ?thesis by blast
  next
    case (returned x s1)
    from tamePD [OF assms(1) returned(1)] obtain evs1 where
      t1: "trace s1 = trace s @ evs1" and e1: "tame_events a None evs1"
      by (auto simp: exn_of_def)
    from tamePD [OF assms(2) returned(2)] obtain evs2 where
      t2: "trace s' = trace s1 @ evs2" and e2: "tame_events b (exn_of r) evs2" by blast
    have "trace s' = trace s @ (evs1 @ evs2)" using t1 t2 by simp
    with tame_events_append [OF e1 e2] show ?thesis by blast
  qed
qed

lemma tameP_bindP:
  assumes "tameP 0 m" "\<And>x. tameP n (f x)"
  shows "tameP n (bindP m f)"
  using tameP_bindP_add [OF assms] by simp

lemma tameP_Let: "tameP n (f v) \<Longrightarrow> tameP n (Let v f)"
  by (simp add: Let_def)

lemma tameP_if: "tameP n a \<Longrightarrow> tameP n b \<Longrightarrow> tameP n (if c then a else b)"
  by simp

lemma tame_events_prints:
  assumes "\<forall>e \<in> set evs. \<exists>fmt args. e = Print fmt args"
  shows "tame_events n None evs"
proof -
  from assms have "Enter M_clean_up_live_event_and_live_output \<notin> set evs" by auto
  then have "count_list evs (Enter M_clean_up_live_event_and_live_output) = 0"
    by (simp add: count_list_0_iff)
  with assms show ?thesis by (auto simp: tame_events_def)
qed

lemma tameP_wait_for_job_to_finish: "tameP 0 (wait_for_job_to_finish lib self rg acct tn jn)"
proof (rule tamePI)
  fix s r s'
  assume a: "wait_for_job_to_finish lib self rg acct tn jn s = Some (r, s')"
  have "\<exists>evs. trace (snd (r, s')) = trace s @ evs \<and> tame_events 0 (exn_of (fst (r, s'))) evs"
  proof (rule wait_for_job_to_finish.raw_induct
           [where P = "\<lambda>lib self rg acct tn jn s y.
                         \<exists>evs. trace (snd y) = trace s @ evs \<and> tame_events 0 (exn_of (fst y)) evs",
            OF _ a])
    fix f :: "'a libs \<Rightarrow> ('a, 'b) Program_scheme \<Rightarrow> string \<Rightarrow> string \<Rightarrow> string \<Rightarrow> string \<Rightarrow> ('a, Job) P"
    fix lib self rg acct tn jn s y
    assume IH: "\<And>lib self rg acct tn jn s y. f lib self rg acct tn jn s = Some y
                  \<Longrightarrow> \<exists>evs. trace (snd y) = trace s @ evs \<and> tame_events 0 (exn_of (fst y)) evs"
    assume body: "(case invoke (Jobs_get rg acct tn jn) (jobs_get (client self) rg acct tn jn) s of
          (Inl e, s1) \<Rightarrow> Some (Inl e, s1)
        | (Inr None, s1) \<Rightarrow> Some (Inl AttributeError, s1)
        | (Inr (Some job), s1) \<Rightarrow>
            (let s2 = print_job job s1
             in if job_is_done job then Some (Inr job, s2)
                else f lib self rg acct tn jn (sleep lib SleepIntervalMs s2))) = Some y"
    let ?c = "Jobs_get rg acct tn jn"
    obtain r1 s1 where i: "invoke ?c (jobs_get (client self) rg acct tn jn) s = (r1, s1)"
      by (cases "invoke ?c (jobs_get (client self) rg acct tn jn) s") auto
    from tameD [OF tame_invoke [of 0] i] obtain evs1 where
      t1: "trace s1 = trace s @ evs1" and e1: "tame_events 0 (exn_of r1) evs1" by blast
    show "\<exists>evs. trace (snd y) = trace s @ evs \<and> tame_events 0 (exn_of (fst y)) evs"
    proof (cases r1)
      case (Inl e)
      with body i have "y = (Inl e, s1)" by simp
      with t1 e1 Inl show ?thesis by (auto simp: exn_of_def)
    next
      case (Inr jo)
      then have e1': "tame_events 0 None evs1" using e1 by (simp add: exn_of_def)
      show ?thesis
      proof (cases jo)
        case None
        with body i Inr have "y = (Inl AttributeError, s1)" by simp
        moreover have "tame_events 0 (Some AttributeError) evs1"
          using e1' by (auto simp: tame_events_def)
        ultimately show ?thesis using t1 by (auto simp: exn_of_def)
      next
        case (Some job)
        obtain evs2 where p: "print_job job s1 = \<lparr>world = world s1, trace = trace s1 @ evs2\<rparr>"
          and q: "\<forall>e \<in> set evs2. \<exists>fmt args. e = Print fmt args"
          using print_job_prints [of job s1] by blast
        have e2: "tame_events 0 None (evs1 @ evs2)"
          using tame_events_append [OF e1' tame_events_prints [OF q, of 0]] by simp
        show ?thesis
        proof (cases "job_is_done job")
          case True
          with body i Inr Some have "y = (Inr job, print_job job s1)" by (simp add: Let_def)
          with p t1 e2 show ?thesis by (auto simp: exn_of_def)
        next
          case False
          with body i Inr Some
          have "f lib self rg acct tn jn (sleep lib SleepIntervalMs (print_job job s1)) = Some y"
            by (simp add: Let_def)
          from IH [OF this] obtain evs3 where
            t3: "trace (snd y) = trace (sleep lib SleepIntervalMs (print_job job s1)) @ evs3"
            and e3: "tame_events 0 (exn_of (fst y)) evs3" by blast
          have "tame_events 0 None ((evs1 @ evs2) @ [Sleep SleepIntervalMs])"
            using tame_events_append [OF e2, of 0 None "[Sleep SleepIntervalMs]"]
            by (simp add: tame_events_def)
          from tame_events_append [OF this e3]
          have "tame_events 0 (exn_of (fst y)) (evs1 @ evs2 @ Sleep SleepIntervalMs # evs3)" by simp
          moreover have "trace (snd y) = trace s @ (evs1 @ evs2 @ Sleep SleepIntervalMs # evs3)"
            using t3 p t1 by (simp add: sleep_def)
          ultimately show ?thesis by blast
        qed
      qed
    qed
  qed
  then show "\<exists>evs. trace s' = trace s @ evs \<and> tame_events 0 (exn_of r) evs" by simp
qed

lemma tameP_wait_for_live_event: "tameP 0 (wait_for_live_event lib self n)"
proof (rule tamePI)
  fix s r s'
  assume a: "wait_for_live_event lib self n s = Some (r, s')"
  have "\<exists>evs. trace (snd (r, s')) = trace s @ evs \<and> tame_events 0 (exn_of (fst (r, s'))) evs"
  proof (rule wait_for_live_event.raw_induct
           [where P = "\<lambda>lib self n s y.
                         \<exists>evs. trace (snd y) = trace s @ evs \<and> tame_events 0 (exn_of (fst y)) evs",
            OF _ a])
    fix f :: "'a libs \<Rightarrow> ('a, 'b) Program_scheme \<Rightarrow> string \<Rightarrow> ('a, LiveEvent) P"
    fix lib self n s y
    assume IH: "\<And>lib self n s y. f lib self n s = Some y
                  \<Longrightarrow> \<exists>evs. trace (snd y) = trace s @ evs \<and> tame_events 0 (exn_of (fst y)) evs"
    assume body: "(case invoke (Live_events_get (resource_group_name self) (account_name self) n)
               (live_events_get (client self) (resource_group_name self) (account_name self) n) s of
          (Inl e, s1) \<Rightarrow> Some (Inl e, s1)
        | (Inr None, s1) \<Rightarrow> f lib self n (sleep lib 5 s1)
        | (Inr (Some live_event), s1) \<Rightarrow> Some (Inr live_event, s1)) = Some y"
    let ?c = "Live_events_get (resource_group_name self) (account_name self) n"
    let ?op = "live_events_get (client self) (resource_group_name self) (account_name self) n"
    obtain r1 s1 where i: "invoke ?c ?op s = (r1, s1)"
      by (cases "invoke ?c ?op s") auto
    from tameD [OF tame_invoke [of 0] i] obtain evs1 where
      t1: "trace s1 = trace s @ evs1" and e1: "tame_events 0 (exn_of r1) evs1" by blast
    show "\<exists>evs. trace (snd y) = trace s @ evs \<and> tame_events 0 (exn_of (fst y)) evs"
    proof (cases r1)
      case (Inl e)
      with body i have "y = (Inl e, s1)" by simp
      with t1 e1 Inl show ?thesis by (auto simp: exn_of_def)
    next
      case (Inr jo)
      then have e1': "tame_events 0 None evs1" using e1 by (simp add: exn_of_def)
      show ?thesis
      proof (cases jo)
        case (Some ev)
        with body i Inr have "y = (Inr ev, s1)" by simp
        with t1 e1' show ?thesis by (auto simp: exn_of_def)
      next
        case None
        with body i Inr have "f lib self n (sleep lib 5 s1) = Some y" by simp
        from IH [OF this] obtain evs3 where
          t3: "trace (snd y) = trace (sleep lib 5 s1) @ evs3"
          and e3: "tame_events 0 (exn_of (fst y)) evs3" by blast
        have "tame_events 0 None (evs1 @ [Sleep 5])"
          using tame_events_append [OF e1', of 0 None "[Sleep 5]"] by (simp add: tame_events_def)
        from tame_events_append [OF this e3]
        have "tame_events 0 (exn_of (fst y)) (evs1 @ Sleep 5 # evs3)" by simp
        moreover have "trace (snd y) = trace s @ (evs1 @ Sleep 5 # evs3)"
          using t3 t1 by (simp add: sleep_def)
        ultimately show ?thesis by blast
      qed
    qed
  qed
  then show "\<exists>evs. trace s' = trace s @ evs \<and> tame_events 0 (exn_of r) evs" by simp
qed

lemmas tameP_intros = tameP_bindP tameP_liftP tameP_Let tameP_if tameP_wait_for_job_to_finish
  tameP_wait_for_live_event

subsection \<open>The analyze and the encrypt script pass every failure on\<close>

lemma tame_create_input_asset: "tame 0 (create_input_asset lib self rg acct n file)"
  unfolding create_input_asset_def by (intro tame_intros)

lemma tame_create_output_asset: "tame 0 (create_output_asset lib self rg acct n)"
  unfolding create_output_asset_def by (intro tame_intros)

lemma tame_submit_job: "tame 0 (submit_job self rg acct tn jn i out)"
  unfolding submit_job_def by (intro tame_intros)

lemma tame_Analyze_get_or_create_transform:
  "tame 0 (Analyze_get_or_create_transform self rg acct tn p)"
  unfolding Analyze_get_or_create_transform_def by (intro tame_intros)

lemma tame_Encrypt_get_or_create_transform:
  "tame 0 (Encrypt_get_or_create_transform self rg acct tn)"
  unfolding Encrypt_get_or_create_transform_def by (intro tame_intros)

lemma tame_download_output_asset: "tame 0 (download_output_asset lib self rg acct n folder)"
  unfolding download_output_asset_def by (intro tame_intros)

lemma tame_Analyze_clean_up: "tame 0 (Analyze_clean_up self rg acct tn)"
  unfolding Analyze_clean_up_def by (intro tame_intros)

lemma tame_Encrypt_clean_up: "tame 0 (Encrypt_clean_up self rg acct tn pol)"
  unfolding Encrypt_clean_up_def by (intro tame_intros)

lemma tame_get_or_create_content_key_policy:
  "tame 0 (get_or_create_content_key_policy self rg acct n)"
  unfolding get_or_create_content_key_policy_def by (intro tame_intros)

lemma tame_create_streaming_locator: "tame 0 (create_streaming_locator self rg acct a l p)"
  unfolding create_streaming_locator_def by (intro tame_intros)

lemma tame_get_token: "tame 0 (get_token lib iss aud ct kid key)"
  unfolding get_token_def by (intro tame_intros)

lemma tame_get_dash_streaming_url: "tame 0 (get_dash_streaming_url lib self rg acct l)"
  unfolding get_dash_streaming_url_def by (intro tame_intros)

lemma tame_Encrypt_run_finished: "tame 0 (Encrypt_run_finished lib self out loc)"
  unfolding Encrypt_run_finished_def
  by (intro tame_intros tame_get_or_create_content_key_policy tame_create_streaming_locator
        tame_get_token tame_get_dash_streaming_url)

lemma tameP_Analyze_run: "tameP 0 (Analyze_run lib self)"
  unfolding Analyze_run_def
  by (intro tameP_intros tame_intros tame_Analyze_get_or_create_transform
        tame_create_input_asset tame_create_output_asset tame_submit_job
        tame_download_output_asset)

lemma tameP_Encrypt_run: "tameP 0 (Encrypt_run lib self)"
  unfolding Encrypt_run_def
  by (intro tameP_intros tame_intros tame_Encrypt_get_or_create_transform
        tame_create_input_asset tame_create_output_asset tame_submit_job
        tame_Encrypt_run_finished tame_Encrypt_clean_up)

subsection \<open>The live script\<close>

lemma tame_create_live_event: "tame 0 (create_live_event self rg acct n)"
  unfolding create_live_event_def by (intro tame_intros)

lemma enter_then_tame:
  assumes "tame 0 m" "bindM (enterM k) (\<lambda>_. m) s = (r, s')"
  shows "\<exists>evs. trace s' = trace s @ Enter k # evs \<and> tame_events 0 (exn_of r) evs"
proof -
  let ?s1 = "\<lparr>world = world s, trace = trace s @ [Enter k]\<rparr>"
  from assms(2) have "m ?s1 = (r, s')" by (simp add: bindM_def enterM_def)
  from tameD [OF assms(1) this] obtain evs where
    "trace s' = trace ?s1 @ evs" "tame_events 0 (exn_of r) evs" by blast
  then show ?thesis by auto
qed

lemma tame_events_0:
  "tame_events 0 x evs \<longleftrightarrow>
     (\<forall>e. ApiRaised e \<in> set evs \<longrightarrow> x = Some e) \<and> (\<forall>m. Enter m \<notin> set evs)"
proof -
  have "(\<forall>m. Enter m \<notin> set evs) \<longleftrightarrow>
          Enter M_clean_up_locator_and_asset \<notin> set evs
          \<and> Enter M_clean_up_live_event_and_live_output \<notin> set evs"
    by (metis cleanup_method.exhaust)
  then show ?thesis by (auto simp: tame_events_def count_list_0_iff)
qed

lemma clean_up_live_event_events:
  assumes "clean_up_live_event_and_live_output lib self rg acct n s = (r, s')"
  shows "\<exists>evs. trace s' = trace s @ Enter M_clean_up_live_event_and_live_output # evs
           \<and> (\<forall>m. Enter m \<notin> set evs)
           \<and> (\<forall>e. ApiRaised e \<in> set evs \<longrightarrow> r = Inl e)
           \<and> (\<forall>e. r = Inl e \<longrightarrow> ApiRaised e \<in> set evs)"
proof -
  let ?c = "Live_events_get (resource_group_name self) (account_name self) n"
  let ?op = "live_events_get (client self) (resource_group_name self) (account_name self) n"
  let ?body = "bindM (invoke ?c ?op) (\<lambda>live_event.
     case live_event of
       None \<Rightarrow> returnM ()
     | Some ev \<Rightarrow>
         bindM (if LiveEvent_resource_state ev = LiveEventResourceState_running
                then bindM (invoke (Live_events_stop (resource_group_name self) (account_name self)
                                      n True)
                              (live_events_stop (client self) (resource_group_name self)
                                      (account_name self) n True)) (\<lambda>_.
                     sleepM lib 10)
                else returnM ()) (\<lambda>_.
         invoke (Live_events_delete (resource_group_name self) (account_name self) n)
           (live_events_delete (client self) (resource_group_name self) (account_name self) n)))"
  have t: "tame 0 ?body" by (intro tame_intros)
  have d: "clean_up_live_event_and_live_output lib self rg acct n
             = bindM (enterM M_clean_up_live_event_and_live_output) (\<lambda>_. ?body)"
    by (simp add: clean_up_live_event_and_live_output_def)
  from enter_then_tame [OF t assms [unfolded d]] obtain evs where
    tr: "trace s' = trace s @ Enter M_clean_up_live_event_and_live_output # evs"
    and te: "tame_events 0 (exn_of r) evs" by blast
  have only: "\<forall>e. r = Inl e \<longrightarrow> ApiRaised e \<in> set evs"
    using assms tr
    by (auto simp: clean_up_live_event_and_live_output_def bindM_def enterM_def invoke_result
          returnM_def sleepM_def sleep_def split: sum.splits option.splits if_splits)
  from te have "(\<forall>m. Enter m \<notin> set evs) \<and> (\<forall>e. ApiRaised e \<in> set evs \<longrightarrow> r = Inl e)"
    by (cases r) (auto simp: tame_events_0 exn_of_def)
  with tr only show ?thesis by blast
qed

lemma clean_up_locator_and_asset_events:
  assumes "clean_up_locator_and_asset self rg acct loc asset s = (r, s')"
  shows "\<exists>evs. trace s' = trace s @ Enter M_clean_up_locator_and_asset # evs
           \<and> (\<forall>m. Enter m \<notin> set evs)
           \<and> (\<forall>e. ApiRaised e \<in> set evs \<longrightarrow> r = Inl e)
           \<and> (\<forall>e. r = Inl e \<longrightarrow> ApiRaised e \<in> set evs)
           \<and> Api (Streaming_locators_delete (resource_group_name self) (account_name self) loc)
               \<in> set evs
           \<and> (r = Inr () \<longrightarrow>
                Api (Assets_delete (resource_group_name self) (account_name self) asset) \<in> set evs)"
proof -
  let ?body = "bindM (invoke (Streaming_locators_delete (resource_group_name self) (account_name self)
                      loc)
              (streaming_locators_delete (client self) (resource_group_name self)
                      (account_name self) loc)) (\<lambda>_.
     invoke (Assets_delete (resource_group_name self) (account_name self) asset)
       (assets_delete (client self) (resource_group_name self) (account_name self) asset))"
  have t: "tame 0 ?body" by (intro tame_intros)
  have d: "clean_up_locator_and_asset self rg acct loc asset
             = bindM (enterM M_clean_up_locator_and_asset) (\<lambda>_. ?body)"
    by (simp add: clean_up_locator_and_asset_def)
  from enter_then_tame [OF t assms [unfolded d]] obtain evs where
    tr: "trace s' = trace s @ Enter M_clean_up_locator_and_asset # evs"
    and te: "tame_events 0 (exn_of r) evs" by blast
  have only: "(\<forall>e. r = Inl e \<longrightarrow> ApiRaised e \<in> set evs)
           \<and> Api (Streaming_locators_delete (resource_group_name self) (account_name self) loc)
               \<in> set evs
           \<and> (r = Inr () \<longrightarrow>
                Api (Assets_delete (resource_group_name self) (account_name self) asset) \<in> set evs)"
    using assms tr
    by (auto simp: clean_up_locator_and_asset_def bindM_def enterM_def invoke_result
          split: sum.splits)
  from te have "(\<forall>m. Enter m \<notin> set evs) \<and> (\<forall>e. ApiRaised e \<in> set evs \<longrightarrow> r = Inl e)"
    by (cases r) (auto simp: tame_events_0 exn_of_def)
  with tr only show ?thesis by blast
qed

lemma stop_and_clean_up_tame:
  assumes "\<And>x. tame 0 (f x)"
  shows "tame 1 (bindM (inputM lib stop_prompt) (\<lambda>_.
                   bindM (clean_up_live_event_and_live_output lib self rg acct n) f))"
proof (rule tameI)
  fix s r s'
  assume "bindM (inputM lib stop_prompt) (\<lambda>_.
            bindM (clean_up_live_event_and_live_output lib self rg acct n) f) s = (r, s')"
  then show "\<exists>evs. trace s' = trace s @ evs \<and> tame_events 1 (exn_of r) evs"
  proof (cases rule: bindM_cases)
    case (raised e)
    then have "trace s' = trace s @ [Input stop_prompt]"
      by (cases "console_input lib stop_prompt (world s)") (auto simp: inputM_def)
    moreover have "tame_events 1 (exn_of r) [Input stop_prompt]"
      by (simp add: tame_events_def)
    ultimately show ?thesis by blast
  next
    case i: (returned x s1)
    then have t1: "trace s1 = trace s @ [Input stop_prompt]"
      by (cases "console_input lib stop_prompt (world s)") (auto simp: inputM_def)
    from i(2) show ?thesis
    proof (cases rule: bindM_cases)
      case (raised e)
      from clean_up_live_event_events [OF raised(1)] obtain evs where
        t2: "trace s' = trace s1 @ Enter M_clean_up_live_event_and_live_output # evs"
        and n: "\<forall>m. Enter m \<notin> set evs"
        and p: "\<forall>e'. ApiRaised e' \<in> set evs \<longrightarrow> (Inl e :: exn + unit) = Inl e'" by blast
      from n have c0: "count_list evs (Enter M_clean_up_live_event_and_live_output) = 0"
        by (simp add: count_list_0_iff)
      have "trace s' = trace s @ (Input stop_prompt # Enter M_clean_up_live_event_and_live_output # evs)"
        using t1 t2 by simp
      moreover have "tame_events 1 (exn_of r)
                       (Input stop_prompt # Enter M_clean_up_live_event_and_live_output # evs)"
        using n p c0 raised(2) by (auto simp: tame_events_def exn_of_def)
      ultimately show ?thesis by blast
    next
      case c: (returned u s2)
      from clean_up_live_event_events [OF c(1)] obtain evs where
        t2: "trace s2 = trace s1 @ Enter M_clean_up_live_event_and_live_output # evs"
        and n: "\<forall>m. Enter m \<notin> set evs"
        and p: "\<forall>e'. ApiRaised e' \<in> set evs \<longrightarrow> (Inr u :: exn + unit) = Inl e'" by blast
      from tameD [OF assms c(2)] obtain evs3 where
        t3: "trace s' = trace s2 @ evs3" and e3: "tame_events 0 (exn_of r) evs3" by blast
      from n have c0: "count_list evs (Enter M_clean_up_live_event_and_live_output) = 0"
        by (simp add: count_list_0_iff)
      from e3 have n3: "\<forall>m. Enter m \<notin> set evs3"
        and p3: "\<forall>e. ApiRaised e \<in> set evs3 \<longrightarrow> exn_of r = Some e"
        by (auto simp: tame_events_0)
      from n3 have c3: "count_list evs3 (Enter M_clean_up_live_event_and_live_output) = 0"
        by (simp add: count_list_0_iff)
      have "trace s' = trace s @ (Input stop_prompt # Enter M_clean_up_live_event_and_live_output
                                   # evs @ evs3)"
        using t1 t2 t3 by simp
      moreover have "tame_events 1 (exn_of r)
                       (Input stop_prompt # Enter M_clean_up_live_event_and_live_output # evs @ evs3)"
        using n p c0 n3 p3 c3 by (auto simp: tame_events_def)
      ultimately show ?thesis by blast
    qed
  qed
qed

lemma tame_Live_run_streaming:
  "tame 1 (Live_run_streaming lib self ev le asset lo loc ep)"
  unfolding Live_run_streaming_def
  by (intro stop_and_clean_up_tame [unfolded stop_prompt_def] tame_intros)

lemma tameP_Live_run_try: "tameP 1 (Live_run_try lib self le asset lo loc ep)"
  unfolding Live_run_try_def
  by (intro tameP_intros tame_create_live_event tame_Live_run_streaming)

lemma entries_append [simp]: "entries (xs @ ys) = entries xs @ entries ys"
  by (induction xs rule: entries.induct) auto

lemma entries_no_Enter: "\<forall>m. Enter m \<notin> set evs \<Longrightarrow> entries evs = []"
  by (induction evs rule: entries.induct) auto

lemma entries_only_live_event:
  "Enter M_clean_up_locator_and_asset \<notin> set evs \<Longrightarrow>
     entries evs = replicate (count_list evs (Enter M_clean_up_live_event_and_live_output))
                     M_clean_up_live_event_and_live_output"
proof (induction evs rule: entries.induct)
  case 1
  show ?case by simp
next
  case (2 m evs)
  then show ?case by (cases m) auto
qed auto

lemma set_entries: "m \<in> set (entries evs) \<longleftrightarrow> Enter m \<in> set evs"
  by (induction evs rule: entries.induct) auto

lemma Live_run_except_cases:
  assumes "Live_run_except (r1, s1) = (r2, s2)"
  shows "(\<exists>msg. r1 = Inl (ApiErrorException msg) \<and> r2 = Inr ()
            \<and> trace s2 = trace s1 @ [Print ''Hit ApiErrorException'' [],
                                       Print ''{}'' [PExn (ApiErrorException msg)]])
         \<or> ((\<forall>msg. r1 \<noteq> Inl (ApiErrorException msg)) \<and> r2 = r1 \<and> s2 = s1)"
proof (cases r1)
  case (Inl e)
  with assms show ?thesis by (cases e) auto
next
  case (Inr u)
  with assms show ?thesis by auto
qed

lemma Live_run_finally_events:
  assumes "Live_run_finally lib self le loc asset (r2, s2) = (r, s')"
  shows "\<exists>evs. trace s' = trace s2 @ Enter M_clean_up_live_event_and_live_output # evs
           \<and> (entries evs = [] \<or> entries evs = [M_clean_up_locator_and_asset])
           \<and> (\<forall>e. ApiRaised e \<in> set evs \<longrightarrow> r = Inl e)
           \<and> (entries evs = [] \<longrightarrow> (\<exists>e. r = Inl e \<and> ApiRaised e \<in> set evs))
           \<and> ((\<forall>e. ApiRaised e \<notin> set evs) \<longrightarrow>
                 r = r2 \<and> entries evs = [M_clean_up_locator_and_asset]
                 \<and> Api (Streaming_locators_delete (resource_group_name self) (account_name self) loc)
                     \<in> set evs
                 \<and> Api (Assets_delete (resource_group_name self) (account_name self) asset)
                     \<in> set evs)"
proof -
  let ?both = "bindM (clean_up_live_event_and_live_output lib self (resource_group_name self)
                        (account_name self) le)
                 (\<lambda>_. clean_up_locator_and_asset self (resource_group_name self) (account_name self)
                        loc asset)"
  obtain c s3 where b: "?both s2 = (c, s3)" by (cases "?both s2") auto
  from assms b have s': "s' = s3" and r: "r = (case c of Inl e \<Rightarrow> Inl e | Inr u \<Rightarrow> r2)"
    by (auto simp: Live_run_finally_def split: sum.splits)
  from b show ?thesis
  proof (cases rule: bindM_cases)
    case (raised e)
    from clean_up_live_event_events [OF raised(1)] obtain evs where
      t: "trace s3 = trace s2 @ Enter M_clean_up_live_event_and_live_output # evs"
      and n: "\<forall>m. Enter m \<notin> set evs"
      and p: "\<forall>e'. ApiRaised e' \<in> set evs \<longrightarrow> (Inl e :: exn + unit) = Inl e'"
      and q: "\<forall>e'. (Inl e :: exn + unit) = Inl e' \<longrightarrow> ApiRaised e' \<in> set evs" by blast
    from raised(2) r have re: "r = Inl e" by simp
    from q have ar: "ApiRaised e \<in> set evs" by simp
    have c1: "trace s' = trace s2 @ Enter M_clean_up_live_event_and_live_output # evs"
      using t s' by simp
    have c2: "entries evs = []" by (rule entries_no_Enter [OF n])
    have c3: "\<forall>e'. ApiRaised e' \<in> set evs \<longrightarrow> r = Inl e'"
      using p re by simp
    show ?thesis
    proof (intro exI conjI)
      show "trace s' = trace s2 @ Enter M_clean_up_live_event_and_live_output # evs" by (rule c1)
      show "entries evs = [] \<or> entries evs = [M_clean_up_locator_and_asset]"
        using c2 by simp
      show "\<forall>e. ApiRaised e \<in> set evs \<longrightarrow> r = Inl e" by (rule c3)
      show "entries evs = [] \<longrightarrow> (\<exists>e. r = Inl e \<and> ApiRaised e \<in> set evs)"
        using re ar by blast
      show "(\<forall>e. ApiRaised e \<notin> set evs) \<longrightarrow>
                 r = r2 \<and> entries evs = [M_clean_up_locator_and_asset]
                 \<and> Api (Streaming_locators_delete (resource_group_name self) (account_name self) loc)
                     \<in> set evs
                 \<and> Api (Assets_delete (resource_group_name self) (account_name self) asset)
                     \<in> set evs"
        using ar by blast
    qed
  next
    case (returned u s1)
    from clean_up_live_event_events [OF returned(1)] obtain evs1 where
      t1: "trace s1 = trace s2 @ Enter M_clean_up_live_event_and_live_output # evs1"
      and n1: "\<forall>m. Enter m \<notin> set evs1"
      and p1: "\<forall>e'. ApiRaised e' \<notin> set evs1" by fastforce
    from clean_up_locator_and_asset_events [OF returned(2)] obtain evs2 where
      t2: "trace s3 = trace s1 @ Enter M_clean_up_locator_and_asset # evs2"
      and n2: "\<forall>m. Enter m \<notin> set evs2"
      and p2: "\<forall>e. ApiRaised e \<in> set evs2 \<longrightarrow> c = Inl e"
      and q2: "\<forall>e. c = Inl e \<longrightarrow> ApiRaised e \<in> set evs2"
      and d1: "Api (Streaming_locators_delete (resource_group_name self) (account_name self) loc)
                 \<in> set evs2"
      and d2: "c = Inr () \<longrightarrow>
                 Api (Assets_delete (resource_group_name self) (account_name self) asset) \<in> set evs2"
      by blast
    let ?evs = "evs1 @ Enter M_clean_up_locator_and_asset # evs2"
    have t: "trace s' = trace s2 @ Enter M_clean_up_live_event_and_live_output # ?evs"
      using t1 t2 s' by simp
    have en: "entries ?evs = [M_clean_up_locator_and_asset]"
      using entries_no_Enter [OF n1] entries_no_Enter [OF n2] by simp
    have pr: "\<forall>e. ApiRaised e \<in> set ?evs \<longrightarrow> r = Inl e"
      using p1 p2 r by auto
    have ok: "(\<forall>e. ApiRaised e \<notin> set ?evs) \<longrightarrow>
                 r = r2
                 \<and> Api (Streaming_locators_delete (resource_group_name self) (account_name self) loc)
                     \<in> set ?evs
                 \<and> Api (Assets_delete (resource_group_name self) (account_name self) asset)
                     \<in> set ?evs"
    proof
      assume a: "\<forall>e. ApiRaised e \<notin> set ?evs"
      have "c = Inr ()"
      proof (cases c)
        case (Inl e)
        with q2 a show ?thesis by auto
      next
        case (Inr v)
        then show ?thesis by simp
      qed
      with r d1 d2 show "r = r2
                 \<and> Api (Streaming_locators_delete (resource_group_name self) (account_name self) loc)
                     \<in> set ?evs
                 \<and> Api (Assets_delete (resource_group_name self) (account_name self) asset)
                     \<in> set ?evs" by simp
    qed
    show ?thesis
    proof (intro exI conjI)
      show "trace s' = trace s2 @ Enter M_clean_up_live_event_and_live_output # ?evs" by (rule t)
      show "entries ?evs = [] \<or> entries ?evs = [M_clean_up_locator_and_asset]"
        using en by simp
      show "\<forall>e. ApiRaised e \<in> set ?evs \<longrightarrow> r = Inl e" by (rule pr)
      show "entries ?evs = [] \<longrightarrow> (\<exists>e. r = Inl e \<and> ApiRaised e \<in> set ?evs)"
        using en by simp
      show "(\<forall>e. ApiRaised e \<notin> set ?evs) \<longrightarrow>
                 r = r2 \<and> entries ?evs = [M_clean_up_locator_and_asset]
                 \<and> Api (Streaming_locators_delete (resource_group_name self) (account_name self) loc)
                     \<in> set ?evs
                 \<and> Api (Assets_delete (resource_group_name self) (account_name self) asset)
                     \<in> set ?evs"
        using ok en by blast
    qed
  qed
qed

lemma Live_run_structure:
  assumes "Live_run lib self s = Some (r, s')"
  obtains r1 s1 evs_t h evs_f where
    "Live_run_try lib self (''liveevent-'' @ take 13 (fst (uuid1 lib (world s))))
       (''archiveasset-'' @ take 13 (fst (uuid1 lib (world s))))
       (''liveoutput-'' @ take 13 (fst (uuid1 lib (world s))))
       (''streaminglocator-'' @ take 13 (fst (uuid1 lib (world s)))) ''default''
       \<lparr>world = snd (uuid1 lib (world s)), trace = trace s\<rparr> = Some (r1, s1)"
    "trace s1 = trace s @ evs_t"
    "tame_events 1 (exn_of r1) evs_t"
    "(\<exists>msg. r1 = Inl (ApiErrorException msg)
         \<and> h = [Print ''Hit ApiErrorException'' [], Print ''{}'' [PExn (ApiErrorException msg)]])
     \<or> ((\<forall>msg. r1 \<noteq> Inl (ApiErrorException msg)) \<and> h = [])"
    "trace s' = trace s1 @ h @ Enter M_clean_up_live_event_and_live_output # evs_f"
    "entries evs_f = [] \<or> entries evs_f = [M_clean_up_locator_and_asset]"
    "\<forall>e. ApiRaised e \<in> set evs_f \<longrightarrow> r = Inl e"
    "entries evs_f = [] \<longrightarrow> (\<exists>e. r = Inl e \<and> ApiRaised e \<in> set evs_f)"
    "(\<forall>e. ApiRaised e \<notin> set evs_f) \<longrightarrow>
       r = fst (Live_run_except (r1, s1)) \<and> entries evs_f = [M_clean_up_locator_and_asset]
       \<and> Api (Streaming_locators_delete (resource_group_name self) (account_name self)
                (''streaminglocator-'' @ take 13 (fst (uuid1 lib (world s))))) \<in> set evs_f
       \<and> Api (Assets_delete (resource_group_name self) (account_name self)
                (''archiveasset-'' @ take 13 (fst (uuid1 lib (world s))))) \<in> set evs_f"
proof -
  let ?u = "take 13 (fst (uuid1 lib (world s)))"
  let ?s0 = "\<lparr>world = snd (uuid1 lib (world s)), trace = trace s\<rparr>"
  let ?tb = "Live_run_try lib self (''liveevent-'' @ ?u) (''archiveasset-'' @ ?u)
                (''liveoutput-'' @ ?u) (''streaminglocator-'' @ ?u) ''default''"
  from assms obtain o1 where tb: "?tb ?s0 = Some o1"
    and fin: "Live_run_finally lib self (''liveevent-'' @ ?u) (''streaminglocator-'' @ ?u)
                (''archiveasset-'' @ ?u) (Live_run_except o1) = (r, s')"
    by (cases "uuid1 lib (world s)"; cases "?tb ?s0")
       (auto simp: Live_run_def Let_def split: option.splits)
  obtain r1 s1 where o1: "o1 = (r1, s1)" by (cases o1) auto
  obtain r2 s2 where ex: "Live_run_except (r1, s1) = (r2, s2)"
    by (cases "Live_run_except (r1, s1)") auto
  from tamePD [OF tameP_Live_run_try tb [unfolded o1]] obtain evs_t where
    t1: "trace s1 = trace ?s0 @ evs_t" and e1: "tame_events 1 (exn_of r1) evs_t" by blast
  from Live_run_except_cases [OF ex] obtain h where
    h: "(\<exists>msg. r1 = Inl (ApiErrorException msg)
         \<and> h = [Print ''Hit ApiErrorException'' [], Print ''{}'' [PExn (ApiErrorException msg)]])
     \<or> ((\<forall>msg. r1 \<noteq> Inl (ApiErrorException msg)) \<and> h = [])"
    and t2: "trace s2 = trace s1 @ h" by auto
  from Live_run_finally_events [OF fin [unfolded o1 ex]] obtain evs_f where
    t3: "trace s' = trace s2 @ Enter M_clean_up_live_event_and_live_output # evs_f"
    and f1: "entries evs_f = [] \<or> entries evs_f = [M_clean_up_locator_and_asset]"
    and f2: "\<forall>e. ApiRaised e \<in> set evs_f \<longrightarrow> r = Inl e"
    and f3: "entries evs_f = [] \<longrightarrow> (\<exists>e. r = Inl e \<and> ApiRaised e \<in> set evs_f)"
    and f4: "(\<forall>e. ApiRaised e \<notin> set evs_f) \<longrightarrow>
       r = r2 \<and> entries evs_f = [M_clean_up_locator_and_asset]
       \<and> Api (Streaming_locators_delete (resource_group_name self) (account_name self)
                (''streaminglocator-'' @ ?u)) \<in> set evs_f
       \<and> Api (Assets_delete (resource_group_name self) (account_name self)
                (''archiveasset-'' @ ?u)) \<in> set evs_f"
    by blast
  have a1: "?tb ?s0 = Some (r1, s1)" using tb o1 by simp
  have a2: "trace s1 = trace s @ evs_t" using t1 by simp
  have a5: "trace s' = trace s1 @ h @ Enter M_clean_up_live_event_and_live_output # evs_f"
    using t2 t3 by simp
  have a9: "(\<forall>e. ApiRaised e \<notin> set evs_f) \<longrightarrow>
       r = fst (Live_run_except (r1, s1)) \<and> entries evs_f = [M_clean_up_locator_and_asset]
       \<and> Api (Streaming_locators_delete (resource_group_name self) (account_name self)
                (''streaminglocator-'' @ ?u)) \<in> set evs_f
       \<and> Api (Assets_delete (resource_group_name self) (account_name self)
                (''archiveasset-'' @ ?u)) \<in> set evs_f"
    using f4 ex by simp
  from that [OF a1 a2 e1 h a5 f1 f2 f3 a9] show thesis .
qed

text \<open>One round of the loop, for evaluation: when the fetch does not answer \<^verbatim>\<open>None\<close>
  the loop ends in this round.\<close>

lemma wait_for_live_event_eval:
  assumes "fst (live_events_get (client self) (resource_group_name self) (account_name self) n
                  (world s)) \<noteq> Inr None"
  shows "wait_for_live_event lib self n s =
           (case invoke (Live_events_get (resource_group_name self) (account_name self) n)
                   (live_events_get (client self) (resource_group_name self) (account_name self) n) s
            of (Inl e, s1) \<Rightarrow> Some (Inl e, s1)
             | (Inr None, s1) \<Rightarrow> None
             | (Inr (Some live_event), s1) \<Rightarrow> Some (Inr live_event, s1))"
  using assms
  by (subst wait_for_live_event.simps)
     (auto simp: invoke_result split: sum.splits option.splits)

lemmas Live_run_eval =
  Live_run_def Live_run_try_def bindP_def liftP_def create_live_event_def
  wait_for_live_event_eval Live_run_streaming_def Live_run_finally_def
  clean_up_live_event_and_live_output_def clean_up_locator_and_asset_def bindM_def invoke_def
  printM_def print_def returnM_def raiseM_def enterM_def sleepM_def sleep_def inputM_def
  first_item_def stub_libs_def stub_self_def stub_client_def stub_state_def Let_def

lemma Live_run_stub_entries:
  "outcome_entries (Live_run stub_libs (stub_self stub_client) (stub_state 0))
     = Some (Inr (), [M_clean_up_live_event_and_live_output, M_clean_up_locator_and_asset])"
  by (simp add: Live_run_eval)

lemma Live_run_streaming_entries:
  "outcome_entries (Live_run stub_libs (stub_self client_streaming) (stub_state 0))
     = Some (Inr (), [M_clean_up_live_event_and_live_output, M_clean_up_live_event_and_live_output,
                      M_clean_up_locator_and_asset])"
  by (simp add: Live_run_eval client_streaming_def)

lemma Live_run_down:
  "Live_run stub_libs (stub_self client_down) (stub_state 0)
     = Some (Inl (ApiErrorException ''down''),
             \<lparr>world = 0,
              trace = [Api (Mediaservices_get ''rg'' ''acct''),
                       ApiRaised (ApiErrorException ''down''),
                       Print ''Hit ApiErrorException'' [],
                       Print ''{}'' [PExn (ApiErrorException ''down'')],
                       Enter M_clean_up_live_event_and_live_output,
                       Api (Live_events_get ''rg'' ''acct'' ''liveevent-0a1b2c3d-4e5f''),
                       ApiRaised (ApiErrorException ''down'')]\<rparr>)"
  by (simp add: Live_run_eval client_down_def)

lemma Analyze_run_down:
  "Analyze_run stub_libs (stub_analyze_self client_down) (stub_state 0)
     = Some (Inl (ApiErrorException ''down''),
             \<lparr>world = 0,
              trace = [Api (Transforms_get ''rg'' ''acct'' ''t''),
                       ApiRaised (ApiErrorException ''down'')]\<rparr>)"
  by (simp add: Analyze_run_def bindP_def liftP_def effect_total_def
        Analyze_get_or_create_transform_def bindM_def invoke_def stub_libs_def
        stub_analyze_self_def client_down_def stub_client_def stub_state_def Let_def)

lemma Encrypt_run_down:
  "Encrypt_run stub_libs (stub_encrypt_self client_down) (stub_state 0)
     = Some (Inl (ApiErrorException ''down''),
             \<lparr>world = 0,
              trace = [Api (Transforms_get ''rg'' ''acct'' ''t''),
                       ApiRaised (ApiErrorException ''down'')]\<rparr>)"
  by (simp add: Encrypt_run_def bindP_def liftP_def effect_total_def
        Encrypt_get_or_create_transform_def bindM_def invoke_def stub_libs_def
        stub_encrypt_self_def client_down_def stub_client_def stub_state_def Let_def)

lemma run_propagates:
  assumes "tameP 0 m" "m s = Some (r, s')" "ApiRaised e \<in> set (new_events s s')"
  shows "r = Inl e"
proof -
  from tamePD [OF assms(1,2)] obtain evs where
    t: "trace s' = trace s @ evs" and te: "tame_events 0 (exn_of r) evs" by blast
  from t assms(3) have "ApiRaised e \<in> set evs" by (simp add: new_events_def)
  with te have "exn_of r = Some e" by (simp add: tame_events_def)
  then show ?thesis by (cases r) (simp_all add: exn_of_def)
qed

text \<open>
  Claim C6, as the source has it. In the live script's \<^verbatim>\<open>run\<close>, once the \<^verbatim>\<open>try\<close> block
  has ended with some outcome \<open>r1\<close>: an \<^verbatim>\<open>ApiErrorException\<close> is caught and printed (two
  lines), and no other exception is caught; the \<^verbatim>\<open>finally\<close> block then always enters
  \<^verbatim>\<open>clean_up_live_event_and_live_output\<close>; it enters \<^verbatim>\<open>clean_up_locator_and_asset\<close> too
  unless a remote call of the first cleanup raised, and an exception raised by a remote call
  in the \<^verbatim>\<open>finally\<close> block is the outcome of \<^verbatim>\<open>run\<close>; when no remote call of the
  \<^verbatim>\<open>finally\<close> block raises, the deletes of the streaming locator and of the archive
  asset are both issued and \<^verbatim>\<open>run\<close> returns normally after a caught
  \<^verbatim>\<open>ApiErrorException\<close> and ends as the \<^verbatim>\<open>try\<close> block did otherwise (first part). In the
  analyze and in the encrypt script, an exception raised by a remote call is the outcome of
  \<^verbatim>\<open>run\<close> (second and third part).
\<close>

theorem Live_run_exceptions_and_cleanup:
  "(Live_run lib self s = Some (r, s') \<longrightarrow>
      (\<exists>r1 s1 evs.
          Live_run_try lib self (''liveevent-'' @ take 13 (fst (uuid1 lib (world s))))
            (''archiveasset-'' @ take 13 (fst (uuid1 lib (world s))))
            (''liveoutput-'' @ take 13 (fst (uuid1 lib (world s))))
            (''streaminglocator-'' @ take 13 (fst (uuid1 lib (world s)))) ''default''
            \<lparr>world = snd (uuid1 lib (world s)), trace = trace s\<rparr> = Some (r1, s1)
        \<and> trace s' = trace s1 @ evs
        \<and> (\<forall>msg. r1 = Inl (ApiErrorException msg) \<longrightarrow>
              take 2 evs = [Print ''Hit ApiErrorException'' [],
                            Print ''{}'' [PExn (ApiErrorException msg)]])
        \<and> M_clean_up_live_event_and_live_output \<in> set (entries evs)
        \<and> (M_clean_up_locator_and_asset \<in> set (entries evs)
            \<or> (\<exists>e. r = Inl e \<and> ApiRaised e \<in> set evs))
        \<and> (\<forall>e. ApiRaised e \<in> set evs \<longrightarrow> r = Inl e)
        \<and> ((\<forall>e. ApiRaised e \<notin> set evs) \<longrightarrow>
              (\<forall>msg. r1 = Inl (ApiErrorException msg) \<longrightarrow> r = Inr ())
            \<and> ((\<forall>msg. r1 \<noteq> Inl (ApiErrorException msg)) \<longrightarrow> r = r1)
            \<and> Api (Streaming_locators_delete (resource_group_name self) (account_name self)
                     (''streaminglocator-'' @ take 13 (fst (uuid1 lib (world s))))) \<in> set evs
            \<and> Api (Assets_delete (resource_group_name self) (account_name self)
                     (''archiveasset-'' @ take 13 (fst (uuid1 lib (world s))))) \<in> set evs)))
   \<and> (Analyze_run lib2 self2 s2 = Some (r2, s2') \<and> ApiRaised e2 \<in> set (new_events s2 s2')
        \<longrightarrow> r2 = Inl e2)
   \<and> (Encrypt_run lib3 self3 s3 = Some (r3, s3') \<and> ApiRaised e3 \<in> set (new_events s3 s3')
        \<longrightarrow> r3 = Inl e3)"
proof (intro conjI impI)
  assume a: "Live_run lib self s = Some (r, s')"
  let ?u = "take 13 (fst (uuid1 lib (world s)))"
  from a obtain r1 s1 evs_t h evs_f where
    tb: "Live_run_try lib self (''liveevent-'' @ ?u) (''archiveasset-'' @ ?u) (''liveoutput-'' @ ?u)
           (''streaminglocator-'' @ ?u) ''default''
           \<lparr>world = snd (uuid1 lib (world s)), trace = trace s\<rparr> = Some (r1, s1)"
    and h: "(\<exists>msg. r1 = Inl (ApiErrorException msg)
         \<and> h = [Print ''Hit ApiErrorException'' [], Print ''{}'' [PExn (ApiErrorException msg)]])
     \<or> ((\<forall>msg. r1 \<noteq> Inl (ApiErrorException msg)) \<and> h = [])"
    and t: "trace s' = trace s1 @ h @ Enter M_clean_up_live_event_and_live_output # evs_f"
    and f1: "entries evs_f = [] \<or> entries evs_f = [M_clean_up_locator_and_asset]"
    and f2: "\<forall>e. ApiRaised e \<in> set evs_f \<longrightarrow> r = Inl e"
    and f3: "entries evs_f = [] \<longrightarrow> (\<exists>e. r = Inl e \<and> ApiRaised e \<in> set evs_f)"
    and f4: "(\<forall>e. ApiRaised e \<notin> set evs_f) \<longrightarrow>
       r = fst (Live_run_except (r1, s1)) \<and> entries evs_f = [M_clean_up_locator_and_asset]
       \<and> Api (Streaming_locators_delete (resource_group_name self) (account_name self)
                (''streaminglocator-'' @ ?u)) \<in> set evs_f
       \<and> Api (Assets_delete (resource_group_name self) (account_name self)
                (''archiveasset-'' @ ?u)) \<in> set evs_f"
    by (rule Live_run_structure)
  let ?evs = "h @ Enter M_clean_up_live_event_and_live_output # evs_f"
  have hp: "\<forall>e. ApiRaised e \<notin> set h" and he: "entries h = []" using h by auto
  have c1: "trace s' = trace s1 @ ?evs" using t by simp
  have c2: "\<forall>msg. r1 = Inl (ApiErrorException msg) \<longrightarrow>
              take 2 ?evs = [Print ''Hit ApiErrorException'' [],
                             Print ''{}'' [PExn (ApiErrorException msg)]]"
    using h by auto
  have c3: "M_clean_up_live_event_and_live_output \<in> set (entries ?evs)" by simp
  have c4: "M_clean_up_locator_and_asset \<in> set (entries ?evs)
            \<or> (\<exists>e. r = Inl e \<and> ApiRaised e \<in> set ?evs)"
  proof (cases "entries evs_f = []")
    case True
    with f3 obtain e where "r = Inl e" "ApiRaised e \<in> set evs_f" by blast
    then have "r = Inl e \<and> ApiRaised e \<in> set ?evs" by simp
    then show ?thesis by blast
  next
    case False
    with f1 have "entries evs_f = [M_clean_up_locator_and_asset]" by simp
    then show ?thesis by simp
  qed
  have c5: "\<forall>e. ApiRaised e \<in> set ?evs \<longrightarrow> r = Inl e"
    using f2 hp by auto
  have c6: "(\<forall>e. ApiRaised e \<notin> set ?evs) \<longrightarrow>
              (\<forall>msg. r1 = Inl (ApiErrorException msg) \<longrightarrow> r = Inr ())
            \<and> ((\<forall>msg. r1 \<noteq> Inl (ApiErrorException msg)) \<longrightarrow> r = r1)
            \<and> Api (Streaming_locators_delete (resource_group_name self) (account_name self)
                     (''streaminglocator-'' @ ?u)) \<in> set ?evs
            \<and> Api (Assets_delete (resource_group_name self) (account_name self)
                     (''archiveasset-'' @ ?u)) \<in> set ?evs"
  proof
    assume "\<forall>e. ApiRaised e \<notin> set ?evs"
    then have "\<forall>e. ApiRaised e \<notin> set evs_f" by simp
    with f4 have r: "r = fst (Live_run_except (r1, s1))"
      and d1: "Api (Streaming_locators_delete (resource_group_name self) (account_name self)
                (''streaminglocator-'' @ ?u)) \<in> set evs_f"
      and d2: "Api (Assets_delete (resource_group_name self) (account_name self)
                (''archiveasset-'' @ ?u)) \<in> set evs_f" by simp_all
    obtain r2 s2 where ex: "Live_run_except (r1, s1) = (r2, s2)"
      by (cases "Live_run_except (r1, s1)") auto
    from Live_run_except_cases [OF ex] r ex
    have "(\<forall>msg. r1 = Inl (ApiErrorException msg) \<longrightarrow> r = Inr ())
            \<and> ((\<forall>msg. r1 \<noteq> Inl (ApiErrorException msg)) \<longrightarrow> r = r1)"
      by auto
    with d1 d2 show "(\<forall>msg. r1 = Inl (ApiErrorException msg) \<longrightarrow> r = Inr ())
            \<and> ((\<forall>msg. r1 \<noteq> Inl (ApiErrorException msg)) \<longrightarrow> r = r1)
            \<and> Api (Streaming_locators_delete (resource_group_name self) (account_name self)
                     (''streaminglocator-'' @ ?u)) \<in> set ?evs
            \<and> Api (Assets_delete (resource_group_name self) (account_name self)
                     (''archiveasset-'' @ ?u)) \<in> set ?evs" by simp
  qed
  show "\<exists>r1 s1 evs.
          Live_run_try lib self (''liveevent-'' @ ?u) (''archiveasset-'' @ ?u) (''liveoutput-'' @ ?u)
            (''streaminglocator-'' @ ?u) ''default''
            \<lparr>world = snd (uuid1 lib (world s)), trace = trace s\<rparr> = Some (r1, s1)
        \<and> trace s' = trace s1 @ evs
        \<and> (\<forall>msg. r1 = Inl (ApiErrorException msg) \<longrightarrow>
              take 2 evs = [Print ''Hit ApiErrorException'' [],
                            Print ''{}'' [PExn (ApiErrorException msg)]])
        \<and> M_clean_up_live_event_and_live_output \<in> set (entries evs)
        \<and> (M_clean_up_locator_and_asset \<in> set (entries evs)
            \<or> (\<exists>e. r = Inl e \<and> ApiRaised e \<in> set evs))
        \<and> (\<forall>e. ApiRaised e \<in> set evs \<longrightarrow> r = Inl e)
        \<and> ((\<forall>e. ApiRaised e \<notin> set evs) \<longrightarrow>
              (\<forall>msg. r1 = Inl (ApiErrorException msg) \<longrightarrow> r = Inr ())
            \<and> ((\<forall>msg. r1 \<noteq> Inl (ApiErrorException msg)) \<longrightarrow> r = r1)
            \<and> Api (Streaming_locators_delete (resource_group_name self) (account_name self)
                     (''streaminglocator-'' @ ?u)) \<in> set evs
            \<and> Api (Assets_delete (resource_group_name self) (account_name self)
                     (''archiveasset-'' @ ?u)) \<in> set evs)"
  proof (intro exI conjI)
    show "Live_run_try lib self (''liveevent-'' @ ?u) (''archiveasset-'' @ ?u) (''liveoutput-'' @ ?u)
            (''streaminglocator-'' @ ?u) ''default''
            \<lparr>world = snd (uuid1 lib (world s)), trace = trace s\<rparr> = Some (r1, s1)" by (rule tb)
    show "trace s' = trace s1 @ ?evs" by (rule c1)
    show "\<forall>msg. r1 = Inl (ApiErrorException msg) \<longrightarrow>
              take 2 ?evs = [Print ''Hit ApiErrorException'' [],
                             Print ''{}'' [PExn (ApiErrorException msg)]]" by (rule c2)
    show "M_clean_up_live_event_and_live_output \<in> set (entries ?evs)" by (rule c3)
    show "M_clean_up_locator_and_asset \<in> set (entries ?evs)
            \<or> (\<exists>e. r = Inl e \<and> ApiRaised e \<in> set ?evs)" by (rule c4)
    show "\<forall>e. ApiRaised e \<in> set ?evs \<longrightarrow> r = Inl e" by (rule c5)
    show "(\<forall>e. ApiRaised e \<notin> set ?evs) \<longrightarrow>
              (\<forall>msg. r1 = Inl (ApiErrorException msg) \<longrightarrow> r = Inr ())
            \<and> ((\<forall>msg. r1 \<noteq> Inl (ApiErrorException msg)) \<longrightarrow> r = r1)
            \<and> Api (Streaming_locators_delete (resource_group_name self) (account_name self)
                     (''streaminglocator-'' @ ?u)) \<in> set ?evs
            \<and> Api (Assets_delete (resource_group_name self) (account_name self)
                     (''archiveasset-'' @ ?u)) \<in> set ?evs" by (rule c6)
  qed
next
  assume "Analyze_run lib2 self2 s2 = Some (r2, s2') \<and> ApiRaised e2 \<in> set (new_events s2 s2')"
  then show "r2 = Inl e2" using run_propagates [OF tameP_Analyze_run] by blast
next
  assume "Encrypt_run lib3 self3 s3 = Some (r3, s3') \<and> ApiRaised e3 \<in> set (new_events s3 s3')"
  then show "r3 = Inl e3" using run_propagates [OF tameP_Encrypt_run] by blast
qed

theorem Live_run_exceptions_and_cleanup_witness:
  "(\<exists>r1 s1 evs.
      Live_run_try stub_libs (stub_self client_down) ''liveevent-0a1b2c3d-4e5f''
        ''archiveasset-0a1b2c3d-4e5f'' ''liveoutput-0a1b2c3d-4e5f''
        ''streaminglocator-0a1b2c3d-4e5f'' ''default'' \<lparr>world = 0, trace = []\<rparr> = Some (r1, s1)
      \<and> [Api (Mediaservices_get ''rg'' ''acct''),
          ApiRaised (ApiErrorException ''down''),
          Print ''Hit ApiErrorException'' [],
          Print ''{}'' [PExn (ApiErrorException ''down'')],
          Enter M_clean_up_live_event_and_live_output,
          Api (Live_events_get ''rg'' ''acct'' ''liveevent-0a1b2c3d-4e5f''),
          ApiRaised (ApiErrorException ''down'')] = trace s1 @ evs
      \<and> M_clean_up_live_event_and_live_output \<in> set (entries evs))
   \<and> fst (the (Analyze_run stub_libs (stub_analyze_self client_down) (stub_state 0)))
       = Inl (ApiErrorException ''down'')
   \<and> fst (the (Encrypt_run stub_libs (stub_encrypt_self client_down) (stub_state 0)))
       = Inl (ApiErrorException ''down'')"
proof -
  let ?S = "\<lparr>world = 0,
             trace = [Api (Mediaservices_get ''rg'' ''acct''),
                      ApiRaised (ApiErrorException ''down''),
                      Print ''Hit ApiErrorException'' [],
                      Print ''{}'' [PExn (ApiErrorException ''down'')],
                      Enter M_clean_up_live_event_and_live_output,
                      Api (Live_events_get ''rg'' ''acct'' ''liveevent-0a1b2c3d-4e5f''),
                      ApiRaised (ApiErrorException ''down'')]\<rparr> :: nat state"
  let ?T = "\<lparr>world = 0,
             trace = [Api (Transforms_get ''rg'' ''acct'' ''t''),
                      ApiRaised (ApiErrorException ''down'')]\<rparr> :: nat state"
  have h1: "Live_run stub_libs (stub_self client_down) (stub_state 0)
              = Some (Inl (ApiErrorException ''down''), ?S)"
    by (rule Live_run_down)
  have h2: "Analyze_run stub_libs (stub_analyze_self client_down) (stub_state 0)
              = Some (Inl (ApiErrorException ''down''), ?T)
            \<and> ApiRaised (ApiErrorException ''down'') \<in> set (new_events (stub_state 0) ?T)"
    using Analyze_run_down by (simp add: new_events_def stub_state_def)
  have h3: "Encrypt_run stub_libs (stub_encrypt_self client_down) (stub_state 0)
              = Some (Inl (ApiErrorException ''down''), ?T)
            \<and> ApiRaised (ApiErrorException ''down'') \<in> set (new_events (stub_state 0) ?T)"
    using Encrypt_run_down by (simp add: new_events_def stub_state_def)
  have u: "take 13 (fst (uuid1 stub_libs (world (stub_state 0)))) = ''0a1b2c3d-4e5f''"
    "snd (uuid1 stub_libs (world (stub_state 0))) = 0" "trace (stub_state 0) = []"
    by (simp_all add: stub_libs_def stub_state_def)
  from Live_run_exceptions_and_cleanup
         [where lib = stub_libs and self = "stub_self client_down" and s = "stub_state 0"
            and r = "Inl (ApiErrorException ''down'')" and s' = ?S
            and ?lib2.0 = stub_libs and ?self2.0 = "stub_analyze_self client_down"
            and ?s2.0 = "stub_state 0" and ?r2.0 = "Inl (ApiErrorException ''down'')"
            and s2' = ?T and ?e2.0 = "ApiErrorException ''down''"
            and ?lib3.0 = stub_libs and ?self3.0 = "stub_encrypt_self client_down"
            and ?s3.0 = "stub_state 0" and ?r3.0 = "Inl (ApiErrorException ''down'')"
            and s3' = ?T and ?e3.0 = "ApiErrorException ''down''"]
       h1
  obtain r1 s1 evs where
    a: "Live_run_try stub_libs (stub_self client_down) ''liveevent-0a1b2c3d-4e5f''
        ''archiveasset-0a1b2c3d-4e5f'' ''liveoutput-0a1b2c3d-4e5f''
        ''streaminglocator-0a1b2c3d-4e5f'' ''default'' \<lparr>world = 0, trace = []\<rparr> = Some (r1, s1)"
    and b: "trace ?S = trace s1 @ evs"
    and c: "M_clean_up_live_event_and_live_output \<in> set (entries evs)"
    unfolding u by auto
  from b have b': "[Api (Mediaservices_get ''rg'' ''acct''),
          ApiRaised (ApiErrorException ''down''),
          Print ''Hit ApiErrorException'' [],
          Print ''{}'' [PExn (ApiErrorException ''down'')],
          Enter M_clean_up_live_event_and_live_output,
          Api (Live_events_get ''rg'' ''acct'' ''liveevent-0a1b2c3d-4e5f''),
          ApiRaised (ApiErrorException ''down'')] = trace s1 @ evs" by simp
  have d: "fst (the (Analyze_run stub_libs (stub_analyze_self client_down) (stub_state 0)))
             = Inl (ApiErrorException ''down'')"
    "fst (the (Encrypt_run stub_libs (stub_encrypt_self client_down) (stub_state 0)))
             = Inl (ApiErrorException ''down'')"
    using h2 h3 by simp_all
  from a b' c d show ?thesis by blast
qed

text \<open>
  Claim C6 as it is stated fails when the service is down: \<^verbatim>\<open>run\<close> catches the
  \<^verbatim>\<open>ApiErrorException\<close> of \<^verbatim>\<open>create_live_event\<close>, the \<^verbatim>\<open>finally\<close> block calls
  \<^verbatim>\<open>clean_up_live_event_and_live_output\<close>, whose \<^verbatim>\<open>live_events.get\<close> raises, and
  \<^verbatim>\<open>clean_up_locator_and_asset\<close> is never entered: neither the streaming locator nor the
  archive asset is deleted.
\<close>

theorem Live_run_exceptions_and_cleanup_counterexample:
  "outcome_api_calls (Live_run stub_libs (stub_self client_down) (stub_state 0))
     = Some (Inl (ApiErrorException ''down''),
             [Mediaservices_get ''rg'' ''acct'',
              Live_events_get ''rg'' ''acct'' ''liveevent-0a1b2c3d-4e5f''])
   \<and> outcome_entries (Live_run stub_libs (stub_self client_down) (stub_state 0))
     = Some (Inl (ApiErrorException ''down''), [M_clean_up_live_event_and_live_output])"
  by (simp add: Live_run_down)

text \<open>
  Claim C7, as the source has it. In every execution of the live script's \<^verbatim>\<open>run\<close> that
  ends, the entries into the two cleanup methods are, in order, one of: live event, locator;
  live event, live event, locator; live event; live event, live event. So
  \<^verbatim>\<open>clean_up_live_event_and_live_output\<close> is entered once by the \<^verbatim>\<open>finally\<close> block and at
  most once before it, by the \<^verbatim>\<open>try\<close> block after its prompt; and
  \<^verbatim>\<open>clean_up_locator_and_asset\<close> is entered at most once, last, and always when \<^verbatim>\<open>run\<close>
  returns normally; when it is not entered, \<^verbatim>\<open>run\<close> raises the exception of a remote call.
\<close>

theorem Live_run_cleanup_entries:
  "Live_run lib self s = Some (r, s') \<longrightarrow>
     (entries (new_events s s')
        = [M_clean_up_live_event_and_live_output, M_clean_up_locator_and_asset]
      \<or> entries (new_events s s')
        = [M_clean_up_live_event_and_live_output, M_clean_up_live_event_and_live_output,
           M_clean_up_locator_and_asset]
      \<or> entries (new_events s s') = [M_clean_up_live_event_and_live_output]
      \<or> entries (new_events s s')
        = [M_clean_up_live_event_and_live_output, M_clean_up_live_event_and_live_output])
     \<and> (r = Inr () \<longrightarrow> M_clean_up_locator_and_asset \<in> set (entries (new_events s s')))
     \<and> (M_clean_up_locator_and_asset \<notin> set (entries (new_events s s')) \<longrightarrow>
          (\<exists>e. r = Inl e \<and> ApiRaised e \<in> set (new_events s s')))
     \<and> (count_list (entries (new_events s s')) M_clean_up_live_event_and_live_output = 2 \<longrightarrow>
          Input ''Press enter to stop the LiveOutput...'' \<in> set (new_events s s'))"
proof
  assume a: "Live_run lib self s = Some (r, s')"
  let ?u = "take 13 (fst (uuid1 lib (world s)))"
  from a obtain r1 s1 evs_t h evs_f where
    tb: "Live_run_try lib self (''liveevent-'' @ ?u) (''archiveasset-'' @ ?u) (''liveoutput-'' @ ?u)
           (''streaminglocator-'' @ ?u) ''default''
           \<lparr>world = snd (uuid1 lib (world s)), trace = trace s\<rparr> = Some (r1, s1)"
    and t1: "trace s1 = trace s @ evs_t"
    and te: "tame_events 1 (exn_of r1) evs_t"
    and h: "(\<exists>msg. r1 = Inl (ApiErrorException msg)
         \<and> h = [Print ''Hit ApiErrorException'' [], Print ''{}'' [PExn (ApiErrorException msg)]])
     \<or> ((\<forall>msg. r1 \<noteq> Inl (ApiErrorException msg)) \<and> h = [])"
    and t: "trace s' = trace s1 @ h @ Enter M_clean_up_live_event_and_live_output # evs_f"
    and f1: "entries evs_f = [] \<or> entries evs_f = [M_clean_up_locator_and_asset]"
    and f2: "\<forall>e. ApiRaised e \<in> set evs_f \<longrightarrow> r = Inl e"
    and f3: "entries evs_f = [] \<longrightarrow> (\<exists>e. r = Inl e \<and> ApiRaised e \<in> set evs_f)"
    and f4: "(\<forall>e. ApiRaised e \<notin> set evs_f) \<longrightarrow>
       r = fst (Live_run_except (r1, s1)) \<and> entries evs_f = [M_clean_up_locator_and_asset]
       \<and> Api (Streaming_locators_delete (resource_group_name self) (account_name self)
                (''streaminglocator-'' @ ?u)) \<in> set evs_f
       \<and> Api (Assets_delete (resource_group_name self) (account_name self)
                (''archiveasset-'' @ ?u)) \<in> set evs_f"
    by (rule Live_run_structure)
  let ?L = "M_clean_up_live_event_and_live_output"
  let ?A = "M_clean_up_locator_and_asset"
  have he: "entries h = []" using h by auto
  have ne: "new_events s s' = evs_t @ h @ Enter ?L # evs_f"
    using t t1 by (simp add: new_events_def)
  from te have noA: "Enter ?A \<notin> set evs_t" and c1: "count_list evs_t (Enter ?L) \<le> 1"
    and inp: "Enter ?L \<in> set evs_t \<longrightarrow> Input stop_prompt \<in> set evs_t"
    by (simp_all add: tame_events_def)
  have et: "entries evs_t = replicate (count_list evs_t (Enter ?L)) ?L"
    by (rule entries_only_live_event [OF noA])
  have et': "entries evs_t = [] \<or> entries evs_t = [?L]"
  proof (cases "count_list evs_t (Enter ?L) = 0")
    case True
    with et show ?thesis by simp
  next
    case False
    with c1 have "count_list evs_t (Enter ?L) = Suc 0" by simp
    with et show ?thesis by simp
  qed
  have es: "entries (new_events s s') = entries evs_t @ ?L # entries evs_f"
    using ne he by simp
  have p1: "entries (new_events s s') = [?L, ?A] \<or> entries (new_events s s') = [?L, ?L, ?A]
            \<or> entries (new_events s s') = [?L] \<or> entries (new_events s s') = [?L, ?L]"
    using es et' f1 by auto
  have p2: "r = Inr () \<longrightarrow> ?A \<in> set (entries (new_events s s'))"
  proof
    assume r: "r = Inr ()"
    have "entries evs_f \<noteq> []"
    proof
      assume "entries evs_f = []"
      with f3 r show False by auto
    qed
    with f1 have "entries evs_f = [?A]" by simp
    with es show "?A \<in> set (entries (new_events s s'))" by simp
  qed
  have p3: "?A \<notin> set (entries (new_events s s')) \<longrightarrow>
              (\<exists>e. r = Inl e \<and> ApiRaised e \<in> set (new_events s s'))"
  proof
    assume "?A \<notin> set (entries (new_events s s'))"
    with es have "entries evs_f \<noteq> [?A]" by auto
    with f1 have "entries evs_f = []" by simp
    with f3 obtain e where "r = Inl e" "ApiRaised e \<in> set evs_f" by blast
    with ne have "r = Inl e \<and> ApiRaised e \<in> set (new_events s s')" by simp
    then show "\<exists>e. r = Inl e \<and> ApiRaised e \<in> set (new_events s s')" by blast
  qed
  have p4: "count_list (entries (new_events s s')) ?L = 2 \<longrightarrow>
              Input ''Press enter to stop the LiveOutput...'' \<in> set (new_events s s')"
  proof
    assume c: "count_list (entries (new_events s s')) ?L = 2"
    have "entries evs_t = [?L]"
    proof (rule ccontr)
      assume "entries evs_t \<noteq> [?L]"
      with et' have "entries evs_t = []" by simp
      with es f1 c show False by auto
    qed
    then have "?L \<in> set (entries evs_t)" by simp
    then have "Enter ?L \<in> set evs_t" by (simp add: set_entries)
    with inp have "Input stop_prompt \<in> set evs_t" by simp
    with ne show "Input ''Press enter to stop the LiveOutput...'' \<in> set (new_events s s')"
      by (simp add: stop_prompt_def)
  qed
  from p1 p2 p3 p4
  show "(entries (new_events s s') = [?L, ?A] \<or> entries (new_events s s') = [?L, ?L, ?A]
            \<or> entries (new_events s s') = [?L] \<or> entries (new_events s s') = [?L, ?L])
     \<and> (r = Inr () \<longrightarrow> ?A \<in> set (entries (new_events s s')))
     \<and> (?A \<notin> set (entries (new_events s s')) \<longrightarrow>
          (\<exists>e. r = Inl e \<and> ApiRaised e \<in> set (new_events s s')))
     \<and> (count_list (entries (new_events s s')) ?L = 2 \<longrightarrow>
          Input ''Press enter to stop the LiveOutput...'' \<in> set (new_events s s'))"
    by (intro conjI)
qed

theorem Live_run_cleanup_entries_witness:
  "\<exists>s'. Live_run stub_libs (stub_self stub_client) (stub_state 0) = Some (Inr (), s')
        \<and> M_clean_up_locator_and_asset \<in> set (entries (new_events (stub_state 0) s'))
        \<and> entries (new_events (stub_state 0) s')
            = [M_clean_up_live_event_and_live_output, M_clean_up_locator_and_asset]"
proof -
  from Live_run_stub_entries obtain s' where
    h: "Live_run stub_libs (stub_self stub_client) (stub_state 0) = Some (Inr (), s')"
    and e: "entries (trace s') = [M_clean_up_live_event_and_live_output, M_clean_up_locator_and_asset]"
    by (cases "Live_run stub_libs (stub_self stub_client) (stub_state 0)") auto
  from e have e': "entries (new_events (stub_state 0) s')
            = [M_clean_up_live_event_and_live_output, M_clean_up_locator_and_asset]"
    by (simp add: new_events_def stub_state_def)
  from Live_run_cleanup_entries [of stub_libs "stub_self stub_client" "stub_state 0" "Inr ()" s'] h
  have "M_clean_up_locator_and_asset \<in> set (entries (new_events (stub_state 0) s'))" by simp
  with h e' show ?thesis by blast
qed

text \<open>
  Claim C7 as it is stated fails on the run in which everything succeeds and streaming
  paths are found: \<^verbatim>\<open>clean_up_live_event_and_live_output\<close> is called in the \<^verbatim>\<open>try\<close> block
  after the prompt and again in the \<^verbatim>\<open>finally\<close> block, twice in all.
\<close>

theorem Live_run_cleanup_entries_counterexample:
  "outcome_entries (Live_run stub_libs (stub_self client_streaming) (stub_state 0))
     = Some (Inr (), [M_clean_up_live_event_and_live_output, M_clean_up_live_event_and_live_output,
                      M_clean_up_locator_and_asset])"
  by (rule Live_run_streaming_entries)

end
